theory Spec2Isabelle
  imports Main "HOL-Library.Word" "HOL-Library.Monad_Syntax"
begin

unbundle bit_operations_syntax

section \<open>The AArch64 back-end of the UML recompiler (drcbearm64.cpp)\<close>

text \<open>
  The back-end is a code generator: every function of the source appends host
  instructions to an assembler.  The embedding keeps that shape.  A generator function
  of the source becomes a HOL function that returns the list of instructions it emits
  (and the updated generator state where the source function is not \<open>const\<close>); the
  emitted instructions are values of a datatype that follows the assembler's own
  interface (an instruction id and a list of operands); and a small interpreter of the
  emitted subset of A64 gives generated code its meaning.
\<close>

subsection \<open>Operands\<close>

type_synonym u64 = "64 word"
type_synonym u32 = "32 word"

text \<open>A general-purpose register operand: its width (x or w view) and its id.  In the
  assembler the zero register has id 63 and the stack pointer id 31.\<close>

datatype gp = Gp (isGpX: bool) (gp_id: nat)

definition isGpW :: "gp \<Rightarrow> bool" where
  "isGpW r = (\<not> isGpX r)"

definition reg_w :: "gp \<Rightarrow> gp" where
  "reg_w r = Gp False (gp_id r)"

definition reg_x :: "gp \<Rightarrow> gp" where
  "reg_x r = Gp True (gp_id r)"

abbreviation xreg :: "nat \<Rightarrow> gp" where
  "xreg n \<equiv> Gp True n"

abbreviation wreg :: "nat \<Rightarrow> gp" where
  "wreg n \<equiv> Gp False n"

text \<open>A vector register operand used as a scalar: its width (d or s view) and its id.\<close>

datatype vec = Vec (isVecD: bool) (vec_id: nat)

definition isVecS :: "vec \<Rightarrow> bool" where
  "isVecS v = (\<not> isVecD v)"

datatype cond_code =
  kEQ | kNE | kCS | kCC | kMI | kPL | kVS | kVC | kHI | kLS | kGE | kLT | kGT | kLE | kAL

text \<open>Memory operands: base plus immediate offset, base plus index register shifted
  left, and the pre- and post-indexed forms.\<close>

datatype amem =
    Mem gp u64
  | MemIdx gp gp nat
  | MemPre gp u64
  | MemPost gp u64

datatype operand =
    OReg gp
  | OVec vec
  | OImm u64
  | OMem amem
  | OLabel nat
  | OCond cond_code
  | ONzcv

datatype inst_id =
    kIdMov | kIdMovz | kIdAdr | kIdAdrp
  | kIdAdd | kIdAdds | kIdAdc | kIdAdcs | kIdSub | kIdSubs | kIdSbc | kIdSbcs
  | kIdCmp | kIdTst | kIdAnd | kIdOrr | kIdEor | kIdBic
  | kIdLsl | kIdLsr | kIdAsr | kIdRor
  | kIdUdiv | kIdSdiv | kIdMsub
  | kIdCset | kIdBfi | kIdUbfx | kIdMrs | kIdMsr
  | kIdLdr | kIdLdrb | kIdLdrh | kIdLdrsb | kIdLdrsh | kIdLdrsw
  | kIdStr | kIdStrb | kIdStrh | kIdLdr_v | kIdStr_v | kIdStp | kIdLdp
  | kIdB | kIdBl | kIdBr | kIdBlr | kIdRet | kIdCbz | kIdCbnz | kIdTbz | kIdTbnz
  | kIdFcmp | kIdFmov

text \<open>What the assembler receives: an instruction with its operands, or the binding of
  a label at the current position.\<close>

datatype ainst = Inst inst_id "operand list" | Bind nat

subsection \<open>Register assignment\<close>

definition REG_PARAM1 :: gp where "REG_PARAM1 = xreg 0"
definition REG_PARAM2 :: gp where "REG_PARAM2 = xreg 1"
definition REG_PARAM3 :: gp where "REG_PARAM3 = xreg 2"
definition REG_PARAM4 :: gp where "REG_PARAM4 = xreg 3"
definition TEMP_REG1 :: gp where "TEMP_REG1 = xreg 9"
definition TEMP_REG2 :: gp where "TEMP_REG2 = xreg 10"
definition TEMP_REG3 :: gp where "TEMP_REG3 = xreg 11"
definition SCRATCH_REG1 :: gp where "SCRATCH_REG1 = xreg 12"
definition SCRATCH_REG2 :: gp where "SCRATCH_REG2 = xreg 13"
definition MEM_SCRATCH_REG :: gp where "MEM_SCRATCH_REG = xreg 14"
definition FUNC_SCRATCH_REG :: gp where "FUNC_SCRATCH_REG = xreg 15"
definition TEMPF_REG1 :: vec where "TEMPF_REG1 = Vec True 16"
definition TEMPF_REG2 :: vec where "TEMPF_REG2 = Vec True 17"
definition TEMPF_REG3 :: vec where "TEMPF_REG3 = Vec True 18"
definition BASE_REG :: gp where "BASE_REG = xreg 27"
definition FLAGS_REG :: gp where "FLAGS_REG = xreg 28"
definition a64_x29 :: gp where "a64_x29 = xreg 29"
definition a64_x30 :: gp where "a64_x30 = xreg 30"
definition a64_sp :: gp where "a64_sp = xreg 31"
definition a64_xzr :: gp where "a64_xzr = xreg 63"

definition int_register_map :: "nat list" where
  "int_register_map = [19, 20, 21, 22, 23, 24, 25, 26]"

definition float_register_map :: "nat list" where
  "float_register_map = [8, 9, 10, 11, 12, 13, 14, 15]"

text \<open>UML flag bits.\<close>

definition FLAG_BIT_C :: nat where "FLAG_BIT_C = 0"
definition FLAG_BIT_V :: nat where "FLAG_BIT_V = 1"
definition FLAG_BIT_Z :: nat where "FLAG_BIT_Z = 2"
definition FLAG_BIT_S :: nat where "FLAG_BIT_S = 3"
definition FLAG_BIT_U :: nat where "FLAG_BIT_U = 4"

definition FLAG_C :: u64 where "FLAG_C = 1"
definition FLAG_V :: u64 where "FLAG_V = 2"
definition FLAG_Z :: u64 where "FLAG_Z = 4"
definition FLAG_S :: u64 where "FLAG_S = 8"
definition FLAG_U :: u64 where "FLAG_U = 16"

definition LSL0_MASK :: u64 where "LSL0_MASK = 0x000000000000ffff"
definition LSL16_MASK :: u64 where "LSL16_MASK = 0x00000000ffff0000"
definition LSL32_MASK :: u64 where "LSL32_MASK = 0x0000ffff00000000"
definition LSL48_MASK :: u64 where "LSL48_MASK = 0xffff000000000000"

subsection \<open>Helper functions on immediates\<close>

text \<open>Modelled from the spec: \<open>util::make_bitmask\<close>, \<open>util::sext\<close> and
  \<open>count_leading_zeros_64\<close> are library templates that are not part of the source
  file.  \<open>make_bitmask n\<close> has the low \<open>n\<close> bits set (all bits for \<open>n \<ge> 64\<close>); \<open>sext v n\<close>
  sign-extends the low \<open>n\<close> bits of \<open>v\<close>; \<open>count_leading_zeros_64\<close> counts the clear bits
  above the highest set bit (64 for zero).\<close>

definition make_bitmask :: "nat \<Rightarrow> u64" where
  "make_bitmask n = mask n"

definition sext :: "u64 \<Rightarrow> nat \<Rightarrow> u64" where
  "sext v n = signed_take_bit (n - 1) v"

fun clz_from :: "nat \<Rightarrow> u64 \<Rightarrow> nat" where
  "clz_from 0 v = 0"
| "clz_from (Suc k) v = (if bit v k then 0 else Suc (clz_from k v))"

definition count_leading_zeros_64 :: "u64 \<Rightarrow> nat" where
  "count_leading_zeros_64 v = clz_from 64 v"

definition select_register :: "gp \<Rightarrow> nat \<Rightarrow> gp" where
  "select_register reg regsize = (if regsize = 4 then reg_w reg else reg_x reg)"

definition select_register_vec :: "vec \<Rightarrow> nat \<Rightarrow> vec" where
  "select_register_vec reg regsize =
     (if regsize = 4 then Vec False (vec_id reg) else Vec True (vec_id reg))"

text \<open>The loop of \<open>is_valid_immediate_mask\<close> that looks for the width of the repeating
  group.  In the source \<open>width\<close> starts at 2 and is doubled, so it is never 0; the guard
  \<open>0 < width\<close> states that and makes the recursion well-founded.\<close>

function imm_mask_width :: "u64 \<Rightarrow> nat \<Rightarrow> nat \<Rightarrow> u64 \<Rightarrow> nat" where
  "imm_mask_width val bits width msk =
     (if 0 < width \<and> width < bits \<and> (val AND msk) \<noteq> drop_bit width val
      then imm_mask_width val bits (2 * width) (drop_bit width msk)
      else width)"
  by pat_completeness auto
termination
  by (relation "measure (\<lambda>(val, bits, width, msk). bits - width)") auto

definition is_valid_immediate_mask :: "u64 \<Rightarrow> nat \<Rightarrow> bool" where
  "is_valid_immediate_mask val bytes =
     (let bits = bytes * 8 in
      if val = 0 \<or> val \<ge> make_bitmask bits then False
      else
        let width = imm_mask_width val bits 2 (make_bitmask (bits - 2));
            lz = count_leading_zeros_64 (val AND make_bitmask width);
            invleftaligned = NOT (push_bit lz val)
        in (invleftaligned AND (invleftaligned + 1)) = 0)"

definition is_valid_immediate :: "u64 \<Rightarrow> nat \<Rightarrow> bool" where
  "is_valid_immediate val bits = (val < push_bit bits 1)"

definition is_valid_immediate_addsub :: "u64 \<Rightarrow> bool" where
  "is_valid_immediate_addsub val =
     ((val AND NOT (make_bitmask 12)) = 0 \<or> (val AND NOT (push_bit 12 (make_bitmask 12))) = 0)"

definition is_valid_immediate_signed :: "u64 \<Rightarrow> nat \<Rightarrow> bool" where
  "is_valid_immediate_signed val bits = (sext val bits = val)"

text \<open>\<open>diff\<close> is an \<open>int64_t\<close> in the source: comparisons with 0 are signed.\<close>

definition is_valid_offset :: "u64 \<Rightarrow> nat \<Rightarrow> bool" where
  "is_valid_offset diff max_shift =
     (if is_valid_immediate_signed diff 9 then True
      else if 0 \<le>s diff \<and> diff <s push_bit (12 + max_shift) 1
              \<and> (diff AND make_bitmask max_shift) = 0 then True
      else False)"

definition is_simple_mov_immediate :: "u64 \<Rightarrow> nat \<Rightarrow> bool" where
  "is_simple_mov_immediate val bytes =
     (if (val AND NOT LSL0_MASK) = 0 \<or> (val AND NOT LSL16_MASK) = 0
         \<or> (val AND NOT LSL32_MASK) = 0 \<or> (val AND NOT LSL48_MASK) = 0 then True
      else if (NOT val AND NOT LSL0_MASK) = 0 \<or> (NOT val AND NOT LSL16_MASK) = 0
         \<or> (NOT val AND NOT LSL32_MASK) = 0 \<or> (NOT val AND NOT LSL48_MASK) = 0 then True
      else if val = ucast (ucast val :: u32)
         \<and> ((val AND LSL0_MASK) = LSL0_MASK \<or> (val AND LSL16_MASK) = LSL16_MASK) then True
      else if is_valid_immediate_mask val bytes then True
      else False)"

text \<open>\<open>emit_add_optimized\<close> and \<open>emit_sub_optimized\<close> return whether they emitted; the
  model returns the emitted instruction, or \<open>None\<close> for the source's \<open>false\<close>.\<close>

definition emit_add_optimized :: "gp \<Rightarrow> gp \<Rightarrow> u64 \<Rightarrow> ainst list option" where
  "emit_add_optimized dst src val =
     (if is_valid_immediate_addsub val
      then Some [Inst kIdAdd [OReg dst, OReg src, OImm val]]
      else None)"

definition emit_sub_optimized :: "gp \<Rightarrow> gp \<Rightarrow> u64 \<Rightarrow> ainst list option" where
  "emit_sub_optimized dst src val0 =
     (let val = (if val0 <s 0 then - val0 else val0) in
      if is_valid_immediate_addsub val
      then Some [Inst kIdSub [OReg dst, OReg src, OImm val]]
      else None)"

subsection \<open>Materialising a 64-bit constant\<close>

text \<open>\<open>codeoffs\<close> is the address of the code cursor, \<open>a.code()->baseAddress() +
  a.offset()\<close>, which the caller reads from the assembler.\<close>

definition get_imm_absolute :: "u64 \<Rightarrow> gp \<Rightarrow> u64 \<Rightarrow> ainst list" where
  "get_imm_absolute codeoffs reg val =
     (if is_simple_mov_immediate val (if isGpX reg then 8 else 4)
      then [Inst kIdMov [OReg reg, OImm val]]
      else if isGpX reg \<and> is_valid_immediate_mask val 4
      then [Inst kIdMov [OReg (reg_w reg), OImm val]]
      else
        let reloffs = val - codeoffs in
        if is_valid_immediate_signed reloffs 21
        then [Inst kIdAdr [OReg reg, OImm val]]
        else
          let pagebase = codeoffs AND NOT (make_bitmask 12);
              pagerel = val - pagebase
          in
          if is_valid_immediate_signed pagerel (21 + 12)
          then
            let targetpage = val AND NOT (make_bitmask 12);
                pageoffs = val AND make_bitmask 12
            in Inst kIdAdrp [OReg (reg_x reg), OImm targetpage]
               # (if pageoffs \<noteq> 0 then [Inst kIdAdd [OReg reg, OReg reg, OImm pageoffs]] else [])
          else [Inst kIdMov [OReg reg, OImm val]])"

text \<open>The member variant knows \<open>m_baseptr\<close>, the value the generated code keeps in
  \<open>BASE_REG\<close>.\<close>

definition get_imm_relative :: "u64 \<Rightarrow> u64 \<Rightarrow> gp \<Rightarrow> u64 \<Rightarrow> ainst list" where
  "get_imm_relative m_baseptr codeoffs reg val =
     (if is_simple_mov_immediate val (if isGpX reg then 8 else 4)
      then [Inst kIdMov [OReg reg, OImm val]]
      else if isGpX reg \<and> is_valid_immediate_mask val 4
      then [Inst kIdMov [OReg (reg_w reg), OImm val]]
      else
        let reloffs = val - codeoffs in
        if is_valid_immediate_signed reloffs 21
        then [Inst kIdAdr [OReg reg, OImm val]]
        else
          let diff = val - m_baseptr in
          case (if 0 <s diff then emit_add_optimized reg BASE_REG diff else None) of
            Some code \<Rightarrow> code
          | None \<Rightarrow>
          (case (if diff <s 0 then emit_sub_optimized reg BASE_REG diff else None) of
            Some code \<Rightarrow> code
          | None \<Rightarrow>
            let pagebase = codeoffs AND NOT (make_bitmask 12);
                pagerel = val - pagebase
            in
            if is_valid_immediate_signed pagerel (21 + 12)
            then
              let targetpage = val AND NOT (make_bitmask 12);
                  pageoffs = val AND make_bitmask 12
              in Inst kIdAdrp [OReg (reg_x reg), OImm targetpage]
                 # (if pageoffs \<noteq> 0 then [Inst kIdAdd [OReg reg, OReg reg, OImm pageoffs]] else [])
            else [Inst kIdMov [OReg reg, OImm val]]))"


subsection \<open>The generator's surroundings\<close>

text \<open>What the generator reads from its collaborators while it emits code; all of it is
  fixed during the generation of a block.  \<open>mov_imm_count\<close> is the number of instructions
  the assembler expands a move of an immediate into (between one and four); the assembler
  is not part of the sources, so the count is a parameter.  The addresses are those of
  the objects the generated code refers to, among them the message and the entry
  point of \<open>op_break\<close> and the receiver and entry point of \<open>m_drcmap_get_value\<close>.  The
  \<open>hash_\<close> fields are what the generator
  reads from the hash table: the address of the per-mode array (\<open>base()\<close>), the pointers
  \<open>base()[mode]\<close> and \<open>base()[mode][l1]\<close> it holds while the block is generated, and its
  shifts, bit counts and masks.  The last three fields describe the guest address spaces:
  the accessors of each space, its address shift and whether it is big-endian.\<close>

text \<open>The pre-resolved accessors of an address space.  A resolved member function is the
  pair of its receiver and its entry point; a side of the specific access is the function
  (an address, or an offset into the virtual table), the displacement of the receiver,
  whether the call is virtual, and the dispatch table.\<close>

record resolved_member_function =
  rmf_obj :: u64
  rmf_func :: u64

record access_side =
  side_function :: u64
  side_displacement :: u64
  side_is_virtual :: bool
  side_dispatch :: u64

record memory_accessors =
  read_byte :: resolved_member_function
  read_word :: resolved_member_function
  read_dword :: resolved_member_function
  read_qword :: resolved_member_function
  write_byte :: resolved_member_function
  write_word :: resolved_member_function
  write_dword :: resolved_member_function
  write_qword :: resolved_member_function
  read_byte_masked :: resolved_member_function
  read_word_masked :: resolved_member_function
  read_dword_masked :: resolved_member_function
  read_qword_masked :: resolved_member_function
  write_byte_masked :: resolved_member_function
  write_word_masked :: resolved_member_function
  write_dword_masked :: resolved_member_function
  write_qword_masked :: resolved_member_function
  specific_read :: access_side
  specific_write :: access_side
  specific_native_bytes :: nat
  specific_low_bits :: nat
  address_mask :: u64
  high_bits :: nat
  no_mask :: bool
  mask_simple :: bool
  mask_high_bits :: bool

record drcbe_env =
  m_baseptr :: u64
  base_address :: u64
  native_big_endian :: bool
  mov_imm_count :: "gp \<Rightarrow> u64 \<Rightarrow> nat"
  m_exit :: u64
  m_nocode :: u64
  m_endofblock :: u64
  state_r_addr :: "nat \<Rightarrow> u64"
  state_f_addr :: "nat \<Rightarrow> u64"
  state_exp_addr :: u64
  near_emulated_flags_addr :: u64
  debug_enabled :: bool
  debug_flags_addr :: u64
  debug_hook_obj :: u64
  debug_hook_func :: u64
  break_message :: u64
  osd_break_into_debugger :: u64
  drcmap_get_value_obj :: u64
  drcmap_get_value_func :: u64
  hash_base :: u64
  hash_mode_table :: "u64 \<Rightarrow> u64"
  hash_l1_entry :: "u64 \<Rightarrow> u64 \<Rightarrow> u64"
  hash_is_mode_populated :: "u64 \<Rightarrow> bool"
  hash_l1shift :: nat
  hash_l1bits :: nat
  hash_l1mask :: u64
  hash_l2shift :: nat
  hash_l2bits :: nat
  hash_l2mask :: u64
  m_memory_accessors :: "nat \<Rightarrow> memory_accessors"
  space_addr_shift :: "nat \<Rightarrow> int"
  space_big_endian :: "nat \<Rightarrow> bool"

definition inst_bytes :: "drcbe_env \<Rightarrow> ainst \<Rightarrow> nat" where
  "inst_bytes env i =
     (case i of
        Bind l \<Rightarrow> 0
      | Inst opc ops \<Rightarrow>
          (case (opc, ops) of
             (kIdMov, [OReg r, OImm v]) \<Rightarrow> 4 * mov_imm_count env r v
           | _ \<Rightarrow> 4))"

definition code_bytes :: "drcbe_env \<Rightarrow> ainst list \<Rightarrow> u64" where
  "code_bytes env c = of_nat (sum_list (map (inst_bytes env) c))"

subsection \<open>Loads and stores at an absolute address\<close>

definition emit_ldr_str_base_mem ::
  "drcbe_env \<Rightarrow> u64 \<Rightarrow> inst_id \<Rightarrow> operand \<Rightarrow> nat \<Rightarrow> u64 \<Rightarrow> ainst list" where
  "emit_ldr_str_base_mem env codeoffs opcode reg max_shift ptr =
     (let diff = ptr - m_baseptr env in
      if is_valid_offset diff max_shift
      then [Inst opcode [reg, OMem (Mem BASE_REG diff)]]
      else
        let reloffs = ptr - codeoffs in
        if is_valid_immediate_signed reloffs 21
        then [Inst kIdAdr [OReg MEM_SCRATCH_REG, OImm ptr],
              Inst opcode [reg, OMem (Mem MEM_SCRATCH_REG 0)]]
        else if 0 <s diff \<and> is_valid_immediate diff 16
        then [Inst kIdMov [OReg MEM_SCRATCH_REG, OImm diff],
              Inst opcode [reg, OMem (MemIdx BASE_REG MEM_SCRATCH_REG 0)]]
        else
          case (if 0 <s diff then emit_add_optimized MEM_SCRATCH_REG BASE_REG diff else None) of
            Some c \<Rightarrow> c @ [Inst opcode [reg, OMem (Mem MEM_SCRATCH_REG 0)]]
          | None \<Rightarrow>
          (case (if diff <s 0 then emit_sub_optimized MEM_SCRATCH_REG BASE_REG diff else None) of
            Some c \<Rightarrow> c @ [Inst opcode [reg, OMem (Mem MEM_SCRATCH_REG 0)]]
          | None \<Rightarrow>
            let pagebase = codeoffs AND NOT (make_bitmask 12);
                pagerel = ptr - pagebase
            in
            if is_valid_immediate_signed pagerel (21 + 12)
            then
              let targetpage = ptr AND NOT (make_bitmask 12);
                  pageoffs = ptr AND make_bitmask 12
              in
              Inst kIdAdrp [OReg MEM_SCRATCH_REG, OImm targetpage]
              # (if is_valid_offset pageoffs max_shift
                 then [Inst opcode [reg, OMem (Mem MEM_SCRATCH_REG pageoffs)]]
                 else [Inst kIdAdd [OReg MEM_SCRATCH_REG, OReg MEM_SCRATCH_REG, OImm pageoffs],
                       Inst opcode [reg, OMem (Mem MEM_SCRATCH_REG 0)]])
            else
              let shift = (if (diff AND make_bitmask max_shift) \<noteq> 0 then 0 else max_shift) in
              if 0 \<le>s diff \<and> is_valid_immediate (drop_bit shift diff) 32
              then [Inst kIdMov [OReg MEM_SCRATCH_REG, OImm (drop_bit shift diff)],
                    Inst opcode [reg, OMem (MemIdx BASE_REG MEM_SCRATCH_REG shift)]]
              else [Inst kIdMov [OReg MEM_SCRATCH_REG, OImm ptr],
                    Inst opcode [reg, OMem (Mem MEM_SCRATCH_REG 0)]]))"

definition emit_ldr_mem :: "drcbe_env \<Rightarrow> u64 \<Rightarrow> gp \<Rightarrow> u64 \<Rightarrow> ainst list" where
  "emit_ldr_mem env codeoffs reg ptr =
     emit_ldr_str_base_mem env codeoffs kIdLdr (OReg reg) (if isGpW reg then 2 else 3) ptr"

definition emit_ldrb_mem :: "drcbe_env \<Rightarrow> u64 \<Rightarrow> gp \<Rightarrow> u64 \<Rightarrow> ainst list" where
  "emit_ldrb_mem env codeoffs reg ptr =
     emit_ldr_str_base_mem env codeoffs kIdLdrb (OReg reg) 0 ptr"

definition emit_str_mem :: "drcbe_env \<Rightarrow> u64 \<Rightarrow> gp \<Rightarrow> u64 \<Rightarrow> ainst list" where
  "emit_str_mem env codeoffs reg ptr =
     emit_ldr_str_base_mem env codeoffs kIdStr (OReg reg) (if isGpW reg then 2 else 3) ptr"

definition emit_strb_mem :: "drcbe_env \<Rightarrow> u64 \<Rightarrow> gp \<Rightarrow> u64 \<Rightarrow> ainst list" where
  "emit_strb_mem env codeoffs reg ptr =
     emit_ldr_str_base_mem env codeoffs kIdStrb (OReg reg) 0 ptr"

definition emit_float_ldr_mem :: "drcbe_env \<Rightarrow> u64 \<Rightarrow> vec \<Rightarrow> u64 \<Rightarrow> ainst list" where
  "emit_float_ldr_mem env codeoffs reg ptr =
     emit_ldr_str_base_mem env codeoffs kIdLdr_v (OVec reg) (if isVecS reg then 2 else 3) ptr"

definition emit_float_str_mem :: "drcbe_env \<Rightarrow> u64 \<Rightarrow> vec \<Rightarrow> u64 \<Rightarrow> ainst list" where
  "emit_float_str_mem env codeoffs reg ptr =
     emit_ldr_str_base_mem env codeoffs kIdStr_v (OVec reg) (if isVecS reg then 2 else 3) ptr"

subsection \<open>Back-end parameters\<close>

datatype be_parameter_type =
  PTYPE_NONE | PTYPE_IMMEDIATE | PTYPE_INT_REGISTER | PTYPE_FLOAT_REGISTER | PTYPE_MEMORY

record be_parameter =
  m_type :: be_parameter_type
  m_value :: u64
  m_coldreg :: bool

definition be_immediate :: "u64 \<Rightarrow> be_parameter" where
  "be_immediate val = \<lparr>m_type = PTYPE_IMMEDIATE, m_value = val, m_coldreg = False\<rparr>"

definition make_ireg :: "nat \<Rightarrow> be_parameter" where
  "make_ireg regnum = \<lparr>m_type = PTYPE_INT_REGISTER, m_value = of_nat regnum, m_coldreg = False\<rparr>"

definition make_freg :: "nat \<Rightarrow> be_parameter" where
  "make_freg regnum = \<lparr>m_type = PTYPE_FLOAT_REGISTER, m_value = of_nat regnum, m_coldreg = False\<rparr>"

definition make_memory :: "u64 \<Rightarrow> be_parameter" where
  "make_memory base = \<lparr>m_type = PTYPE_MEMORY, m_value = base, m_coldreg = False\<rparr>"

text \<open>\<open>operator!=\<close> of the class compares type and value, not the cold-register bit.\<close>

definition be_neq :: "be_parameter \<Rightarrow> be_parameter \<Rightarrow> bool" where
  "be_neq a b = (m_type a \<noteq> m_type b \<or> m_value a \<noteq> m_value b)"

definition is_immediate :: "be_parameter \<Rightarrow> bool" where
  "is_immediate p = (m_type p = PTYPE_IMMEDIATE)"

definition is_int_register :: "be_parameter \<Rightarrow> bool" where
  "is_int_register p = (m_type p = PTYPE_INT_REGISTER)"

definition is_float_register :: "be_parameter \<Rightarrow> bool" where
  "is_float_register p = (m_type p = PTYPE_FLOAT_REGISTER)"

definition is_memory :: "be_parameter \<Rightarrow> bool" where
  "is_memory p = (m_type p = PTYPE_MEMORY)"

definition is_immediate_value :: "be_parameter \<Rightarrow> u64 \<Rightarrow> bool" where
  "is_immediate_value p v = (m_type p = PTYPE_IMMEDIATE \<and> m_value p = v)"

definition is_cold_register :: "be_parameter \<Rightarrow> bool" where
  "is_cold_register p = m_coldreg p"

definition immediate :: "be_parameter \<Rightarrow> u64" where
  "immediate p = m_value p"

definition ireg :: "be_parameter \<Rightarrow> nat" where
  "ireg p = unat (m_value p)"

definition freg :: "be_parameter \<Rightarrow> nat" where
  "freg p = unat (m_value p)"

definition memory :: "be_parameter \<Rightarrow> u64" where
  "memory p = m_value p"

definition get_register_float :: "be_parameter \<Rightarrow> nat \<Rightarrow> vec" where
  "get_register_float p regsize = Vec (regsize \<noteq> 4) (unat (m_value p))"

definition get_register_int :: "be_parameter \<Rightarrow> nat \<Rightarrow> gp" where
  "get_register_int p regsize = Gp (regsize \<noteq> 4) (unat (m_value p))"

definition be_select_register_vec :: "be_parameter \<Rightarrow> vec \<Rightarrow> nat \<Rightarrow> vec" where
  "be_select_register_vec p reg regsize =
     (if m_type p = PTYPE_FLOAT_REGISTER then get_register_float p regsize
      else if regsize = 4 then Vec False (vec_id reg)
      else Vec True (vec_id reg))"

definition be_select_register :: "be_parameter \<Rightarrow> gp \<Rightarrow> nat \<Rightarrow> gp" where
  "be_select_register p reg regsize =
     (if m_type p = PTYPE_INT_REGISTER then get_register_int p regsize
      else if regsize = 4 then reg_w reg
      else reg_x reg)"

subsection \<open>Moving parameters\<close>

definition mov_reg_param :: "drcbe_env \<Rightarrow> u64 \<Rightarrow> nat \<Rightarrow> gp \<Rightarrow> be_parameter \<Rightarrow> ainst list" where
  "mov_reg_param env codeoffs regsize dst src =
     (if is_immediate src
      then get_imm_relative (m_baseptr env) codeoffs (select_register dst regsize)
             (if regsize = 4 then ucast (ucast (immediate src) :: u32) else immediate src)
      else if is_int_register src \<and> gp_id dst \<noteq> ireg src
      then [Inst kIdMov [OReg (select_register dst regsize), OReg (get_register_int src regsize)]]
      else if is_memory src
      then
        (if native_big_endian env \<and> regsize = 4 \<and> is_cold_register src
         then emit_ldr_mem env codeoffs (select_register dst regsize) (memory src + 4)
         else emit_ldr_mem env codeoffs (select_register dst regsize) (memory src))
      else [])"

text \<open>Functions of the source that can fail an assertion or raise a fatal error return
  an option: \<open>None\<close> is the failure, and nothing is emitted then.\<close>

definition assert :: "bool \<Rightarrow> unit option" where
  "assert b = (if b then Some () else None)"

definition mov_param_reg ::
  "drcbe_env \<Rightarrow> u64 \<Rightarrow> nat \<Rightarrow> be_parameter \<Rightarrow> gp \<Rightarrow> ainst list option" where
  "mov_param_reg env codeoffs regsize dst src =
     (if is_immediate dst then None
      else if is_memory dst
      then
        (if is_cold_register dst
         then Some (emit_str_mem env codeoffs (reg_x src) (memory dst))
         else Some (emit_str_mem env codeoffs (select_register src regsize) (memory dst)))
      else if is_int_register dst \<and> gp_id src \<noteq> ireg dst
      then Some [Inst kIdMov [OReg (get_register_int dst regsize), OReg (select_register src regsize)]]
      else Some [])"

definition mov_mem_param :: "drcbe_env \<Rightarrow> u64 \<Rightarrow> nat \<Rightarrow> u64 \<Rightarrow> be_parameter \<Rightarrow> ainst list" where
  "mov_mem_param env codeoffs regsize dst src =
     (let scratch = select_register SCRATCH_REG2 regsize in
      if is_immediate_value src 0
      then emit_str_mem env codeoffs (select_register a64_xzr regsize) dst
      else if is_immediate src
      then
        (let c = get_imm_relative (m_baseptr env) codeoffs scratch
                   (if regsize = 4 then ucast (ucast (immediate src) :: u32) else immediate src)
         in c @ emit_str_mem env (codeoffs + code_bytes env c) scratch dst)
      else if is_memory src
      then
        (let c = (if native_big_endian env \<and> regsize = 4 \<and> is_cold_register src
                  then emit_ldr_mem env codeoffs scratch (memory src + 4)
                  else emit_ldr_mem env codeoffs scratch (memory src))
         in c @ emit_str_mem env (codeoffs + code_bytes env c) scratch dst)
      else if is_int_register src
      then emit_str_mem env codeoffs (get_register_int src regsize) dst
      else [])"

definition mov_float_reg_param ::
  "drcbe_env \<Rightarrow> u64 \<Rightarrow> nat \<Rightarrow> vec \<Rightarrow> be_parameter \<Rightarrow> ainst list option" where
  "mov_float_reg_param env codeoffs regsize dst src =
     (if is_immediate src then None
      else if is_memory src
      then Some (emit_float_ldr_mem env codeoffs (select_register_vec dst regsize) (memory src))
      else if is_float_register src \<and> vec_id dst \<noteq> freg src
      then Some [Inst kIdFmov [OVec (select_register_vec dst regsize),
                              OVec (get_register_float src regsize)]]
      else Some [])"

definition call_arm_addr :: "drcbe_env \<Rightarrow> u64 \<Rightarrow> u64 \<Rightarrow> ainst list" where
  "call_arm_addr env codeoffs offs =
     (let reloffs = offs - codeoffs in
      if is_valid_immediate_signed reloffs (26 + 2)
      then [Inst kIdBl [OImm offs]]
      else get_imm_relative (m_baseptr env) codeoffs SCRATCH_REG1 offs
           @ [Inst kIdBlr [OReg SCRATCH_REG1]])"


subsection \<open>UML instructions\<close>

text \<open>The opcodes whose generators are part of this development.\<close>

datatype opcode_t =
    OP_NOP | OP_BREAK | OP_DEBUG | OP_EXIT | OP_HASHJMP | OP_CALLC | OP_RECOVER
  | OP_GETFLGS | OP_READ | OP_READM | OP_WRITE | OP_WRITEM
  | OP_ADD | OP_ADDC | OP_SUB | OP_SUBB | OP_CMP | OP_DIVU | OP_DIVS
  | OP_SHL | OP_SHR | OP_SAR | OP_ROL | OP_ROR
  | OP_FREAD | OP_FWRITE | OP_FCMP

datatype condition_t =
    COND_ALWAYS
  | COND_Z | COND_NZ | COND_S | COND_NS | COND_C | COND_NC | COND_V | COND_NV
  | COND_U | COND_NU | COND_A | COND_BE | COND_G | COND_LE | COND_L | COND_GE

text \<open>A code handle: the address of its code-pointer cell and the content of that cell
  when the referring instruction is generated (0 is the null pointer).\<close>

record code_handle =
  codeptr_addr :: u64
  codeptr :: u64

text \<open>A UML parameter.  Integer and float registers are given by their index from
  \<open>REG_I0\<close> and \<open>REG_F0\<close>.\<close>

datatype parameter =
    PARAM_IMMEDIATE u64
  | PARAM_INT_REGISTER nat
  | PARAM_FLOAT_REGISTER nat
  | PARAM_MEMORY u64
  | PARAM_CODE_HANDLE code_handle
  | PARAM_CODE_LABEL nat
  | PARAM_MAPVAR nat
  | PARAM_C_FUNCTION u64
  | PARAM_SIZE_SPACE nat nat
  | PARAM_STRING string

record instruction =
  i_opcode :: opcode_t
  i_size :: nat
  i_condition :: condition_t
  i_flags :: u64
  i_params :: "parameter list"

definition param :: "instruction \<Rightarrow> nat \<Rightarrow> parameter option" where
  "param inst n = (if n < length (i_params inst) then Some (i_params inst ! n) else None)"

definition assert_no_condition :: "instruction \<Rightarrow> unit option" where
  "assert_no_condition inst = assert (i_condition inst = COND_ALWAYS)"

text \<open>Every value of \<open>condition_t\<close> is \<open>COND_ALWAYS\<close> or lies between \<open>COND_Z\<close> and
  \<open>COND_MAX\<close>.\<close>

definition assert_any_condition :: "instruction \<Rightarrow> unit option" where
  "assert_any_condition inst = assert True"

definition assert_no_flags :: "instruction \<Rightarrow> unit option" where
  "assert_no_flags inst = assert (i_flags inst = 0)"

definition assert_flags :: "instruction \<Rightarrow> u64 \<Rightarrow> unit option" where
  "assert_flags inst valid = assert ((i_flags inst AND NOT valid) = 0)"

text \<open>Modelled from the spec: the numbering of the UML parameter types and the register
  counts come from the UML header, which is not part of the sources; the spec gives the
  register indices as 0..7.\<close>

definition PTYPE_I :: u32 where "PTYPE_I = push_bit 1 1"
definition PTYPE_R :: u32 where "PTYPE_R = push_bit 2 1"
definition PTYPE_F :: u32 where "PTYPE_F = push_bit 3 1"
definition PTYPE_M :: u32 where "PTYPE_M = push_bit 4 1"
definition PTYPE_MR :: u32 where "PTYPE_MR = PTYPE_M OR PTYPE_R"
definition PTYPE_MRI :: u32 where "PTYPE_MRI = PTYPE_M OR PTYPE_R OR PTYPE_I"
definition PTYPE_MF :: u32 where "PTYPE_MF = PTYPE_M OR PTYPE_F"

definition REG_I_COUNT :: nat where "REG_I_COUNT = 8"
definition REG_F_COUNT :: nat where "REG_F_COUNT = 8"
definition REG_MAX :: nat where "REG_MAX = 30"

definition be_parameter_of :: "drcbe_env \<Rightarrow> parameter \<Rightarrow> u32 \<Rightarrow> be_parameter option" where
  "be_parameter_of env prm allowed =
     (case prm of
        PARAM_IMMEDIATE v \<Rightarrow>
          do { assert ((allowed AND PTYPE_I) \<noteq> 0); Some (be_immediate v) }
      | PARAM_MEMORY base \<Rightarrow>
          do { assert ((allowed AND PTYPE_M) \<noteq> 0); Some (make_memory base) }
      | PARAM_INT_REGISTER i \<Rightarrow>
          do {
            assert ((allowed AND PTYPE_R) \<noteq> 0);
            assert ((allowed AND PTYPE_M) \<noteq> 0);
            assert (i < REG_I_COUNT);
            let regnum = int_register_map ! i;
            if regnum \<noteq> 0
            then do { assert (regnum < REG_MAX); Some (make_ireg regnum) }
            else Some ((make_memory (state_r_addr env i))\<lparr>m_coldreg := True\<rparr>)
          }
      | PARAM_FLOAT_REGISTER i \<Rightarrow>
          do {
            assert ((allowed AND PTYPE_F) \<noteq> 0);
            assert ((allowed AND PTYPE_M) \<noteq> 0);
            assert (i < REG_F_COUNT);
            let regnum = float_register_map ! i;
            if regnum \<noteq> 0
            then do { assert (regnum < REG_MAX); Some (make_freg regnum) }
            else Some ((make_memory (state_f_addr env i))\<lparr>m_coldreg := True\<rparr>)
          }
      | _ \<Rightarrow> None)"

subsection \<open>The generator state\<close>

datatype carry_state = POISON | CANONICAL | LOGICAL

text \<open>The assembler's content (the instructions emitted so far and the number of labels
  created) together with the member \<open>m_carry_state\<close>.\<close>

record gen_state =
  code :: "ainst list"
  next_label :: nat
  m_carry_state :: carry_state

definition cur_offs :: "drcbe_env \<Rightarrow> gen_state \<Rightarrow> u64" where
  "cur_offs env g = base_address env + code_bytes env (code g)"

definition emits :: "ainst list \<Rightarrow> gen_state \<Rightarrow> gen_state" where
  "emits c g = g\<lparr>code := code g @ c\<rparr>"

definition newLabel :: "gen_state \<Rightarrow> nat \<times> gen_state" where
  "newLabel g = (next_label g, g\<lparr>next_label := Suc (next_label g)\<rparr>)"

definition kInvalidId :: nat where "kInvalidId = 4294967295"

definition put_mov_reg_param ::
  "drcbe_env \<Rightarrow> nat \<Rightarrow> gp \<Rightarrow> be_parameter \<Rightarrow> gen_state \<Rightarrow> gen_state" where
  "put_mov_reg_param env regsize dst src g =
     emits (mov_reg_param env (cur_offs env g) regsize dst src) g"

definition put_mov_param_reg ::
  "drcbe_env \<Rightarrow> nat \<Rightarrow> be_parameter \<Rightarrow> gp \<Rightarrow> gen_state \<Rightarrow> gen_state option" where
  "put_mov_param_reg env regsize dst src g =
     map_option (\<lambda>c. emits c g) (mov_param_reg env (cur_offs env g) regsize dst src)"

definition put_get_imm_relative :: "drcbe_env \<Rightarrow> gp \<Rightarrow> u64 \<Rightarrow> gen_state \<Rightarrow> gen_state" where
  "put_get_imm_relative env reg val g =
     emits (get_imm_relative (m_baseptr env) (cur_offs env g) reg val) g"

definition put_call_arm_addr :: "drcbe_env \<Rightarrow> u64 \<Rightarrow> gen_state \<Rightarrow> gen_state" where
  "put_call_arm_addr env offs g = emits (call_arm_addr env (cur_offs env g) offs) g"

subsection \<open>Flag emulation\<close>

definition condition_map :: "condition_t \<Rightarrow> cond_code" where
  "condition_map c =
     (case c of
        COND_Z \<Rightarrow> kEQ | COND_NZ \<Rightarrow> kNE | COND_S \<Rightarrow> kMI | COND_NS \<Rightarrow> kPL
      | COND_C \<Rightarrow> kCC | COND_NC \<Rightarrow> kCS | COND_V \<Rightarrow> kVS | COND_NV \<Rightarrow> kVC
      | COND_U \<Rightarrow> kAL | COND_NU \<Rightarrow> kAL | COND_A \<Rightarrow> kHI | COND_BE \<Rightarrow> kLS
      | COND_G \<Rightarrow> kGT | COND_LE \<Rightarrow> kLE | COND_L \<Rightarrow> kLT | COND_GE \<Rightarrow> kGE
      | COND_ALWAYS \<Rightarrow> kAL)"

definition negateCond :: "cond_code \<Rightarrow> cond_code" where
  "negateCond c =
     (case c of
        kEQ \<Rightarrow> kNE | kNE \<Rightarrow> kEQ | kCS \<Rightarrow> kCC | kCC \<Rightarrow> kCS | kMI \<Rightarrow> kPL | kPL \<Rightarrow> kMI
      | kVS \<Rightarrow> kVC | kVC \<Rightarrow> kVS | kHI \<Rightarrow> kLS | kLS \<Rightarrow> kHI | kGE \<Rightarrow> kLT | kLT \<Rightarrow> kGE
      | kGT \<Rightarrow> kLE | kLE \<Rightarrow> kGT | kAL \<Rightarrow> kAL)"

definition ARM_CONDITION :: "condition_t \<Rightarrow> cond_code" where
  "ARM_CONDITION c = condition_map c"

definition ARM_NOT_CONDITION :: "condition_t \<Rightarrow> cond_code" where
  "ARM_NOT_CONDITION c = negateCond (condition_map c)"

definition store_unordered :: "ainst list" where
  "store_unordered =
     [Inst kIdCset [OReg SCRATCH_REG1, OCond kPL],
      Inst kIdCset [OReg SCRATCH_REG2, OCond kNE],
      Inst kIdAnd [OReg SCRATCH_REG1, OReg SCRATCH_REG1, OReg SCRATCH_REG2],
      Inst kIdCset [OReg SCRATCH_REG2, OCond kCS],
      Inst kIdAnd [OReg SCRATCH_REG1, OReg SCRATCH_REG1, OReg SCRATCH_REG2],
      Inst kIdCset [OReg SCRATCH_REG2, OCond kVS],
      Inst kIdAnd [OReg SCRATCH_REG1, OReg SCRATCH_REG1, OReg SCRATCH_REG2],
      Inst kIdBfi [OReg FLAGS_REG, OReg SCRATCH_REG2, OImm (of_nat FLAG_BIT_U), OImm 1]]"

definition get_unordered :: "gp \<Rightarrow> ainst list" where
  "get_unordered reg =
     [Inst kIdUbfx [OReg (reg_x reg), OReg FLAGS_REG, OImm (of_nat FLAG_BIT_U), OImm 1]]"

definition store_carry_reg :: "gp \<Rightarrow> ainst list" where
  "store_carry_reg reg =
     [Inst kIdBfi [OReg FLAGS_REG, OReg (reg_x reg), OImm (of_nat FLAG_BIT_C), OImm 1]]"

definition get_carry :: "gp \<Rightarrow> bool \<Rightarrow> ainst list" where
  "get_carry reg inverted =
     Inst kIdAnd [OReg (reg_x reg), OReg FLAGS_REG, OImm 1]
     # (if inverted then [Inst kIdEor [OReg (reg_x reg), OReg (reg_x reg), OImm 1]] else [])"

definition store_carry :: "bool \<Rightarrow> gen_state \<Rightarrow> gen_state" where
  "store_carry inverted g =
     emits
       (Inst kIdCset [OReg SCRATCH_REG1, OCond (if inverted then kCC else kCS)]
        # store_carry_reg SCRATCH_REG1)
       (g\<lparr>m_carry_state := (if inverted then LOGICAL else CANONICAL)\<rparr>)"

definition load_carry :: "bool \<Rightarrow> gen_state \<Rightarrow> gen_state" where
  "load_carry inverted g =
     (let desired = (if inverted then LOGICAL else CANONICAL) in
      if desired \<noteq> m_carry_state g
      then
        emits
          ([Inst kIdMrs [OReg SCRATCH_REG1, ONzcv],
            Inst kIdBfi [OReg SCRATCH_REG1, OReg FLAGS_REG, OImm 29, OImm 1]]
           @ (if inverted
              then [Inst kIdEor [OReg SCRATCH_REG1, OReg SCRATCH_REG1, OImm (push_bit 29 1)]]
              else [])
           @ [Inst kIdMsr [ONzcv, OReg SCRATCH_REG1]])
          (g\<lparr>m_carry_state := desired\<rparr>)
      else g)"

definition calculate_carry_shift_left :: "gp \<Rightarrow> gp \<Rightarrow> nat \<Rightarrow> gen_state \<Rightarrow> gen_state" where
  "calculate_carry_shift_left reg shift maxBits g0 =
     (let g1 = g0\<lparr>m_carry_state := POISON\<rparr>;
          (calc, g2) = newLabel g1;
          (endl, g3) = newLabel g2;
          scratch = select_register SCRATCH_REG1 (if isGpW reg then 4 else 8)
      in emits
           ([Inst kIdCbnz [OReg shift, OLabel calc]]
            @ store_carry_reg a64_xzr
            @ [Inst kIdB [OLabel endl],
               Bind calc,
               Inst kIdMovz [OReg scratch, OImm (of_nat (maxBits + 1))],
               Inst kIdSub [OReg scratch, OReg scratch, OReg shift],
               Inst kIdLsr [OReg scratch, OReg reg, OReg scratch]]
            @ store_carry_reg scratch
            @ [Bind endl])
           g3)"

definition calculate_carry_shift_left_imm :: "gp \<Rightarrow> nat \<Rightarrow> nat \<Rightarrow> gen_state \<Rightarrow> gen_state" where
  "calculate_carry_shift_left_imm reg shift maxBits g0 =
     (let g1 = g0\<lparr>m_carry_state := POISON\<rparr> in
      if shift = 0 then emits (store_carry_reg a64_xzr) g1
      else
        let scratch = select_register SCRATCH_REG1 (if isGpW reg then 4 else 8) in
        emits
          (Inst kIdLsr [OReg scratch, OReg reg, OImm (of_nat (maxBits + 1 - shift))]
           # store_carry_reg scratch)
          g1)"

definition calculate_carry_shift_right :: "gp \<Rightarrow> gp \<Rightarrow> gen_state \<Rightarrow> gen_state" where
  "calculate_carry_shift_right reg shift g0 =
     (let g1 = g0\<lparr>m_carry_state := POISON\<rparr>;
          (calc, g2) = newLabel g1;
          (endl, g3) = newLabel g2;
          scratch = select_register SCRATCH_REG1 (if isGpW reg then 4 else 8)
      in emits
           ([Inst kIdCbnz [OReg shift, OLabel calc]]
            @ store_carry_reg a64_xzr
            @ [Inst kIdB [OLabel endl],
               Bind calc,
               Inst kIdSub [OReg scratch, OReg shift, OImm 1],
               Inst kIdLsr [OReg scratch, OReg reg, OReg scratch]]
            @ store_carry_reg scratch
            @ [Bind endl])
           g3)"

definition calculate_carry_shift_right_imm :: "gp \<Rightarrow> nat \<Rightarrow> gen_state \<Rightarrow> gen_state" where
  "calculate_carry_shift_right_imm reg shift g0 =
     (let g1 = g0\<lparr>m_carry_state := POISON\<rparr> in
      if shift = 0 then emits (store_carry_reg a64_xzr) g1
      else
        let scratch = select_register SCRATCH_REG1 (if isGpW reg then 4 else 8) in
        emits
          (Inst kIdLsr [OReg scratch, OReg reg, OImm (of_nat (shift - 1))]
           # store_carry_reg scratch)
          g1)"

text \<open>\<open>emit_skip\<close> assigns the label \<open>skip\<close> only for a conditional instruction; the
  model returns the label together with the new state, and the invalid label id where
  the source leaves \<open>skip\<close> as constructed.\<close>

definition emit_skip :: "condition_t \<Rightarrow> gen_state \<Rightarrow> nat \<times> gen_state" where
  "emit_skip cond g0 =
     (if cond = COND_ALWAYS then (kInvalidId, g0)
      else
        let (skip, g) = newLabel g0 in
        (skip,
         (case cond of
            COND_U \<Rightarrow>
              emits [Inst kIdTbz [OReg FLAGS_REG, OImm (of_nat FLAG_BIT_U), OLabel skip]] g
          | COND_NU \<Rightarrow>
              emits [Inst kIdTbnz [OReg FLAGS_REG, OImm (of_nat FLAG_BIT_U), OLabel skip]] g
          | COND_A \<Rightarrow>
              emits [Inst kIdB [OCond (ARM_NOT_CONDITION cond), OLabel skip]] (load_carry True g)
          | COND_BE \<Rightarrow>
              emits [Inst kIdB [OCond (ARM_NOT_CONDITION cond), OLabel skip]] (load_carry True g)
          | _ \<Rightarrow>
              if cond = COND_C \<or> cond = COND_NC
              then
                (case m_carry_state g of
                   CANONICAL \<Rightarrow> emits [Inst kIdB [OCond (ARM_CONDITION cond), OLabel skip]] g
                 | LOGICAL \<Rightarrow> emits [Inst kIdB [OCond (ARM_NOT_CONDITION cond), OLabel skip]] g
                 | POISON \<Rightarrow>
                     emits [Inst (if cond = COND_C then kIdTbz else kIdTbnz)
                              [OReg FLAGS_REG, OImm (of_nat FLAG_BIT_C), OLabel skip]] g)
              else emits [Inst kIdB [OCond (ARM_NOT_CONDITION cond), OLabel skip]] g)))"


subsection \<open>Control flow generators\<close>

definition op_debug :: "drcbe_env \<Rightarrow> instruction \<Rightarrow> gen_state \<Rightarrow> gen_state option" where
  "op_debug env inst g0 =
     do {
       assert (i_size inst = 4);
       assert_no_condition inst;
       assert_no_flags inst;
       if debug_enabled env
       then do {
         let g1 = g0\<lparr>m_carry_state := POISON\<rparr>;
         let temp = reg_w TEMP_REG1;
         p0 \<leftarrow> param inst 0;
         pcp \<leftarrow> be_parameter_of env p0 PTYPE_MRI;
         let (skip, g2) = newLabel g1;
         let g3 = emits (emit_ldr_mem env (cur_offs env g2) temp (debug_flags_addr env)) g2;
         let g4 = emits [Inst kIdTbz [OReg temp, OImm 1, OLabel skip]] g3;
         let g5 = put_get_imm_relative env REG_PARAM1 (debug_hook_obj env) g4;
         let g6 = put_mov_reg_param env 4 REG_PARAM2 pcp g5;
         let g7 = put_call_arm_addr env (debug_hook_func env) g6;
         Some (emits [Bind skip] g7)
       }
       else Some g0
     }"

definition op_exit :: "drcbe_env \<Rightarrow> instruction \<Rightarrow> gen_state \<Rightarrow> gen_state option" where
  "op_exit env inst g0 =
     do {
       assert (i_size inst = 4);
       assert_any_condition inst;
       assert_no_flags inst;
       p0 \<leftarrow> param inst 0;
       retp \<leftarrow> be_parameter_of env p0 PTYPE_MRI;
       let (skip, g1) = emit_skip (i_condition inst) g0;
       let g2 = put_mov_reg_param env 4 REG_PARAM1 retp g1;
       let g3 = emits [Inst kIdB [OImm (m_exit env)]] g2;
       Some (if i_condition inst \<noteq> COND_ALWAYS then emits [Bind skip] g3 else g3)
     }"

text \<open>The call of a handle's code: direct when the handle already has a code pointer,
  through its pointer cell otherwise.\<close>

definition call_handle :: "drcbe_env \<Rightarrow> code_handle \<Rightarrow> gen_state \<Rightarrow> gen_state" where
  "call_handle env h g =
     (if codeptr h \<noteq> 0
      then put_call_arm_addr env (codeptr h) g
      else emits [Inst kIdBlr [OReg SCRATCH_REG1]]
             (emits (emit_ldr_mem env (cur_offs env g) SCRATCH_REG1 (codeptr_addr h)) g))"

definition hash_l1val :: "drcbe_env \<Rightarrow> u64 \<Rightarrow> u64" where
  "hash_l1val env pc = (drop_bit (hash_l1shift env) pc AND hash_l1mask env) AND mask 32"

definition hash_l2val :: "drcbe_env \<Rightarrow> u64 \<Rightarrow> u64" where
  "hash_l2val env pc = (drop_bit (hash_l2shift env) pc AND hash_l2mask env) AND mask 32"

definition op_hashjmp :: "drcbe_env \<Rightarrow> instruction \<Rightarrow> gen_state \<Rightarrow> gen_state option" where
  "op_hashjmp env inst g0 =
     do {
       assert (i_size inst = 4);
       assert_no_condition inst;
       assert_no_flags inst;
       p0 \<leftarrow> param inst 0;
       modep \<leftarrow> be_parameter_of env p0 PTYPE_MRI;
       p1 \<leftarrow> param inst 1;
       pcp \<leftarrow> be_parameter_of env p1 PTYPE_MRI;
       exp \<leftarrow> param inst 2;
       h \<leftarrow> (case exp of PARAM_CODE_HANDLE h \<Rightarrow> Some h | _ \<Rightarrow> None);
       let g1 = emits [Inst kIdMov [OReg a64_sp, OReg a64_x29]] g0;
       let g2 =
         (if is_immediate modep \<and> hash_is_mode_populated env (immediate modep)
          then
            (if is_immediate pcp
             then
               (let l1val = hash_l1val env (immediate pcp);
                    l2val = hash_l2val env (immediate pcp)
                in emits (emit_ldr_mem env (cur_offs env g1) TEMP_REG1
                            (hash_l1_entry env (immediate modep) l1val + 8 * l2val)) g1)
             else
               (let ga = put_mov_reg_param env 4 TEMP_REG2 pcp g1;
                    gb = put_get_imm_relative env TEMP_REG1
                           (hash_mode_table env (immediate modep)) ga
                in emits
                     [Inst kIdUbfx [OReg TEMP_REG3, OReg TEMP_REG2,
                        OImm (of_nat (hash_l1shift env)), OImm (of_nat (hash_l1bits env))],
                      Inst kIdLdr [OReg TEMP_REG3, OMem (MemIdx TEMP_REG1 TEMP_REG3 3)],
                      Inst kIdUbfx [OReg TEMP_REG2, OReg TEMP_REG2,
                        OImm (of_nat (hash_l2shift env)), OImm (of_nat (hash_l2bits env))],
                      Inst kIdLdr [OReg TEMP_REG1, OMem (MemIdx TEMP_REG3 TEMP_REG2 3)]]
                     gb))
          else
            (let ga = put_get_imm_relative env TEMP_REG2 (hash_base env) g1;
                 gb =
                   (if is_immediate modep
                    then emits [Inst kIdLdr [OReg TEMP_REG1,
                                  OMem (Mem TEMP_REG2 (immediate modep * 8))]] ga
                    else
                      (let mode = be_select_register modep TEMP_REG1 8 in
                       emits [Inst kIdLdr [OReg TEMP_REG1, OMem (MemIdx TEMP_REG2 mode 3)]]
                         (put_mov_reg_param env 4 mode modep ga)))
             in
             if is_immediate pcp
             then
               (let l1val = (hash_l1val env (immediate pcp) * 8) AND mask 32;
                    l2val = (hash_l2val env (immediate pcp) * 8) AND mask 32;
                    gc =
                      (if is_valid_immediate l1val 15
                       then emits [Inst kIdLdr [OReg TEMP_REG1, OMem (Mem TEMP_REG1 l1val)]] gb
                       else emits
                              [Inst kIdMov [OReg SCRATCH_REG1, OImm (drop_bit 3 l1val)],
                               Inst kIdLdr [OReg TEMP_REG1,
                                 OMem (MemIdx TEMP_REG1 SCRATCH_REG1 3)]] gb)
                in
                if is_valid_immediate l2val 15
                then emits [Inst kIdLdr [OReg TEMP_REG1, OMem (Mem TEMP_REG1 l2val)]] gc
                else emits
                       [Inst kIdMov [OReg SCRATCH_REG1, OImm (drop_bit 3 l2val)],
                        Inst kIdLdr [OReg TEMP_REG1,
                          OMem (MemIdx TEMP_REG1 SCRATCH_REG1 3)]] gc)
             else
               (let pc = be_select_register pcp TEMP_REG2 8 in
                emits
                  [Inst kIdUbfx [OReg TEMP_REG3, OReg pc,
                     OImm (of_nat (hash_l1shift env)), OImm (of_nat (hash_l1bits env))],
                   Inst kIdLdr [OReg TEMP_REG3, OMem (MemIdx TEMP_REG1 TEMP_REG3 3)],
                   Inst kIdUbfx [OReg TEMP_REG2, OReg pc,
                     OImm (of_nat (hash_l2shift env)), OImm (of_nat (hash_l2bits env))],
                   Inst kIdLdr [OReg TEMP_REG1, OMem (MemIdx TEMP_REG3 TEMP_REG2 3)]]
                  (put_mov_reg_param env 4 pc pcp gb))));
       let (lab, g3) = newLabel g2;
       let g4 = emits [Inst kIdAdr [OReg REG_PARAM1, OLabel lab],
                       Inst kIdBr [OReg TEMP_REG1],
                       Bind lab] g3;
       let g5 = emits (mov_mem_param env (cur_offs env g4) 4 (state_exp_addr env) pcp) g4;
       let g6 = call_handle env h g5;
       Some (g6\<lparr>m_carry_state := POISON\<rparr>)
     }"

definition op_callc :: "drcbe_env \<Rightarrow> instruction \<Rightarrow> gen_state \<Rightarrow> gen_state option" where
  "op_callc env inst g0 =
     do {
       assert (i_size inst = 4);
       assert_any_condition inst;
       assert_no_flags inst;
       funcp \<leftarrow> param inst 0;
       cfunc \<leftarrow> (case funcp of PARAM_C_FUNCTION f \<Rightarrow> Some f | _ \<Rightarrow> None);
       p1 \<leftarrow> param inst 1;
       paramp \<leftarrow> be_parameter_of env p1 PTYPE_M;
       let (skip, g1) = emit_skip (i_condition inst) g0;
       let g2 = emits (emit_str_mem env (cur_offs env g1) (reg_w FLAGS_REG)
                         (near_emulated_flags_addr env)) g1;
       let g3 = put_get_imm_relative env REG_PARAM1 (memory paramp) g2;
       let g4 = put_get_imm_relative env TEMP_REG1 cfunc g3;
       let g5 = emits [Inst kIdBlr [OReg TEMP_REG1]] g4;
       let g6 = emits (emit_ldr_mem env (cur_offs env g5) (reg_w FLAGS_REG)
                         (near_emulated_flags_addr env)) g5;
       let g7 = (if i_condition inst \<noteq> COND_ALWAYS then emits [Bind skip] g6 else g6);
       Some (g7\<lparr>m_carry_state := POISON\<rparr>)
     }"

subsection \<open>Reading the flags\<close>

text \<open>One of the V, Z and S steps of \<open>op_getflgs\<close>: the first selected flag is written to
  the destination, a later one is merged into it.\<close>

definition getflgs_native :: "gp \<Rightarrow> bool \<Rightarrow> cond_code \<Rightarrow> nat \<Rightarrow> ainst list" where
  "getflgs_native dst first cc bitnum =
     (if first
      then [Inst kIdCset [OReg dst, OCond cc],
            Inst kIdLsl [OReg dst, OReg dst, OImm (of_nat bitnum)]]
      else [Inst kIdCset [OReg SCRATCH_REG1, OCond cc],
            Inst kIdOrr [OReg dst, OReg dst, OReg SCRATCH_REG1, OImm (of_nat bitnum)]])"

definition op_getflgs :: "drcbe_env \<Rightarrow> instruction \<Rightarrow> gen_state \<Rightarrow> gen_state option" where
  "op_getflgs env inst g0 =
     do {
       assert (i_size inst = 4);
       assert_no_condition inst;
       assert_no_flags inst;
       p0 \<leftarrow> param inst 0;
       dstp \<leftarrow> be_parameter_of env p0 PTYPE_MR;
       p1 \<leftarrow> param inst 1;
       maskp \<leftarrow> be_parameter_of env p1 PTYPE_I;
       assert (is_immediate maskp);
       let dst = be_select_register dstp TEMP_REG1 8;
       let first0 = True;
       let (c1, first1) =
         (if (immediate maskp AND FLAG_C) \<noteq> 0
          then ([Inst kIdAnd [OReg dst, OReg FLAGS_REG, OImm FLAG_C]], False)
          else ([], first0));
       let (c2, first2) =
         (if (immediate maskp AND FLAG_V) \<noteq> 0
          then (getflgs_native dst first1 kVS FLAG_BIT_V, False)
          else ([], first1));
       let (c3, first3) =
         (if (immediate maskp AND FLAG_Z) \<noteq> 0
          then (getflgs_native dst first2 kEQ FLAG_BIT_Z, False)
          else ([], first2));
       let (c4, first4) =
         (if (immediate maskp AND FLAG_S) \<noteq> 0
          then (getflgs_native dst first3 kMI FLAG_BIT_S, False)
          else ([], first3));
       let (c5, first5) =
         (if (immediate maskp AND FLAG_U) \<noteq> 0
          then ((if first4
                 then [Inst kIdAnd [OReg dst, OReg FLAGS_REG, OImm FLAG_U]]
                 else [Inst kIdAnd [OReg SCRATCH_REG1, OReg FLAGS_REG, OImm FLAG_U],
                       Inst kIdOrr [OReg dst, OReg dst, OReg SCRATCH_REG1]]), False)
          else ([], first4));
       let c6 = (if first5 then [Inst kIdMov [OReg dst, OReg a64_xzr]] else []);
       put_mov_param_reg env (i_size inst) dstp dst (emits (c1 @ c2 @ c3 @ c4 @ c5 @ c6) g0)
     }"


subsection \<open>Integer arithmetic generators\<close>

text \<open>The recurring shape of the branches of \<open>op_add\<close> and \<open>op_sub\<close>: load the register
  operand, emit the instructions, write the result back.\<close>

definition alu_body ::
  "drcbe_env \<Rightarrow> nat \<Rightarrow> be_parameter \<Rightarrow> gp \<Rightarrow> gp \<Rightarrow> be_parameter \<Rightarrow> ainst list
     \<Rightarrow> gen_state \<Rightarrow> gen_state option" where
  "alu_body env sz dstp output src srcp insts g =
     put_mov_param_reg env sz dstp output (emits insts (put_mov_reg_param env sz src srcp g))"

definition op_add :: "bool \<Rightarrow> drcbe_env \<Rightarrow> instruction \<Rightarrow> gen_state \<Rightarrow> gen_state option" where
  "op_add CarryIn env inst g0 =
     do {
       assert (i_size inst = 4 \<or> i_size inst = 8);
       assert_no_condition inst;
       assert_flags inst (FLAG_C OR FLAG_V OR FLAG_Z OR FLAG_S);
       let opcode = (if CarryIn
                     then (if i_flags inst \<noteq> 0 then kIdAdcs else kIdAdc)
                     else (if i_flags inst \<noteq> 0 then kIdAdds else kIdAdd));
       p0 \<leftarrow> param inst 0;
       dstp \<leftarrow> be_parameter_of env p0 PTYPE_MR;
       p1 \<leftarrow> param inst 1;
       src1p \<leftarrow> be_parameter_of env p1 PTYPE_MRI;
       p2 \<leftarrow> param inst 2;
       src2p \<leftarrow> be_parameter_of env p2 PTYPE_MRI;
       let sz = i_size inst;
       let zero = select_register a64_xzr sz;
       let output = be_select_register dstp TEMP_REG3 sz;
       let g1 = (if CarryIn then load_carry False g0 else g0);
       g2 \<leftarrow>
         (if is_immediate_value src1p 0
          then
            (if is_immediate_value src2p 0
             then
               (if CarryIn
                then put_mov_param_reg env sz dstp output
                       (emits [Inst opcode [OReg output, OReg zero, OReg zero]] g1)
                else map_option (emits [Inst opcode [OReg zero, OReg zero, OReg zero]])
                       (put_mov_param_reg env sz dstp zero g1))
             else if \<not> CarryIn \<and> is_immediate src2p \<and> is_valid_immediate_addsub (immediate src2p)
             then put_mov_param_reg env sz dstp output
                    (emits [Inst kIdMov [OReg output, OReg zero],
                            Inst opcode [OReg output, OReg output, OImm (immediate src2p)]] g1)
             else if \<not> CarryIn \<and> is_immediate src2p \<and> is_valid_immediate (immediate src2p) 24
             then put_mov_param_reg env sz dstp output
                    (emits [Inst kIdMov [OReg output, OImm (immediate src2p AND make_bitmask 12)],
                            Inst opcode [OReg output, OReg output,
                              OImm (immediate src2p AND push_bit 12 (make_bitmask 12))]] g1)
             else
               (let src = be_select_register src2p output sz in
                alu_body env sz dstp output src src2p
                  [Inst opcode [OReg output, OReg src, OReg zero]] g1))
          else if is_immediate_value src2p 0
          then
            (if \<not> CarryIn \<and> is_immediate src1p \<and> is_valid_immediate_addsub (immediate src1p)
             then put_mov_param_reg env sz dstp output
                    (emits [Inst kIdMov [OReg output, OReg zero],
                            Inst opcode [OReg output, OReg output, OImm (immediate src1p)]] g1)
             else if \<not> CarryIn \<and> is_immediate src1p \<and> is_valid_immediate (immediate src1p) 24
             then put_mov_param_reg env sz dstp output
                    (emits [Inst kIdMov [OReg output, OImm (immediate src1p AND make_bitmask 12)],
                            Inst opcode [OReg output, OReg output,
                              OImm (immediate src1p AND push_bit 12 (make_bitmask 12))]] g1)
             else
               (let src = be_select_register src1p output sz in
                alu_body env sz dstp output src src1p
                  [Inst opcode [OReg output, OReg src, OReg zero]] g1))
          else if \<not> CarryIn \<and> is_immediate src1p \<and> is_valid_immediate_addsub (immediate src1p)
          then
            (let src = be_select_register src2p output sz in
             alu_body env sz dstp output src src2p
               [Inst opcode [OReg output, OReg src, OImm (immediate src1p)]] g1)
          else if \<not> CarryIn \<and> is_immediate src2p \<and> is_valid_immediate_addsub (immediate src2p)
          then
            (let src = be_select_register src1p output sz in
             alu_body env sz dstp output src src1p
               [Inst opcode [OReg output, OReg src, OImm (immediate src2p)]] g1)
          else if \<not> CarryIn \<and> i_flags inst = 0 \<and> is_immediate src1p
                  \<and> is_valid_immediate (immediate src1p) 24
          then
            (let src = be_select_register src2p output sz in
             alu_body env sz dstp output src src2p
               [Inst opcode [OReg output, OReg src, OImm (immediate src1p AND make_bitmask 12)],
                Inst opcode [OReg output, OReg output,
                  OImm (immediate src1p AND push_bit 12 (make_bitmask 12))]] g1)
          else if \<not> CarryIn \<and> i_flags inst = 0 \<and> is_immediate src2p
                  \<and> is_valid_immediate (immediate src2p) 24
          then
            (let src = be_select_register src1p output sz in
             alu_body env sz dstp output src src1p
               [Inst opcode [OReg output, OReg src, OImm (immediate src2p AND make_bitmask 12)],
                Inst opcode [OReg output, OReg output,
                  OImm (immediate src2p AND push_bit 12 (make_bitmask 12))]] g1)
          else
            (let src1 = be_select_register src1p TEMP_REG1 sz;
                 src2 = be_select_register src2p TEMP_REG2 sz
             in put_mov_param_reg env sz dstp output
                  (emits [Inst opcode [OReg output, OReg src1, OReg src2]]
                     (put_mov_reg_param env sz src2 src2p
                        (put_mov_reg_param env sz src1 src1p g1)))));
       Some (if i_flags inst \<noteq> 0 then store_carry False g2 else g2)
     }"

definition op_sub :: "bool \<Rightarrow> drcbe_env \<Rightarrow> instruction \<Rightarrow> gen_state \<Rightarrow> gen_state option" where
  "op_sub CarryIn env inst g0 =
     do {
       assert (i_size inst = 4 \<or> i_size inst = 8);
       assert_no_condition inst;
       assert_flags inst (FLAG_C OR FLAG_V OR FLAG_Z OR FLAG_S);
       let opcode = (if CarryIn
                     then (if i_flags inst \<noteq> 0 then kIdSbcs else kIdSbc)
                     else (if i_flags inst \<noteq> 0 then kIdSubs else kIdSub));
       p0 \<leftarrow> param inst 0;
       dstp \<leftarrow> be_parameter_of env p0 PTYPE_MR;
       p1 \<leftarrow> param inst 1;
       src1p \<leftarrow> be_parameter_of env p1 PTYPE_MRI;
       p2 \<leftarrow> param inst 2;
       src2p \<leftarrow> be_parameter_of env p2 PTYPE_MRI;
       let g1 = (if CarryIn then load_carry True g0 else g0);
       let sz = i_size inst;
       let zero = select_register a64_xzr sz;
       let output = be_select_register dstp TEMP_REG3 sz;
       g2 \<leftarrow>
         (if is_immediate_value src2p 0
          then
            (if is_immediate_value src1p 0
             then
               (if CarryIn
                then put_mov_param_reg env sz dstp output
                       (emits [Inst opcode [OReg output, OReg zero, OReg zero]] g1)
                else map_option (emits [Inst opcode [OReg zero, OReg zero, OReg zero]])
                       (put_mov_param_reg env sz dstp zero g1))
             else
               (let src = be_select_register src1p output sz;
                    ga = put_mov_reg_param env sz src src1p g1
                in
                if CarryIn
                then put_mov_param_reg env sz dstp output
                       (emits [Inst opcode [OReg output, OReg src, OReg zero]] ga)
                else map_option (emits [Inst opcode [OReg zero, OReg src, OReg zero]])
                       (put_mov_param_reg env sz dstp src ga)))
          else if \<not> CarryIn \<and> is_immediate src2p \<and> is_valid_immediate_addsub (immediate src2p)
          then
            (let src = be_select_register src1p output sz in
             alu_body env sz dstp output src src1p
               [Inst opcode [OReg output, OReg src, OImm (immediate src2p)]] g1)
          else if \<not> CarryIn \<and> (i_flags inst = 0 \<or> is_immediate_value src1p 0)
                  \<and> is_immediate src2p \<and> is_valid_immediate (immediate src2p) 24
          then
            (let src = be_select_register src1p output sz in
             alu_body env sz dstp output src src1p
               [Inst opcode [OReg output, OReg src, OImm (immediate src2p AND make_bitmask 12)],
                Inst opcode [OReg output, OReg output,
                  OImm (immediate src2p AND push_bit 12 (make_bitmask 12))]] g1)
          else
            (let src1 = be_select_register src1p TEMP_REG1 sz;
                 src2 = be_select_register src2p TEMP_REG2 sz
             in put_mov_param_reg env sz dstp output
                  (emits [Inst opcode [OReg output, OReg src1, OReg src2]]
                     (put_mov_reg_param env sz src2 src2p
                        (put_mov_reg_param env sz src1 src1p g1)))));
       Some (if i_flags inst \<noteq> 0 then store_carry True g2 else g2)
     }"

definition op_cmp :: "drcbe_env \<Rightarrow> instruction \<Rightarrow> gen_state \<Rightarrow> gen_state option" where
  "op_cmp env inst g0 =
     do {
       assert (i_size inst = 4 \<or> i_size inst = 8);
       assert_no_condition inst;
       assert_flags inst (FLAG_C OR FLAG_V OR FLAG_Z OR FLAG_S);
       p0 \<leftarrow> param inst 0;
       src1p \<leftarrow> be_parameter_of env p0 PTYPE_MRI;
       p1 \<leftarrow> param inst 1;
       src2p \<leftarrow> be_parameter_of env p1 PTYPE_MRI;
       let sz = i_size inst;
       let src1 = be_select_register src1p TEMP_REG1 sz;
       let g1 = put_mov_reg_param env sz src1 src1p g0;
       let g2 =
         (if is_immediate src2p \<and> is_valid_immediate_addsub (immediate src2p)
          then
            (if is_immediate_value src2p 0
             then emits [Inst kIdCmp [OReg src1, OReg (select_register a64_xzr sz)]] g1
             else emits [Inst kIdCmp [OReg src1, OImm (immediate src2p)]] g1)
          else
            (let src2 = be_select_register src2p TEMP_REG2 sz in
             emits [Inst kIdCmp [OReg src1, OReg src2]]
               (put_mov_reg_param env sz src2 src2p g1)));
       Some (store_carry True g2)
     }"

definition op_div :: "inst_id \<Rightarrow> drcbe_env \<Rightarrow> instruction \<Rightarrow> gen_state \<Rightarrow> gen_state option" where
  "op_div Opcode env inst g0 =
     do {
       assert (i_size inst = 4 \<or> i_size inst = 8);
       assert_no_condition inst;
       assert_flags inst (FLAG_V OR FLAG_Z OR FLAG_S);
       p0 \<leftarrow> param inst 0;
       dstp \<leftarrow> be_parameter_of env p0 PTYPE_MR;
       p1 \<leftarrow> param inst 1;
       edstp \<leftarrow> be_parameter_of env p1 PTYPE_MR;
       p2 \<leftarrow> param inst 2;
       src1p \<leftarrow> be_parameter_of env p2 PTYPE_MRI;
       p3 \<leftarrow> param inst 3;
       src2p \<leftarrow> be_parameter_of env p3 PTYPE_MRI;
       let compute_rem = be_neq dstp edstp;
       let sz = i_size inst;
       g9 \<leftarrow>
         (if \<not> is_immediate src2p \<or> (is_immediate src2p \<and> \<not> is_immediate_value src2p 0)
          then do {
            let (skip_zero, ga) = newLabel g0;
            let (skip, gb) = newLabel ga;
            let temp = select_register TEMP_REG1 sz;
            let temp2 = select_register TEMP_REG2 sz;
            let temp3 = select_register TEMP_REG3 sz;
            let g1 = put_mov_reg_param env sz temp2 src2p gb;
            let g2 = emits [Inst kIdCbz [OReg temp2, OLabel skip_zero]] g1;
            let g3 = put_mov_reg_param env sz temp src1p g2;
            let g4 = emits [Inst Opcode [OReg temp3, OReg temp, OReg temp2]] g3;
            g5 \<leftarrow> put_mov_param_reg env sz dstp temp3 g4;
            g6 \<leftarrow>
              (if compute_rem
               then put_mov_param_reg env sz edstp temp2
                      (emits [Inst kIdMsub [OReg temp2, OReg temp3, OReg temp2, OReg temp]] g5)
               else Some g5);
            let g7 = (if i_flags inst \<noteq> 0
                      then emits [Inst kIdTst [OReg temp3, OReg temp3]] g6 else g6);
            Some (emits
                    [Inst kIdB [OLabel skip],
                     Bind skip_zero,
                     Inst kIdMov [OReg SCRATCH_REG1, OImm (push_bit 28 1)],
                     Inst kIdMsr [ONzcv, OReg SCRATCH_REG1],
                     Bind skip] g7)
          }
          else Some (emits
                       [Inst kIdMov [OReg SCRATCH_REG1, OImm (push_bit 28 1)],
                        Inst kIdMsr [ONzcv, OReg SCRATCH_REG1]] g0));
       Some (g9\<lparr>m_carry_state := POISON\<rparr>)
     }"

subsection \<open>Shifts and rotates\<close>

definition can_use_dst_reg :: "be_parameter \<Rightarrow> be_parameter \<Rightarrow> be_parameter \<Rightarrow> bool" where
  "can_use_dst_reg dstp src1p src2p =
     (let c0 = is_int_register dstp;
          c1 = (if c0 \<and> is_int_register src1p then ireg src1p \<noteq> ireg dstp else c0);
          c2 = (if c1 \<and> is_int_register src2p then ireg src2p \<noteq> ireg dstp else c1)
      in c2)"

definition op_shift :: "inst_id \<Rightarrow> drcbe_env \<Rightarrow> instruction \<Rightarrow> gen_state \<Rightarrow> gen_state option" where
  "op_shift Opcode env inst g0 =
     do {
       assert (i_size inst = 4 \<or> i_size inst = 8);
       assert_no_condition inst;
       assert_flags inst (FLAG_C OR FLAG_Z OR FLAG_S);
       p0 \<leftarrow> param inst 0;
       dstp \<leftarrow> be_parameter_of env p0 PTYPE_MR;
       p1 \<leftarrow> param inst 1;
       src1p \<leftarrow> be_parameter_of env p1 PTYPE_MRI;
       p2 \<leftarrow> param inst 2;
       src2p \<leftarrow> be_parameter_of env p2 PTYPE_MRI;
       let sz = i_size inst;
       let maxBits = sz * 8 - 1;
       let src = be_select_register src1p TEMP_REG1 sz;
       let shift = be_select_register src2p TEMP_REG2 sz;
       let dst = (if can_use_dst_reg dstp src1p src2p
                  then be_select_register dstp TEMP_REG3 sz
                  else select_register TEMP_REG3 sz);
       let scratch = select_register FUNC_SCRATCH_REG sz;
       let g1 = put_mov_reg_param env sz src src1p g0;
       let g2 =
         (if is_immediate src2p \<and> is_valid_immediate (immediate src2p) (if sz = 8 then 5 else 4)
          then
            (let shiftimm = unat (immediate src2p) mod (sz * 8);
                 ga = emits [Inst Opcode [OReg dst, OReg src, OImm (of_nat shiftimm)]] g1
             in
             if Opcode = kIdRor \<or> Opcode = kIdLsr \<or> Opcode = kIdAsr
             then calculate_carry_shift_right_imm src shiftimm ga
             else if Opcode = kIdLsl
             then calculate_carry_shift_left_imm src shiftimm maxBits ga
             else ga)
          else
            (let ga = put_mov_reg_param env sz shift src2p g1;
                 gb = emits [Inst kIdAnd [OReg scratch, OReg shift, OImm (of_nat (sz * 8 - 1))],
                             Inst Opcode [OReg dst, OReg src, OReg scratch]] ga
             in
             if Opcode = kIdRor \<or> Opcode = kIdLsr \<or> Opcode = kIdAsr
             then calculate_carry_shift_right src scratch gb
             else if Opcode = kIdLsl
             then calculate_carry_shift_left src scratch maxBits gb
             else gb));
       let g3 = (if i_flags inst \<noteq> 0
                 then (emits [Inst kIdTst [OReg dst, OReg dst]] g2)\<lparr>m_carry_state := POISON\<rparr>
                 else g2);
       put_mov_param_reg env sz dstp dst g3
     }"

definition op_rol :: "drcbe_env \<Rightarrow> instruction \<Rightarrow> gen_state \<Rightarrow> gen_state option" where
  "op_rol env inst g0 =
     do {
       assert (i_size inst = 4 \<or> i_size inst = 8);
       assert_no_condition inst;
       assert_flags inst (FLAG_C OR FLAG_Z OR FLAG_S);
       p0 \<leftarrow> param inst 0;
       dstp \<leftarrow> be_parameter_of env p0 PTYPE_MR;
       p1 \<leftarrow> param inst 1;
       src1p \<leftarrow> be_parameter_of env p1 PTYPE_MRI;
       p2 \<leftarrow> param inst 2;
       src2p \<leftarrow> be_parameter_of env p2 PTYPE_MRI;
       let sz = i_size inst;
       let maxBits = sz * 8 - 1;
       let prm = be_select_register src1p TEMP_REG1 sz;
       let shift = be_select_register src2p TEMP_REG2 sz;
       let output = (if can_use_dst_reg dstp src1p src2p
                     then be_select_register dstp TEMP_REG3 sz
                     else select_register TEMP_REG3 sz);
       let scratch2 = select_register FUNC_SCRATCH_REG sz;
       let g1 = put_mov_reg_param env sz prm src1p g0;
       let g2 =
         (if is_immediate src2p
          then
            (let s = unat (immediate src2p) mod (sz * 8);
                 s2 = (sz * 8 - s) mod (sz * 8);
                 ga = (if s2 = 0
                       then (if gp_id output \<noteq> gp_id prm
                             then emits [Inst kIdMov [OReg output, OReg prm]] g1
                             else g1)
                       else emits [Inst kIdRor [OReg output, OReg prm, OImm (of_nat s2)]] g1)
             in calculate_carry_shift_left_imm prm s maxBits ga)
          else
            (let ga = put_mov_reg_param env sz shift src2p g1;
                 scratch = select_register SCRATCH_REG1 sz;
                 gb = emits [Inst kIdMov [OReg scratch, OImm (of_nat (sz * 8))],
                             Inst kIdAnd [OReg scratch2, OReg shift, OImm (of_nat maxBits)],
                             Inst kIdSub [OReg scratch, OReg scratch, OReg scratch2],
                             Inst kIdRor [OReg output, OReg prm, OReg scratch]] ga
             in calculate_carry_shift_left prm scratch2 maxBits gb));
       let g3 = (if i_flags inst \<noteq> 0
                 then (emits [Inst kIdTst [OReg output, OReg output]] g2)
                        \<lparr>m_carry_state := POISON\<rparr>
                 else g2);
       put_mov_param_reg env sz dstp output g3
     }"

subsection \<open>Float compare\<close>

definition put_mov_float_reg_param ::
  "drcbe_env \<Rightarrow> nat \<Rightarrow> vec \<Rightarrow> be_parameter \<Rightarrow> gen_state \<Rightarrow> gen_state option" where
  "put_mov_float_reg_param env regsize dst src g =
     map_option (\<lambda>c. emits c g) (mov_float_reg_param env (cur_offs env g) regsize dst src)"

definition op_fcmp :: "drcbe_env \<Rightarrow> instruction \<Rightarrow> gen_state \<Rightarrow> gen_state option" where
  "op_fcmp env inst g0 =
     do {
       assert (i_size inst = 4 \<or> i_size inst = 8);
       assert_no_condition inst;
       assert_flags inst (FLAG_C OR FLAG_Z OR FLAG_U);
       p0 \<leftarrow> param inst 0;
       src1p \<leftarrow> be_parameter_of env p0 PTYPE_MF;
       p1 \<leftarrow> param inst 1;
       src2p \<leftarrow> be_parameter_of env p1 PTYPE_MF;
       let sz = i_size inst;
       let srcreg1 = be_select_register_vec src1p TEMPF_REG1 sz;
       let srcreg2 = be_select_register_vec src2p TEMPF_REG2 sz;
       g1 \<leftarrow> (if \<not> is_float_register src1p
               then put_mov_float_reg_param env sz srcreg1 src1p g0 else Some g0);
       g2 \<leftarrow> (if \<not> is_float_register src2p
               then put_mov_float_reg_param env sz srcreg2 src2p g1 else Some g1);
       let g3 = emits [Inst kIdFcmp [OVec srcreg1, OVec srcreg2]] g2;
       let g4 = store_carry True g3;
       Some (emits store_unordered g4)
     }"


section \<open>The meaning of generated code\<close>

text \<open>
  The generated code runs on an AArch64 host.  The interpreter below gives the emitted
  instructions their architectural meaning on a machine state of general-purpose
  registers (index 31 is the stack pointer, as in the assembler's register ids; id 63 is
  the zero register), scalar float registers, the four condition flags and a
  byte-addressed memory.  What the architecture leaves to the surroundings is a
  parameter: the addresses at which labels are bound, the byte order of data accesses,
  and the result of comparing two floating-point bit patterns.
\<close>

record mstate =
  regs :: "nat \<Rightarrow> u64"
  vregs :: "nat \<Rightarrow> u64"
  flagN :: bool
  flagZ :: bool
  flagC :: bool
  flagV :: bool
  mem :: "u64 \<Rightarrow> 8 word"

datatype fcmp_outcome = FLess | FEqual | FGreater | FUnordered

record machine =
  label_address :: "nat \<Rightarrow> u64"
  data_big_endian :: bool
  float_compare :: "bool \<Rightarrow> u64 \<Rightarrow> u64 \<Rightarrow> fcmp_outcome"

text \<open>Where execution stands after some instructions: running on (\<open>Done\<close>), branching
  forward to a label of the block that is not yet reached (\<open>Seek\<close>), gone to an address
  outside the block by a branch (\<open>Leave\<close>) or by a call (\<open>Call\<close>), or stopped at an
  instruction form the interpreter does not cover (\<open>Stuck\<close>).\<close>

datatype outcome =
    Done mstate
  | Seek nat mstate
  | Leave u64 mstate
  | Call u64 mstate
  | Stuck

definition dsz :: "gp \<Rightarrow> nat" where
  "dsz r = (if isGpX r then 64 else 32)"

definition rd :: "mstate \<Rightarrow> gp \<Rightarrow> u64" where
  "rd s r = (if gp_id r = 63 then 0 else take_bit (dsz r) (regs s (gp_id r)))"

definition wr :: "gp \<Rightarrow> u64 \<Rightarrow> mstate \<Rightarrow> mstate" where
  "wr r v s = (if gp_id r = 63 then s
               else s\<lparr>regs := (regs s)(gp_id r := take_bit (dsz r) v)\<rparr>)"

definition vsz :: "vec \<Rightarrow> nat" where
  "vsz r = (if isVecD r then 64 else 32)"

definition vrd :: "mstate \<Rightarrow> vec \<Rightarrow> u64" where
  "vrd s r = take_bit (vsz r) (vregs s (vec_id r))"

definition vwr :: "vec \<Rightarrow> u64 \<Rightarrow> mstate \<Rightarrow> mstate" where
  "vwr r v s = s\<lparr>vregs := (vregs s)(vec_id r := take_bit (vsz r) v)\<rparr>"

definition cond_holds :: "mstate \<Rightarrow> cond_code \<Rightarrow> bool" where
  "cond_holds s c =
     (case c of
        kEQ \<Rightarrow> flagZ s | kNE \<Rightarrow> \<not> flagZ s
      | kCS \<Rightarrow> flagC s | kCC \<Rightarrow> \<not> flagC s
      | kMI \<Rightarrow> flagN s | kPL \<Rightarrow> \<not> flagN s
      | kVS \<Rightarrow> flagV s | kVC \<Rightarrow> \<not> flagV s
      | kHI \<Rightarrow> flagC s \<and> \<not> flagZ s | kLS \<Rightarrow> \<not> (flagC s \<and> \<not> flagZ s)
      | kGE \<Rightarrow> flagN s = flagV s | kLT \<Rightarrow> flagN s \<noteq> flagV s
      | kGT \<Rightarrow> \<not> flagZ s \<and> flagN s = flagV s | kLE \<Rightarrow> \<not> (\<not> flagZ s \<and> flagN s = flagV s)
      | kAL \<Rightarrow> True)"

definition set_nzcv :: "bool \<Rightarrow> bool \<Rightarrow> bool \<Rightarrow> bool \<Rightarrow> mstate \<Rightarrow> mstate" where
  "set_nzcv n z c v s = s\<lparr>flagN := n, flagZ := z, flagC := c, flagV := v\<rparr>"

definition nzcv_word :: "mstate \<Rightarrow> u64" where
  "nzcv_word s =
     push_bit 31 (of_bool (flagN s)) OR push_bit 30 (of_bool (flagZ s))
     OR push_bit 29 (of_bool (flagC s)) OR push_bit 28 (of_bool (flagV s))"

definition fcmp_nzcv :: "fcmp_outcome \<Rightarrow> mstate \<Rightarrow> mstate" where
  "fcmp_nzcv r s =
     (case r of
        FEqual \<Rightarrow> set_nzcv False True True False s
      | FLess \<Rightarrow> set_nzcv True False False False s
      | FGreater \<Rightarrow> set_nzcv False False True False s
      | FUnordered \<Rightarrow> set_nzcv False False True True s)"

subsection \<open>Memory\<close>

fun load_le :: "(u64 \<Rightarrow> 8 word) \<Rightarrow> u64 \<Rightarrow> nat \<Rightarrow> u64" where
  "load_le m a 0 = 0"
| "load_le m a (Suc n) = ucast (m a) OR push_bit 8 (load_le m (a + 1) n)"

fun load_be :: "(u64 \<Rightarrow> 8 word) \<Rightarrow> u64 \<Rightarrow> nat \<Rightarrow> u64" where
  "load_be m a 0 = 0"
| "load_be m a (Suc n) = push_bit (8 * n) (ucast (m a)) OR load_be m (a + 1) n"

fun store_le :: "(u64 \<Rightarrow> 8 word) \<Rightarrow> u64 \<Rightarrow> nat \<Rightarrow> u64 \<Rightarrow> (u64 \<Rightarrow> 8 word)" where
  "store_le m a 0 v = m"
| "store_le m a (Suc n) v = store_le (m(a := ucast v)) (a + 1) n (drop_bit 8 v)"

fun store_be :: "(u64 \<Rightarrow> 8 word) \<Rightarrow> u64 \<Rightarrow> nat \<Rightarrow> u64 \<Rightarrow> (u64 \<Rightarrow> 8 word)" where
  "store_be m a 0 v = m"
| "store_be m a (Suc n) v = store_be (m(a := ucast (drop_bit (8 * n) v))) (a + 1) n v"

definition load_mem :: "machine \<Rightarrow> mstate \<Rightarrow> u64 \<Rightarrow> nat \<Rightarrow> u64" where
  "load_mem M s a n =
     (if data_big_endian M then load_be (mem s) a n else load_le (mem s) a n)"

definition store_mem :: "machine \<Rightarrow> u64 \<Rightarrow> nat \<Rightarrow> u64 \<Rightarrow> mstate \<Rightarrow> mstate" where
  "store_mem M a n v s =
     s\<lparr>mem := (if data_big_endian M then store_be (mem s) a n v else store_le (mem s) a n v)\<rparr>"

definition ea :: "mstate \<Rightarrow> amem \<Rightarrow> u64 option" where
  "ea s m =
     (case m of
        Mem b off \<Rightarrow> Some (rd s b + off)
      | MemIdx b i sh \<Rightarrow> Some (rd s b + push_bit sh (rd s i))
      | _ \<Rightarrow> None)"

subsection \<open>Data processing\<close>

definition sint_n :: "nat \<Rightarrow> u64 \<Rightarrow> int" where
  "sint_n n a = signed_take_bit (n - 1) (uint a)"

text \<open>The architecture's add-with-carry on \<open>n\<close>-bit operands: the result and the flags
  N, Z, C, V.\<close>

definition add_with_carry :: "nat \<Rightarrow> u64 \<Rightarrow> u64 \<Rightarrow> bool \<Rightarrow> u64 \<times> bool \<times> bool \<times> bool \<times> bool" where
  "add_with_carry n a b cin =
     (let x = take_bit n a;
          y = take_bit n b;
          usum = uint x + uint y + of_bool cin;
          ssum = sint_n n x + sint_n n y + of_bool cin;
          r = take_bit n (word_of_int usum :: u64)
      in (r, bit r (n - 1), r = 0, uint r \<noteq> usum, sint_n n r \<noteq> ssum))"

text \<open>Division of integers rounding towards zero, as \<open>sdiv\<close> does.\<close>

definition quot_towards_zero :: "int \<Rightarrow> int \<Rightarrow> int" where
  "quot_towards_zero a b =
     (if (a < 0) = (b < 0) then \<bar>a\<bar> div \<bar>b\<bar> else - (\<bar>a\<bar> div \<bar>b\<bar>))"

definition udiv_n :: "nat \<Rightarrow> u64 \<Rightarrow> u64 \<Rightarrow> u64" where
  "udiv_n n a b = (if take_bit n b = 0 then 0 else take_bit n a div take_bit n b)"

definition sdiv_n :: "nat \<Rightarrow> u64 \<Rightarrow> u64 \<Rightarrow> u64" where
  "sdiv_n n a b =
     (if take_bit n b = 0 then 0
      else take_bit n (word_of_int (quot_towards_zero (sint_n n (take_bit n a)) (sint_n n (take_bit n b)))))"

definition asr_n :: "nat \<Rightarrow> nat \<Rightarrow> u64 \<Rightarrow> u64" where
  "asr_n n k a = take_bit n (word_of_int (drop_bit k (sint_n n (take_bit n a))))"

definition ror_n :: "nat \<Rightarrow> nat \<Rightarrow> u64 \<Rightarrow> u64" where
  "ror_n n k a =
     (let x = take_bit n a; j = k mod n in
      take_bit n (drop_bit j x OR push_bit (n - j) x))"

text \<open>The value of a register or immediate operand.\<close>

definition opval :: "mstate \<Rightarrow> operand \<Rightarrow> u64 option" where
  "opval s x = (case x of OReg r \<Rightarrow> Some (rd s r) | OImm v \<Rightarrow> Some v | _ \<Rightarrow> None)"

text \<open>The second source of a logical instruction: a register, an immediate, or a register
  shifted left by an immediate (the assembler reads a fourth immediate operand so).\<close>

definition src2val :: "mstate \<Rightarrow> operand list \<Rightarrow> u64 option" where
  "src2val s xs =
     (case xs of
        [x] \<Rightarrow> opval s x
      | [OReg r, OImm sh] \<Rightarrow> Some (push_bit (unat sh) (rd s r))
      | _ \<Rightarrow> None)"

definition exec_alu :: "inst_id \<Rightarrow> gp \<Rightarrow> u64 \<Rightarrow> u64 \<Rightarrow> mstate \<Rightarrow> outcome" where
  "exec_alu opc d a b s =
     (let n = dsz d in
      case opc of
        kIdAdd \<Rightarrow> Done (wr d (a + b) s)
      | kIdSub \<Rightarrow> Done (wr d (a - b) s)
      | kIdAdds \<Rightarrow>
          (case add_with_carry n a b False of
             (r, fn, fz, fc, fv) \<Rightarrow> Done (set_nzcv fn fz fc fv (wr d r s)))
      | kIdSubs \<Rightarrow>
          (case add_with_carry n a (NOT b) True of
             (r, fn, fz, fc, fv) \<Rightarrow> Done (set_nzcv fn fz fc fv (wr d r s)))
      | kIdAdc \<Rightarrow>
          (case add_with_carry n a b (flagC s) of
             (r, fn, fz, fc, fv) \<Rightarrow> Done (wr d r s))
      | kIdAdcs \<Rightarrow>
          (case add_with_carry n a b (flagC s) of
             (r, fn, fz, fc, fv) \<Rightarrow> Done (set_nzcv fn fz fc fv (wr d r s)))
      | kIdSbc \<Rightarrow>
          (case add_with_carry n a (NOT b) (flagC s) of
             (r, fn, fz, fc, fv) \<Rightarrow> Done (wr d r s))
      | kIdSbcs \<Rightarrow>
          (case add_with_carry n a (NOT b) (flagC s) of
             (r, fn, fz, fc, fv) \<Rightarrow> Done (set_nzcv fn fz fc fv (wr d r s)))
      | kIdAnd \<Rightarrow> Done (wr d (a AND b) s)
      | kIdOrr \<Rightarrow> Done (wr d (a OR b) s)
      | kIdEor \<Rightarrow> Done (wr d (a XOR b) s)
      | kIdBic \<Rightarrow> Done (wr d (a AND NOT b) s)
      | kIdLsl \<Rightarrow> Done (wr d (push_bit (unat b mod n) a) s)
      | kIdLsr \<Rightarrow> Done (wr d (drop_bit (unat b mod n) (take_bit n a)) s)
      | kIdAsr \<Rightarrow> Done (wr d (asr_n n (unat b mod n) a) s)
      | kIdRor \<Rightarrow> Done (wr d (ror_n n (unat b mod n) a) s)
      | kIdUdiv \<Rightarrow> Done (wr d (udiv_n n a b) s)
      | kIdSdiv \<Rightarrow> Done (wr d (sdiv_n n a b) s)
      | _ \<Rightarrow> Stuck)"

definition exec_cmp :: "inst_id \<Rightarrow> gp \<Rightarrow> u64 \<Rightarrow> u64 \<Rightarrow> mstate \<Rightarrow> outcome" where
  "exec_cmp opc r a b s =
     (let n = dsz r in
      case opc of
        kIdCmp \<Rightarrow>
          (case add_with_carry n a (NOT b) True of
             (res, fn, fz, fc, fv) \<Rightarrow> Done (set_nzcv fn fz fc fv s))
      | kIdTst \<Rightarrow>
          (let res = take_bit n (a AND b) in
           Done (set_nzcv (bit res (n - 1)) (res = 0) False False s))
      | _ \<Rightarrow> Stuck)"

definition exec_bitfield :: "inst_id \<Rightarrow> gp \<Rightarrow> gp \<Rightarrow> nat \<Rightarrow> nat \<Rightarrow> mstate \<Rightarrow> outcome" where
  "exec_bitfield opc d n lsb width s =
     (case opc of
        kIdBfi \<Rightarrow>
          Done (wr d ((rd s d AND NOT (push_bit lsb (mask width)))
                      OR push_bit lsb (rd s n AND mask width)) s)
      | kIdUbfx \<Rightarrow> Done (wr d (drop_bit lsb (rd s n) AND mask width) s)
      | _ \<Rightarrow> Stuck)"

definition load_size :: "inst_id \<Rightarrow> gp \<Rightarrow> nat option" where
  "load_size opc r =
     (case opc of
        kIdLdr \<Rightarrow> Some (if isGpX r then 8 else 4)
      | kIdLdrb \<Rightarrow> Some 1
      | kIdLdrh \<Rightarrow> Some 2
      | kIdStr \<Rightarrow> Some (if isGpX r then 8 else 4)
      | kIdStrb \<Rightarrow> Some 1
      | kIdStrh \<Rightarrow> Some 2
      | _ \<Rightarrow> None)"

definition is_store :: "inst_id \<Rightarrow> bool" where
  "is_store opc = (opc = kIdStr \<or> opc = kIdStrb \<or> opc = kIdStrh)"

definition exec_mem :: "machine \<Rightarrow> inst_id \<Rightarrow> operand \<Rightarrow> amem \<Rightarrow> mstate \<Rightarrow> outcome" where
  "exec_mem M opc x m s =
     (case ea s m of
        None \<Rightarrow> Stuck
      | Some a \<Rightarrow>
          (case x of
             OReg r \<Rightarrow>
               (case load_size opc r of
                  None \<Rightarrow> Stuck
                | Some n \<Rightarrow>
                    if is_store opc then Done (store_mem M a n (rd s r) s)
                    else Done (wr r (load_mem M s a n) s))
           | OVec v \<Rightarrow>
               (if opc = kIdLdr_v then Done (vwr v (load_mem M s a (vsz v div 8)) s)
                else if opc = kIdStr_v then Done (store_mem M a (vsz v div 8) (vrd s v) s)
                else Stuck)
           | _ \<Rightarrow> Stuck))"

definition exec_branch :: "machine \<Rightarrow> inst_id \<Rightarrow> operand list \<Rightarrow> mstate \<Rightarrow> outcome" where
  "exec_branch M opc ops s =
     (case (opc, ops) of
        (kIdB, [OImm a]) \<Rightarrow> Leave a s
      | (kIdB, [OLabel l]) \<Rightarrow> Seek l s
      | (kIdB, [OCond c, OLabel l]) \<Rightarrow> (if cond_holds s c then Seek l s else Done s)
      | (kIdCbz, [OReg r, OLabel l]) \<Rightarrow> (if rd s r = 0 then Seek l s else Done s)
      | (kIdCbnz, [OReg r, OLabel l]) \<Rightarrow> (if rd s r \<noteq> 0 then Seek l s else Done s)
      | (kIdTbz, [OReg r, OImm b, OLabel l]) \<Rightarrow>
          (if \<not> bit (rd s r) (unat b) then Seek l s else Done s)
      | (kIdTbnz, [OReg r, OImm b, OLabel l]) \<Rightarrow>
          (if bit (rd s r) (unat b) then Seek l s else Done s)
      | (kIdBr, [OReg r]) \<Rightarrow> Leave (rd s r) s
      | (kIdBl, [OImm a]) \<Rightarrow> Call a s
      | (kIdBlr, [OReg r]) \<Rightarrow> Call (rd s r) s
      | (kIdRet, [OReg r]) \<Rightarrow> Leave (rd s r) s
      | _ \<Rightarrow> Stuck)"

definition exec_move :: "machine \<Rightarrow> inst_id \<Rightarrow> operand list \<Rightarrow> mstate \<Rightarrow> outcome" where
  "exec_move M opc ops s =
     (case (opc, ops) of
        (kIdMov, [OReg d, x]) \<Rightarrow>
          (case opval s x of Some v \<Rightarrow> Done (wr d v s) | None \<Rightarrow> Stuck)
      | (kIdMovz, [OReg d, OImm v]) \<Rightarrow> Done (wr d v s)
      | (kIdAdr, [OReg d, OImm a]) \<Rightarrow> Done (wr d a s)
      | (kIdAdr, [OReg d, OLabel l]) \<Rightarrow> Done (wr d (label_address M l) s)
      | (kIdAdrp, [OReg d, OImm a]) \<Rightarrow> Done (wr d a s)
      | (kIdCset, [OReg d, OCond c]) \<Rightarrow> Done (wr d (of_bool (cond_holds s c)) s)
      | (kIdMrs, [OReg d, ONzcv]) \<Rightarrow> Done (wr d (nzcv_word s) s)
      | (kIdMsr, [ONzcv, OReg r]) \<Rightarrow>
          Done (set_nzcv (bit (rd s r) 31) (bit (rd s r) 30) (bit (rd s r) 29) (bit (rd s r) 28) s)
      | (kIdMsub, [OReg d, OReg n, OReg m, OReg a]) \<Rightarrow>
          Done (wr d (rd s a - rd s n * rd s m) s)
      | (kIdFcmp, [OVec a, OVec b]) \<Rightarrow>
          Done (fcmp_nzcv (float_compare M (isVecD a) (vrd s a) (vrd s b)) s)
      | _ \<Rightarrow> Stuck)"

definition is_alu :: "inst_id \<Rightarrow> bool" where
  "is_alu opc = (opc \<in> {kIdAdd, kIdSub, kIdAdds, kIdSubs, kIdAdc, kIdAdcs, kIdSbc, kIdSbcs,
     kIdAnd, kIdOrr, kIdEor, kIdBic, kIdLsl, kIdLsr, kIdAsr, kIdRor, kIdUdiv, kIdSdiv})"

definition is_branch :: "inst_id \<Rightarrow> bool" where
  "is_branch opc = (opc \<in> {kIdB, kIdBl, kIdBr, kIdBlr, kIdRet, kIdCbz, kIdCbnz, kIdTbz, kIdTbnz})"

definition exec :: "machine \<Rightarrow> inst_id \<Rightarrow> operand list \<Rightarrow> mstate \<Rightarrow> outcome" where
  "exec M opc ops s =
     (if is_alu opc
      then (case ops of
              OReg d # x # rest \<Rightarrow>
                (case (opval s x, src2val s rest) of
                   (Some a, Some b) \<Rightarrow> exec_alu opc d a b s
                 | _ \<Rightarrow> Stuck)
            | _ \<Rightarrow> Stuck)
      else if opc = kIdCmp \<or> opc = kIdTst
      then (case ops of
              [OReg r, x] \<Rightarrow>
                (case opval s x of Some b \<Rightarrow> exec_cmp opc r (rd s r) b s | None \<Rightarrow> Stuck)
            | _ \<Rightarrow> Stuck)
      else if opc = kIdBfi \<or> opc = kIdUbfx
      then (case ops of
              [OReg d, OReg n, OImm lsb, OImm width] \<Rightarrow>
                exec_bitfield opc d n (unat lsb) (unat width) s
            | _ \<Rightarrow> Stuck)
      else if load_size opc (xreg 0) \<noteq> None \<or> opc = kIdLdr_v \<or> opc = kIdStr_v
      then (case ops of [x, OMem m] \<Rightarrow> exec_mem M opc x m s | _ \<Rightarrow> Stuck)
      else if is_branch opc then exec_branch M opc ops s
      else exec_move M opc ops s)"

definition step1 :: "machine \<Rightarrow> ainst \<Rightarrow> outcome \<Rightarrow> outcome" where
  "step1 M i oc =
     (case oc of
        Done s \<Rightarrow> (case i of Bind l \<Rightarrow> Done s | Inst opc ops \<Rightarrow> exec M opc ops s)
      | Seek l s \<Rightarrow> (if i = Bind l then Done s else Seek l s)
      | _ \<Rightarrow> oc)"

definition run :: "machine \<Rightarrow> ainst list \<Rightarrow> outcome \<Rightarrow> outcome" where
  "run M c oc = foldl (\<lambda>oc i. step1 M i oc) oc c"

section \<open>The immediate ladder in the words of the specification\<close>

text \<open>The specification describes both materialisers as a choice among five strategies,
  tried in a fixed order.  The choice and the code of each strategy are written down here
  independently of \<open>get_imm_absolute\<close> and \<open>get_imm_relative\<close>, to be compared with them.\<close>

datatype imm_strategy = SingleMove | PcRelative | BaseRelative | PageRelative | MoveSequence

definition single_move_ok :: "gp \<Rightarrow> u64 \<Rightarrow> bool" where
  "single_move_ok reg val =
     (is_simple_mov_immediate val (if isGpX reg then 8 else 4)
      \<or> (isGpX reg \<and> is_valid_immediate_mask val 4))"

definition pc_relative_ok :: "u64 \<Rightarrow> u64 \<Rightarrow> bool" where
  "pc_relative_ok codeoffs val = is_valid_immediate_signed (val - codeoffs) 21"

definition magnitude :: "u64 \<Rightarrow> u64" where
  "magnitude d = (if d <s 0 then - d else d)"

text \<open>The value minus the base-register value fits an add/sub immediate (as an addend or as
  a subtrahend).\<close>

definition base_relative_fits :: "u64 \<Rightarrow> u64 \<Rightarrow> bool" where
  "base_relative_fits baseptr val = is_valid_immediate_addsub (magnitude (val - baseptr))"

definition page_relative_ok :: "u64 \<Rightarrow> u64 \<Rightarrow> bool" where
  "page_relative_ok codeoffs val =
     is_valid_immediate_signed (val - (codeoffs AND NOT (make_bitmask 12))) (21 + 12)"

text \<open>The ladder as the specification states it: the base-relative step is taken by the
  memory-reference variant whenever the difference fits.\<close>

definition spec_imm_ladder :: "bool \<Rightarrow> u64 \<Rightarrow> u64 \<Rightarrow> gp \<Rightarrow> u64 \<Rightarrow> imm_strategy" where
  "spec_imm_ladder memory_reference baseptr codeoffs reg val =
     (if single_move_ok reg val then SingleMove
      else if pc_relative_ok codeoffs val then PcRelative
      else if memory_reference \<and> base_relative_fits baseptr val then BaseRelative
      else if page_relative_ok codeoffs val then PageRelative
      else MoveSequence)"

text \<open>The same ladder with the base-relative step restricted to a non-zero difference.\<close>

definition imm_ladder :: "bool \<Rightarrow> u64 \<Rightarrow> u64 \<Rightarrow> gp \<Rightarrow> u64 \<Rightarrow> imm_strategy" where
  "imm_ladder memory_reference baseptr codeoffs reg val =
     (if single_move_ok reg val then SingleMove
      else if pc_relative_ok codeoffs val then PcRelative
      else if memory_reference \<and> val \<noteq> baseptr \<and> base_relative_fits baseptr val
      then BaseRelative
      else if page_relative_ok codeoffs val then PageRelative
      else MoveSequence)"

definition strategy_code :: "imm_strategy \<Rightarrow> u64 \<Rightarrow> gp \<Rightarrow> u64 \<Rightarrow> ainst list" where
  "strategy_code st baseptr reg val =
     (case st of
        SingleMove \<Rightarrow>
          [Inst kIdMov [OReg (if is_simple_mov_immediate val (if isGpX reg then 8 else 4)
                              then reg else reg_w reg), OImm val]]
      | PcRelative \<Rightarrow> [Inst kIdAdr [OReg reg, OImm val]]
      | BaseRelative \<Rightarrow>
          [Inst (if val - baseptr <s 0 then kIdSub else kIdAdd)
             [OReg reg, OReg BASE_REG, OImm (magnitude (val - baseptr))]]
      | PageRelative \<Rightarrow>
          Inst kIdAdrp [OReg (reg_x reg), OImm (val AND NOT (make_bitmask 12))]
          # (if (val AND make_bitmask 12) \<noteq> 0
             then [Inst kIdAdd [OReg reg, OReg reg, OImm (val AND make_bitmask 12)]] else [])
      | MoveSequence \<Rightarrow> [Inst kIdMov [OReg reg, OImm val]])"

text \<open>An add or sub whose first source is the base register.\<close>

definition is_base_relative :: "ainst \<Rightarrow> bool" where
  "is_base_relative i =
     (case i of
        Inst opc ops \<Rightarrow> (opc = kIdAdd \<or> opc = kIdSub) \<and> length ops = 3 \<and> ops ! 1 = OReg BASE_REG
      | Bind l \<Rightarrow> False)"

subsection \<open>Memory access generators\<close>

definition SIZE_BYTE :: nat where "SIZE_BYTE = 0"
definition SIZE_WORD :: nat where "SIZE_WORD = 1"
definition SIZE_DWORD :: nat where "SIZE_DWORD = 2"
definition SIZE_QWORD :: nat where "SIZE_QWORD = 3"

definition emit_memaccess_setup ::
  "drcbe_env \<Rightarrow> be_parameter \<Rightarrow> memory_accessors \<Rightarrow> access_side \<Rightarrow> gen_state \<Rightarrow> gen_state" where
  "emit_memaccess_setup env addrp accessors side g0 =
     (let addrreg = (if no_mask accessors \<or> mask_simple accessors then REG_PARAM2 else xreg 6);
          g1 = put_mov_reg_param env 4 addrreg addrp g0;
          g2 = put_get_imm_relative env (xreg 8) (side_dispatch side) g1;
          g3 = (if high_bits accessors \<noteq> 0 \<and> \<not> mask_high_bits accessors
                then emits [Inst kIdUbfx [OReg (wreg 7), OReg (reg_w addrreg),
                              OImm (of_nat (specific_low_bits accessors)),
                              OImm (of_nat (high_bits accessors))]] g2
                else g2);
          g4 = (if mask_simple accessors
                then emits [Inst kIdAnd [OReg (reg_w REG_PARAM2), OReg (reg_w addrreg),
                              OImm (address_mask accessors)]] g3
                else if \<not> no_mask accessors
                then emits [Inst kIdMov [OReg (reg_w REG_PARAM2),
                              OImm (address_mask accessors)]] g3
                else g3);
          g5 = (if high_bits accessors = 0
                then emits [Inst kIdLdr [OReg REG_PARAM1, OMem (Mem (xreg 8) 0)]] g4
                else if \<not> mask_high_bits accessors
                then emits [Inst kIdLdr [OReg REG_PARAM1, OMem (MemIdx (xreg 8) (xreg 7) 3)]] g4
                else g4);
          g6 = (if \<not> no_mask accessors \<and> \<not> mask_simple accessors
                then emits [Inst kIdAnd [OReg (reg_w REG_PARAM2), OReg (reg_w REG_PARAM2),
                              OReg (reg_w addrreg)]] g5
                else g5);
          g7 = (if mask_high_bits accessors
                then emits [Inst kIdLsr [OReg (wreg 7), OReg (reg_w REG_PARAM2),
                              OImm (of_nat (specific_low_bits accessors))],
                            Inst kIdLdr [OReg REG_PARAM1, OMem (MemIdx (xreg 8) (xreg 7) 3)]] g6
                else g6)
      in
      if side_displacement side \<noteq> 0
      then emits [Inst kIdAdd [OReg REG_PARAM1, OReg REG_PARAM1,
                    OImm (side_displacement side)]] g7
      else g7)"

text \<open>The call of a specific accessor: through the virtual table or directly.\<close>

definition emit_narrow_memwrite ::
  "drcbe_env \<Rightarrow> be_parameter \<Rightarrow> nat \<Rightarrow> nat \<Rightarrow> memory_accessors \<Rightarrow> gen_state \<Rightarrow> gen_state" where
  "emit_narrow_memwrite env addrp sz spc accessors g0 =
     (let addrreg = (if no_mask accessors \<or> mask_simple accessors then REG_PARAM2 else xreg 5);
          g1 = put_mov_reg_param env 4 addrreg addrp g0;
          g2 = put_get_imm_relative env (xreg 8) (side_dispatch (specific_write accessors)) g1;
          shift = space_addr_shift env spc - 3;
          shiftmask = (of_nat ((specific_native_bytes accessors - 2 ^ sz) * 8) :: u64) AND mask 32;
          g3 =
            (if space_big_endian env spc
             then
               (let smallshift = (shift \<le> 0 \<and> shift \<ge> - 3);
                    ga = (if \<not> smallshift
                          then (if shift < 0
                                then emits [Inst kIdLsl [OReg (wreg 6), OReg (reg_w addrreg),
                                              OImm (of_int (- shift))]] g2
                                else emits [Inst kIdLsr [OReg (wreg 6), OReg (reg_w addrreg),
                                              OImm (of_int shift)]] g2)
                          else g2);
                    gb = emits [Inst kIdMov [OReg (wreg 7), OImm shiftmask]] ga
                in
                if smallshift
                then emits [Inst kIdBic [OReg (wreg 7), OReg (wreg 7), OReg (reg_w addrreg),
                              OImm (of_int (- shift))]] gb
                else emits [Inst kIdBic [OReg (wreg 7), OReg (wreg 7), OReg (wreg 6)]] gb)
             else
               (if shift = 0
                then emits [Inst kIdAnd [OReg (wreg 7), OReg (reg_w addrreg), OImm shiftmask]] g2
                else
                  emits [Inst kIdAnd [OReg (wreg 7), OReg (wreg 7), OImm shiftmask]]
                    (if shift < 0
                     then emits [Inst kIdLsl [OReg (wreg 7), OReg (reg_w addrreg),
                                   OImm (of_int (- shift))]] g2
                     else emits [Inst kIdLsr [OReg (wreg 7), OReg (reg_w addrreg),
                                   OImm (of_int shift)]] g2)));
          g4 = (if high_bits accessors \<noteq> 0 \<and> \<not> mask_high_bits accessors
                then emits [Inst kIdUbfx [OReg (wreg 6), OReg (reg_w addrreg),
                              OImm (of_nat (specific_low_bits accessors)),
                              OImm (of_nat (high_bits accessors))]] g3
                else g3);
          g5 = (if mask_simple accessors
                then emits [Inst kIdAnd [OReg (reg_w REG_PARAM2), OReg (reg_w addrreg),
                              OImm (address_mask accessors)]] g4
                else if \<not> no_mask accessors
                then emits [Inst kIdMov [OReg (reg_w REG_PARAM2),
                              OImm (address_mask accessors)]] g4
                else g4);
          g6 = (if high_bits accessors = 0
                then emits [Inst kIdLdr [OReg REG_PARAM1, OMem (Mem (xreg 8) 0)]] g5
                else if \<not> mask_high_bits accessors
                then emits [Inst kIdLdr [OReg REG_PARAM1, OMem (MemIdx (xreg 8) (xreg 6) 3)]] g5
                else g5);
          g7 = (if \<not> no_mask accessors \<and> \<not> mask_simple accessors
                then emits [Inst kIdAnd [OReg (reg_w REG_PARAM2), OReg (reg_w REG_PARAM2),
                              OReg (reg_w addrreg)]] g6
                else g6);
          g8 = (if mask_high_bits accessors
                then emits [Inst kIdLsr [OReg (wreg 6), OReg (reg_w REG_PARAM2),
                              OImm (of_nat (specific_low_bits accessors))],
                            Inst kIdLdr [OReg REG_PARAM1, OMem (MemIdx (xreg 8) (xreg 6) 3)]] g7
                else g7);
          g9 = (if side_displacement (specific_write accessors) \<noteq> 0
                then emits [Inst kIdAdd [OReg REG_PARAM1, OReg REG_PARAM1,
                              OImm (side_displacement (specific_write accessors))]] g8
                else g8);
          g10 = emits [Inst kIdLsl [OReg REG_PARAM3, OReg REG_PARAM3, OReg (xreg 7)],
                       Inst kIdLsl [OReg REG_PARAM4, OReg REG_PARAM4, OReg (xreg 7)]] g9
      in
      if side_is_virtual (specific_write accessors)
      then emits [Inst kIdLdr [OReg (xreg 8), OMem (Mem REG_PARAM1 0)],
                  Inst kIdLdr [OReg (xreg 8),
                    OMem (Mem (xreg 8) (side_function (specific_write accessors)))],
                  Inst kIdBlr [OReg (xreg 8)]] g10
      else put_call_arm_addr env (side_function (specific_write accessors)) g10)"

text \<open>The slow path: the receiver goes to the first argument register and the resolved
  accessor of the access size is called; no call is emitted for a size that is none of
  the four.\<close>

definition call_resolved ::
  "drcbe_env \<Rightarrow> nat \<Rightarrow> resolved_member_function \<Rightarrow> resolved_member_function
     \<Rightarrow> resolved_member_function \<Rightarrow> resolved_member_function \<Rightarrow> gen_state \<Rightarrow> gen_state" where
  "call_resolved env sz fb fw fd fq g =
     (if sz = SIZE_BYTE
      then put_call_arm_addr env (rmf_func fb) (put_get_imm_relative env REG_PARAM1 (rmf_obj fb) g)
      else if sz = SIZE_WORD
      then put_call_arm_addr env (rmf_func fw) (put_get_imm_relative env REG_PARAM1 (rmf_obj fw) g)
      else if sz = SIZE_DWORD
      then put_call_arm_addr env (rmf_func fd) (put_get_imm_relative env REG_PARAM1 (rmf_obj fd) g)
      else if sz = SIZE_QWORD
      then put_call_arm_addr env (rmf_func fq) (put_get_imm_relative env REG_PARAM1 (rmf_obj fq) g)
      else g)"

definition op_read :: "drcbe_env \<Rightarrow> instruction \<Rightarrow> gen_state \<Rightarrow> gen_state option" where
  "op_read env inst g00 =
     do {
       assert (i_size inst = 4 \<or> i_size inst = 8);
       assert_no_condition inst;
       assert_no_flags inst;
       let g0 = g00\<lparr>m_carry_state := POISON\<rparr>;
       p0 \<leftarrow> param inst 0;
       dstp \<leftarrow> be_parameter_of env p0 PTYPE_MR;
       p1 \<leftarrow> param inst 1;
       addrp \<leftarrow> be_parameter_of env p1 PTYPE_MRI;
       spacesizep \<leftarrow> param inst 2;
       (sz, spc) \<leftarrow> (case spacesizep of PARAM_SIZE_SPACE sz spc \<Rightarrow> Some (sz, spc) | _ \<Rightarrow> None);
       let accessors = m_memory_accessors env spc;
       let side = specific_read accessors;
       let have_specific = (side_function side \<noteq> 0 \<or> side_is_virtual side);
       let g9 =
         (if have_specific \<and> 2 ^ sz = specific_native_bytes accessors
          then
            (let g1 = emit_memaccess_setup env addrp accessors side g0;
                 g2 = (if side_is_virtual side
                       then emits [Inst kIdLdr [OReg (xreg 8), OMem (Mem REG_PARAM1 0)],
                                   Inst kIdLdr [OReg (xreg 8),
                                     OMem (Mem (xreg 8) (side_function side))]] g1
                       else g1);
                 g3 = emits [Inst kIdMov [OReg REG_PARAM3,
                               OImm (make_bitmask (specific_native_bytes accessors * 8))]] g2
             in
             if side_is_virtual side
             then emits [Inst kIdBlr [OReg (xreg 8)]] g3
             else put_call_arm_addr env (side_function side) g3)
          else
            call_resolved env sz (read_byte accessors) (read_word accessors)
              (read_dword accessors) (read_qword accessors)
              (put_mov_reg_param env 4 REG_PARAM2 addrp g0));
       put_mov_param_reg env (i_size inst) dstp REG_PARAM1 g9
     }"

definition op_write :: "drcbe_env \<Rightarrow> instruction \<Rightarrow> gen_state \<Rightarrow> gen_state option" where
  "op_write env inst g00 =
     do {
       assert (i_size inst = 4 \<or> i_size inst = 8);
       assert_no_condition inst;
       assert_no_flags inst;
       let g0 = g00\<lparr>m_carry_state := POISON\<rparr>;
       p0 \<leftarrow> param inst 0;
       addrp \<leftarrow> be_parameter_of env p0 PTYPE_MRI;
       p1 \<leftarrow> param inst 1;
       srcp \<leftarrow> be_parameter_of env p1 PTYPE_MRI;
       spacesizep \<leftarrow> param inst 2;
       (sz, spc) \<leftarrow> (case spacesizep of PARAM_SIZE_SPACE sz spc \<Rightarrow> Some (sz, spc) | _ \<Rightarrow> None);
       let accessors = m_memory_accessors env spc;
       let side = specific_write accessors;
       let have_specific = (side_function side \<noteq> 0 \<or> side_is_virtual side);
       Some
         (if have_specific \<and> 2 ^ sz = specific_native_bytes accessors
          then
            (let g1 = emit_memaccess_setup env addrp accessors side g0;
                 g2 = put_mov_reg_param env (i_size inst) REG_PARAM3 srcp g1;
                 g3 = (if side_is_virtual side
                       then emits [Inst kIdLdr [OReg (xreg 8), OMem (Mem REG_PARAM1 0)],
                                   Inst kIdLdr [OReg (xreg 8),
                                     OMem (Mem (xreg 8) (side_function side))]] g2
                       else g2);
                 g4 = emits [Inst kIdMov [OReg REG_PARAM4,
                               OImm (make_bitmask (specific_native_bytes accessors * 8))]] g3
             in
             if side_is_virtual side
             then emits [Inst kIdBlr [OReg (xreg 8)]] g4
             else put_call_arm_addr env (side_function side) g4)
          else if have_specific \<and> 2 ^ sz < specific_native_bytes accessors
          then
            (let g1 = put_mov_reg_param env (i_size inst) REG_PARAM3 srcp g0;
                 g2 = emits [Inst kIdMov [OReg REG_PARAM4, OImm (make_bitmask (8 * 2 ^ sz))]] g1
             in emit_narrow_memwrite env addrp sz spc accessors g2)
          else
            call_resolved env sz (write_byte accessors) (write_word accessors)
              (write_dword accessors) (write_qword accessors)
              (put_mov_reg_param env (i_size inst) REG_PARAM3 srcp
                 (put_mov_reg_param env 4 REG_PARAM2 addrp g0)))
     }"

definition op_readm :: "drcbe_env \<Rightarrow> instruction \<Rightarrow> gen_state \<Rightarrow> gen_state option" where
  "op_readm env inst g00 =
     do {
       assert (i_size inst = 4 \<or> i_size inst = 8);
       assert_no_condition inst;
       assert_no_flags inst;
       let g0 = g00\<lparr>m_carry_state := POISON\<rparr>;
       p0 \<leftarrow> param inst 0;
       dstp \<leftarrow> be_parameter_of env p0 PTYPE_MR;
       p1 \<leftarrow> param inst 1;
       addrp \<leftarrow> be_parameter_of env p1 PTYPE_MRI;
       p2 \<leftarrow> param inst 2;
       maskp \<leftarrow> be_parameter_of env p2 PTYPE_MRI;
       spacesizep \<leftarrow> param inst 3;
       (sz, spc) \<leftarrow> (case spacesizep of PARAM_SIZE_SPACE sz spc \<Rightarrow> Some (sz, spc) | _ \<Rightarrow> None);
       let accessors = m_memory_accessors env spc;
       let side = specific_read accessors;
       let have_specific = (side_function side \<noteq> 0 \<or> side_is_virtual side);
       let g9 =
         (if have_specific \<and> 2 ^ sz = specific_native_bytes accessors
          then
            (let g1 = emit_memaccess_setup env addrp accessors side g0;
                 g2 = put_mov_reg_param env (i_size inst) REG_PARAM3 maskp g1
             in
             if side_is_virtual side
             then emits [Inst kIdLdr [OReg (xreg 8), OMem (Mem REG_PARAM1 0)],
                         Inst kIdLdr [OReg (xreg 8), OMem (Mem (xreg 8) (side_function side))],
                         Inst kIdBlr [OReg (xreg 8)]] g2
             else put_call_arm_addr env (side_function side) g2)
          else
            call_resolved env sz (read_byte_masked accessors) (read_word_masked accessors)
              (read_dword_masked accessors) (read_qword_masked accessors)
              (put_mov_reg_param env (i_size inst) REG_PARAM3 maskp
                 (put_mov_reg_param env 4 REG_PARAM2 addrp g0)));
       put_mov_param_reg env (i_size inst) dstp REG_PARAM1 g9
     }"

definition op_writem :: "drcbe_env \<Rightarrow> instruction \<Rightarrow> gen_state \<Rightarrow> gen_state option" where
  "op_writem env inst g00 =
     do {
       assert (i_size inst = 4 \<or> i_size inst = 8);
       assert_no_condition inst;
       assert_no_flags inst;
       let g0 = g00\<lparr>m_carry_state := POISON\<rparr>;
       p0 \<leftarrow> param inst 0;
       addrp \<leftarrow> be_parameter_of env p0 PTYPE_MRI;
       p1 \<leftarrow> param inst 1;
       srcp \<leftarrow> be_parameter_of env p1 PTYPE_MRI;
       p2 \<leftarrow> param inst 2;
       maskp \<leftarrow> be_parameter_of env p2 PTYPE_MRI;
       spacesizep \<leftarrow> param inst 3;
       (sz, spc) \<leftarrow> (case spacesizep of PARAM_SIZE_SPACE sz spc \<Rightarrow> Some (sz, spc) | _ \<Rightarrow> None);
       let accessors = m_memory_accessors env spc;
       let side = specific_write accessors;
       let have_specific = (side_function side \<noteq> 0 \<or> side_is_virtual side);
       Some
         (if have_specific \<and> 2 ^ sz = specific_native_bytes accessors
          then
            (let g1 = emit_memaccess_setup env addrp accessors side g0;
                 g2 = put_mov_reg_param env (i_size inst) REG_PARAM3 srcp g1;
                 g3 = (if side_is_virtual side
                       then emits [Inst kIdLdr [OReg (xreg 8), OMem (Mem REG_PARAM1 0)],
                                   Inst kIdLdr [OReg (xreg 8),
                                     OMem (Mem (xreg 8) (side_function side))]] g2
                       else g2);
                 g4 = put_mov_reg_param env (i_size inst) REG_PARAM4 maskp g3
             in
             if side_is_virtual side
             then emits [Inst kIdBlr [OReg (xreg 8)]] g4
             else put_call_arm_addr env (side_function side) g4)
          else if have_specific \<and> 2 ^ sz < specific_native_bytes accessors
          then
            (let g1 = put_mov_reg_param env (i_size inst) REG_PARAM3 srcp g0;
                 g2 = put_mov_reg_param env (i_size inst) REG_PARAM4 maskp g1
             in emit_narrow_memwrite env addrp sz spc accessors g2)
          else
            call_resolved env sz (write_byte_masked accessors) (write_word_masked accessors)
              (write_dword_masked accessors) (write_qword_masked accessors)
              (put_mov_reg_param env (i_size inst) REG_PARAM4 maskp
                 (put_mov_reg_param env (i_size inst) REG_PARAM3 srcp
                    (put_mov_reg_param env 4 REG_PARAM2 addrp g0))))
     }"

subsection \<open>Float reads and writes through the accessors\<close>

definition mov_float_param_int_reg ::
  "drcbe_env \<Rightarrow> u64 \<Rightarrow> nat \<Rightarrow> be_parameter \<Rightarrow> gp \<Rightarrow> ainst list option" where
  "mov_float_param_int_reg env codeoffs regsize dst src =
     (if is_immediate dst then None
      else if is_memory dst then Some (emit_str_mem env codeoffs src (memory dst))
      else if is_float_register dst
      then Some [Inst kIdFmov [OVec (get_register_float dst regsize), OReg src]]
      else Some [])"

definition put_mov_float_param_int_reg ::
  "drcbe_env \<Rightarrow> nat \<Rightarrow> be_parameter \<Rightarrow> gp \<Rightarrow> gen_state \<Rightarrow> gen_state option" where
  "put_mov_float_param_int_reg env regsize dst src g =
     map_option (\<lambda>c. emits c g) (mov_float_param_int_reg env (cur_offs env g) regsize dst src)"

definition op_fread :: "drcbe_env \<Rightarrow> instruction \<Rightarrow> gen_state \<Rightarrow> gen_state option" where
  "op_fread env inst g00 =
     do {
       assert (i_size inst = 4 \<or> i_size inst = 8);
       assert_no_condition inst;
       assert_no_flags inst;
       let g0 = g00\<lparr>m_carry_state := POISON\<rparr>;
       p0 \<leftarrow> param inst 0;
       dstp \<leftarrow> be_parameter_of env p0 PTYPE_MR;
       p1 \<leftarrow> param inst 1;
       addrp \<leftarrow> be_parameter_of env p1 PTYPE_MRI;
       spacesizep \<leftarrow> param inst 2;
       (sz, spc) \<leftarrow> (case spacesizep of PARAM_SIZE_SPACE sz spc \<Rightarrow> Some (sz, spc) | _ \<Rightarrow> None);
       assert (2 ^ sz = i_size inst);
       let accessors = m_memory_accessors env spc;
       let g1 = put_mov_reg_param env 4 REG_PARAM2 addrp g0;
       if i_size inst = 4
       then put_mov_float_param_int_reg env (i_size inst) dstp (reg_w REG_PARAM1)
              (put_call_arm_addr env (rmf_func (read_dword accessors))
                 (put_get_imm_relative env REG_PARAM1 (rmf_obj (read_dword accessors)) g1))
       else if i_size inst = 8
       then put_mov_float_param_int_reg env (i_size inst) dstp REG_PARAM1
              (put_call_arm_addr env (rmf_func (read_qword accessors))
                 (put_get_imm_relative env REG_PARAM1 (rmf_obj (read_qword accessors)) g1))
       else Some g1
     }"

definition op_fwrite :: "drcbe_env \<Rightarrow> instruction \<Rightarrow> gen_state \<Rightarrow> gen_state option" where
  "op_fwrite env inst g00 =
     do {
       assert (i_size inst = 4 \<or> i_size inst = 8);
       assert_no_condition inst;
       assert_no_flags inst;
       let g0 = g00\<lparr>m_carry_state := POISON\<rparr>;
       p0 \<leftarrow> param inst 0;
       addrp \<leftarrow> be_parameter_of env p0 PTYPE_MRI;
       p1 \<leftarrow> param inst 1;
       srcp \<leftarrow> be_parameter_of env p1 PTYPE_MF;
       spacesizep \<leftarrow> param inst 2;
       (sz, spc) \<leftarrow> (case spacesizep of PARAM_SIZE_SPACE sz spc \<Rightarrow> Some (sz, spc) | _ \<Rightarrow> None);
       assert (2 ^ sz = i_size inst);
       let accessors = m_memory_accessors env spc;
       let g1 = put_mov_reg_param env 4 REG_PARAM2 addrp g0;
       g2 \<leftarrow> put_mov_float_reg_param env (i_size inst) TEMPF_REG1 srcp g1;
       let g3 = emits [Inst kIdFmov [OReg (select_register REG_PARAM3 (i_size inst)),
                                     OVec (select_register_vec TEMPF_REG1 (i_size inst))]] g2;
       Some
         (if i_size inst = 4
          then put_call_arm_addr env (rmf_func (write_dword accessors))
                 (put_get_imm_relative env REG_PARAM1 (rmf_obj (write_dword accessors)) g3)
          else if i_size inst = 8
          then put_call_arm_addr env (rmf_func (write_qword accessors))
                 (put_get_imm_relative env REG_PARAM1 (rmf_obj (write_qword accessors)) g3)
          else g3)
     }"

subsection \<open>Breaking into the debugger and recovering a map variable\<close>

definition op_break :: "drcbe_env \<Rightarrow> instruction \<Rightarrow> gen_state \<Rightarrow> gen_state option" where
  "op_break env inst g00 =
     do {
       assert (i_size inst = 4);
       assert_no_condition inst;
       assert_no_flags inst;
       let g0 = g00\<lparr>m_carry_state := POISON\<rparr>;
       let g1 = put_get_imm_relative env REG_PARAM1 (break_message env) g0;
       Some (put_call_arm_addr env (osd_break_into_debugger env) g1)
     }"

definition op_recover :: "drcbe_env \<Rightarrow> instruction \<Rightarrow> gen_state \<Rightarrow> gen_state option" where
  "op_recover env inst g00 =
     do {
       assert (i_size inst = 4);
       assert_no_condition inst;
       assert_no_flags inst;
       let g0 = g00\<lparr>m_carry_state := POISON\<rparr>;
       p0 \<leftarrow> param inst 0;
       dstp \<leftarrow> be_parameter_of env p0 PTYPE_MR;
       let g1 = emits [Inst kIdLdr [OReg REG_PARAM2, OMem (Mem a64_x29 (- 8))]] g0;
       let g2 = put_get_imm_relative env REG_PARAM1 (drcmap_get_value_obj env) g1;
       p1 \<leftarrow> param inst 1;
       mapvar \<leftarrow> (case p1 of PARAM_MAPVAR n \<Rightarrow> Some n | _ \<Rightarrow> None);
       let g3 = emits [Inst kIdMov [OReg REG_PARAM3, OImm (of_nat mapvar)],
                       Inst kIdSub [OReg REG_PARAM2, OReg REG_PARAM2, OImm 4]] g2;
       let g4 = put_call_arm_addr env (drcmap_get_value_func env) g3;
       put_mov_param_reg env (i_size inst) dstp REG_PARAM1 g4
     }"

subsection \<open>The block driver\<close>

definition op_nop :: "drcbe_env \<Rightarrow> instruction \<Rightarrow> gen_state \<Rightarrow> gen_state option" where
  "op_nop env inst g = Some g"

definition s_opcode_table ::
  "opcode_t \<Rightarrow> drcbe_env \<Rightarrow> instruction \<Rightarrow> gen_state \<Rightarrow> gen_state option" where
  "s_opcode_table opc =
     (case opc of
        OP_NOP \<Rightarrow> op_nop
      | OP_BREAK \<Rightarrow> op_break
      | OP_DEBUG \<Rightarrow> op_debug
      | OP_EXIT \<Rightarrow> op_exit
      | OP_HASHJMP \<Rightarrow> op_hashjmp
      | OP_CALLC \<Rightarrow> op_callc
      | OP_RECOVER \<Rightarrow> op_recover
      | OP_GETFLGS \<Rightarrow> op_getflgs
      | OP_READ \<Rightarrow> op_read
      | OP_READM \<Rightarrow> op_readm
      | OP_WRITE \<Rightarrow> op_write
      | OP_WRITEM \<Rightarrow> op_writem
      | OP_ADD \<Rightarrow> op_add False
      | OP_ADDC \<Rightarrow> op_add True
      | OP_SUB \<Rightarrow> op_sub False
      | OP_SUBB \<Rightarrow> op_sub True
      | OP_CMP \<Rightarrow> op_cmp
      | OP_DIVU \<Rightarrow> op_div kIdUdiv
      | OP_DIVS \<Rightarrow> op_div kIdSdiv
      | OP_SHL \<Rightarrow> op_shift kIdLsl
      | OP_SHR \<Rightarrow> op_shift kIdLsr
      | OP_SAR \<Rightarrow> op_shift kIdAsr
      | OP_ROL \<Rightarrow> op_rol
      | OP_ROR \<Rightarrow> op_shift kIdRor
      | OP_FREAD \<Rightarrow> op_fread
      | OP_FWRITE \<Rightarrow> op_fwrite
      | OP_FCMP \<Rightarrow> op_fcmp)"

text \<open>The loop of \<open>generate\<close> over the instruction list; it stops at the first generator
  that fails.\<close>

fun generate_insts :: "drcbe_env \<Rightarrow> instruction list \<Rightarrow> gen_state \<Rightarrow> gen_state option" where
  "generate_insts env [] g = Some g"
| "generate_insts env (inst # rest) g =
     (case s_opcode_table (i_opcode inst) env inst g of
        None \<Rightarrow> None
      | Some g' \<Rightarrow> generate_insts env rest g')"



text \<open>The code holder after assembly: its base address, the assembled code, and the error
  code \<open>copyFlattenedData\<close> reports when the code is copied out (0 is no error).\<close>

record code_holder =
  ch_baseAddress :: u64
  ch_code :: "ainst list"
  ch_copy_error :: nat


definition codeSize :: "drcbe_env \<Rightarrow> code_holder \<Rightarrow> nat" where
  "codeSize env ch = sum_list (map (inst_bytes env) (ch_code ch))"





section \<open>Notions used in the statements\<close>

text \<open>Two machine states agree on the condition flags.\<close>

definition same_flags :: "mstate \<Rightarrow> mstate \<Rightarrow> bool" where
  "same_flags s s' =
     (flagN s' = flagN s \<and> flagZ s' = flagZ s \<and> flagC s' = flagC s \<and> flagV s' = flagV s)"

text \<open>\<open>frame R s s'\<close>: the state \<open>s'\<close> differs from \<open>s\<close> at most in the general-purpose
  registers whose ids are in \<open>R\<close>.\<close>

definition frame :: "nat set \<Rightarrow> mstate \<Rightarrow> mstate \<Rightarrow> bool" where
  "frame R s s' =
     ((\<forall>r. r \<notin> R \<longrightarrow> regs s' r = regs s r) \<and> vregs s' = vregs s \<and> same_flags s s'
      \<and> mem s' = mem s)"

text \<open>The code a generator appended to the assembler.\<close>

definition emitted :: "gen_state \<Rightarrow> gen_state \<Rightarrow> ainst list" where
  "emitted g g' = drop (length (code g)) (code g')"

text \<open>\<open>regs_frame R s s'\<close>: as \<open>frame\<close>, but the memory may differ.\<close>

definition regs_frame :: "nat set \<Rightarrow> mstate \<Rightarrow> mstate \<Rightarrow> bool" where
  "regs_frame R s s' =
     ((\<forall>r. r \<notin> R \<longrightarrow> regs s' r = regs s r) \<and> vregs s' = vregs s \<and> same_flags s s')"

text \<open>The value of a back-end parameter read at width \<open>sz\<close> in a machine state: what
  \<open>mov_reg_param\<close> is to deliver.\<close>

definition param_value :: "machine \<Rightarrow> drcbe_env \<Rightarrow> mstate \<Rightarrow> nat \<Rightarrow> be_parameter \<Rightarrow> u64" where
  "param_value M env s sz p =
     take_bit (8 * sz)
       (if is_immediate p then immediate p
        else if is_int_register p then regs s (ireg p)
        else load_mem M s
               (memory p + (if native_big_endian env \<and> sz = 4 \<and> is_cold_register p then 4 else 0))
               sz)"

section \<open>Concrete surroundings for the instances\<close>

text \<open>A little-endian host with the near region at \<open>0x10000000\<close>, the code of the block at
  \<open>0x20000000\<close>, and an empty hash table whose entries all point at the no-code stub.\<close>

definition witness_accessors :: memory_accessors where
  "witness_accessors =
     \<lparr>read_byte = \<lparr>rmf_obj = 0x30000000, rmf_func = 0x30001000\<rparr>,
      read_word = \<lparr>rmf_obj = 0x30000000, rmf_func = 0x30001100\<rparr>,
      read_dword = \<lparr>rmf_obj = 0x30000000, rmf_func = 0x30001200\<rparr>,
      read_qword = \<lparr>rmf_obj = 0x30000000, rmf_func = 0x30001300\<rparr>,
      write_byte = \<lparr>rmf_obj = 0x30000000, rmf_func = 0x30002000\<rparr>,
      write_word = \<lparr>rmf_obj = 0x30000000, rmf_func = 0x30002100\<rparr>,
      write_dword = \<lparr>rmf_obj = 0x30000000, rmf_func = 0x30002200\<rparr>,
      write_qword = \<lparr>rmf_obj = 0x30000000, rmf_func = 0x30002300\<rparr>,
      read_byte_masked = \<lparr>rmf_obj = 0x30000000, rmf_func = 0x30003000\<rparr>,
      read_word_masked = \<lparr>rmf_obj = 0x30000000, rmf_func = 0x30003100\<rparr>,
      read_dword_masked = \<lparr>rmf_obj = 0x30000000, rmf_func = 0x30003200\<rparr>,
      read_qword_masked = \<lparr>rmf_obj = 0x30000000, rmf_func = 0x30003300\<rparr>,
      write_byte_masked = \<lparr>rmf_obj = 0x30000000, rmf_func = 0x30004000\<rparr>,
      write_word_masked = \<lparr>rmf_obj = 0x30000000, rmf_func = 0x30004100\<rparr>,
      write_dword_masked = \<lparr>rmf_obj = 0x30000000, rmf_func = 0x30004200\<rparr>,
      write_qword_masked = \<lparr>rmf_obj = 0x30000000, rmf_func = 0x30004300\<rparr>,
      specific_read = \<lparr>side_function = 0, side_displacement = 0, side_is_virtual = False,
                        side_dispatch = 0\<rparr>,
      specific_write = \<lparr>side_function = 0, side_displacement = 0, side_is_virtual = False,
                         side_dispatch = 0\<rparr>,
      specific_native_bytes = 4,
      specific_low_bits = 0,
      address_mask = 0xffffffff,
      high_bits = 0,
      no_mask = True,
      mask_simple = False,
      mask_high_bits = False\<rparr>"

definition witness_env :: drcbe_env where
  "witness_env =
     \<lparr>m_baseptr = 0x10000100,
      base_address = 0x20000000,
      native_big_endian = False,
      mov_imm_count = (\<lambda>r v. 1),
      m_exit = 0x1fff0040,
      m_nocode = 0x1fff0080,
      m_endofblock = 0x1fff00c0,
      state_r_addr = (\<lambda>i. 0x10000200 + 8 * of_nat i),
      state_f_addr = (\<lambda>i. 0x10000240 + 8 * of_nat i),
      state_exp_addr = 0x10000284,
      near_emulated_flags_addr = 0x10000000,
      debug_enabled = False,
      debug_flags_addr = 0x40000000,
      debug_hook_obj = 0x40001000,
      debug_hook_func = 0x40002000,
      break_message = 0x40004000,
      osd_break_into_debugger = 0x40005000,
      drcmap_get_value_obj = 0x40006000,
      drcmap_get_value_func = 0x40007000,
      hash_base = 0x10001000,
      hash_mode_table = (\<lambda>m. 0x10002000),
      hash_l1_entry = (\<lambda>m l. 0x10003000),
      hash_is_mode_populated = (\<lambda>m. False),
      hash_l1shift = 12,
      hash_l1bits = 4,
      hash_l1mask = 15,
      hash_l2shift = 2,
      hash_l2bits = 10,
      hash_l2mask = 1023,
      m_memory_accessors = (\<lambda>spc. witness_accessors),
      space_addr_shift = (\<lambda>spc. 0),
      space_big_endian = (\<lambda>spc. False)\<rparr>"

definition witness_machine :: machine where
  "witness_machine =
     \<lparr>label_address = (\<lambda>l. 0x20000000 + 4 * of_nat l),
      data_big_endian = False,
      float_compare = (\<lambda>d a b. if a = b then FEqual else FUnordered)\<rparr>"

text \<open>A machine state as generated code finds it: the base register holds \<open>m_baseptr\<close>;
  memory holds the byte \<open>i + 1\<close> at the address \<open>0x10000200 + i\<close> for \<open>i < 8\<close> and the no-code
  pointer in every slot of the hash tables.\<close>

definition witness_mem :: "u64 \<Rightarrow> 8 word" where
  "witness_mem a =
     (if 0x10000200 \<le> a \<and> a < 0x10000208 then ucast (a - 0x10000200) + 1
      else if 0x10001000 \<le> a \<and> a < 0x10004000
      then (if a AND 7 = 0 then 0x80 else if a AND 7 = 1 then 0x00 else if a AND 7 = 2 then 0xff
            else if a AND 7 = 3 then 0x1f else 0)
      else 0)"

definition witness_state :: mstate where
  "witness_state =
     \<lparr>regs = (\<lambda>r. if r = 27 then 0x10000100 else if r = 29 then 0x7fff0000 else 0),
      vregs = (\<lambda>r. 0),
      flagN = False, flagZ = False, flagC = False, flagV = False,
      mem = witness_mem\<rparr>"

text \<open>The value of a register where execution stands, if it is still running.\<close>

definition done_reg :: "outcome \<Rightarrow> nat \<Rightarrow> u64 option" where
  "done_reg oc r = (case oc of Done s \<Rightarrow> Some (regs s r) | _ \<Rightarrow> None)"

text \<open>The spill slot of a cold register, at the address \<open>0x10000200\<close>.\<close>

definition cold_slot :: be_parameter where
  "cold_slot = \<lparr>m_type = PTYPE_MEMORY, m_value = 0x10000200, m_coldreg = True\<rparr>"

text \<open>The machine state after a value has been written to a back-end parameter at width
  \<open>sz\<close>: a store to memory (of the whole slot for a cold register), or a write to the view
  of the register.\<close>

definition param_store :: "machine \<Rightarrow> nat \<Rightarrow> be_parameter \<Rightarrow> u64 \<Rightarrow> mstate \<Rightarrow> mstate" where
  "param_store M sz p v s =
     (if is_memory p
      then store_mem M (memory p) (if is_cold_register p then 8 else sz) v s
      else wr (get_register_int p sz) v s)"

text \<open>Two machine states agree on what UML code can observe between instructions, the flags
  apart: memory, the float registers, and the registers from x19 up (the UML registers,
  the base and flags registers, frame pointer, link register and stack pointer).\<close>

definition uml_agree :: "mstate \<Rightarrow> mstate \<Rightarrow> bool" where
  "uml_agree s1 s2 =
     (mem s1 = mem s2 \<and> vregs s1 = vregs s2 \<and> (\<forall>r. 19 \<le> r \<and> r \<le> 31 \<longrightarrow> regs s1 r = regs s2 r))"

text \<open>A back-end parameter as the constructor makes it from an immediate, a memory
  location or a mapped integer register.\<close>

definition wf_param :: "be_parameter \<Rightarrow> bool" where
  "wf_param p =
     ((is_immediate p \<or> is_memory p \<or> (is_int_register p \<and> 19 \<le> ireg p \<and> ireg p \<le> 26))
      \<and> \<not> is_cold_register p)"

text \<open>The assembler at the start of a block, an instruction without a condition, and a
  \<open>GETFLGS\<close> whose mask selects none of the five flags.\<close>

definition start_gen :: gen_state where
  "start_gen = \<lparr>code = [], next_label = 0, m_carry_state = POISON\<rparr>"

definition uml_inst :: "opcode_t \<Rightarrow> nat \<Rightarrow> u64 \<Rightarrow> parameter list \<Rightarrow> instruction" where
  "uml_inst opc sz fl ps =
     \<lparr>i_opcode = opc, i_size = sz, i_condition = COND_ALWAYS, i_flags = fl, i_params = ps\<rparr>"

definition getflgs_none :: instruction where
  "getflgs_none = uml_inst OP_GETFLGS 4 0 [PARAM_MEMORY 0x10000200, PARAM_IMMEDIATE 0x20]"

text \<open>The second worked example of the specification: an addition that carries out of
  32 bits, the flags read back, and the exit with them.\<close>

definition example_add_getflgs_exit :: "instruction list" where
  "example_add_getflgs_exit =
     [uml_inst OP_ADD 4 (FLAG_C OR FLAG_Z OR FLAG_V OR FLAG_S)
        [PARAM_INT_REGISTER 0, PARAM_IMMEDIATE 0xFFFFFFFF, PARAM_IMMEDIATE 1],
      uml_inst OP_GETFLGS 4 0
        [PARAM_INT_REGISTER 1, PARAM_IMMEDIATE (FLAG_C OR FLAG_Z OR FLAG_V OR FLAG_S)],
      uml_inst OP_EXIT 4 0 [PARAM_INT_REGISTER 1]]"

text \<open>What the entry point returns when generated code branches to the exit point: the
  exit point restores the frame and returns to the caller of the entry point, whose
  32-bit result is the first parameter register.  Any other way of leaving the code is
  not a return of the entry point.\<close>

definition entry_return :: "drcbe_env \<Rightarrow> outcome \<Rightarrow> u64 option" where
  "entry_return env oc =
     (case oc of
        Leave a s \<Rightarrow> if a = m_exit env then Some (rd s (reg_w REG_PARAM1)) else None
      | _ \<Rightarrow> None)"

text \<open>A double-precision compare of a memory operand with a float register.\<close>

definition fcmp_example :: instruction where
  "fcmp_example = uml_inst OP_FCMP 8 FLAG_U [PARAM_MEMORY 0x10000200, PARAM_FLOAT_REGISTER 0]"

text \<open>An addition with flags, a call of a C function, a break into the debugger and a
  compare.\<close>

definition add_example :: instruction where
  "add_example = uml_inst OP_ADD 4 (FLAG_C OR FLAG_Z)
     [PARAM_INT_REGISTER 0, PARAM_INT_REGISTER 1, PARAM_MEMORY 0x10000300]"

definition callc_example :: instruction where
  "callc_example = uml_inst OP_CALLC 4 0 [PARAM_C_FUNCTION 0x40003000, PARAM_MEMORY 0x10000300]"

definition break_example :: instruction where
  "break_example = uml_inst OP_BREAK 4 0 []"

definition cmp_example :: instruction where
  "cmp_example = uml_inst OP_CMP 4 (FLAG_C OR FLAG_Z) [PARAM_INT_REGISTER 0, PARAM_IMMEDIATE 1]"



text \<open>\<open>flags_frame R s s'\<close>: the native flags are the same in \<open>s\<close> and \<open>s'\<close>, the
  general-purpose registers outside \<open>R\<close> other than the emulated-flags register are the
  same, and the emulated-flags register differs at most in bit 0, the C bit.\<close>

definition flags_frame :: "nat set \<Rightarrow> mstate \<Rightarrow> mstate \<Rightarrow> bool" where
  "flags_frame R s s' =
     (same_flags s s' \<and> (\<forall>r. r \<notin> R \<and> r \<noteq> 28 \<longrightarrow> regs s' r = regs s r)
      \<and> (\<forall>n. n \<noteq> 0 \<longrightarrow> bit (regs s' 28) n = bit (regs s 28) n))"

text \<open>The registers generated code uses for temporaries and for the UML integer
  registers, and the code sequences that, started with the base register set up, run to
  their end and change nothing but these registers, the memory and the C bit.\<close>

definition work_regs :: "nat set" where
  "work_regs = {9, 10, 11, 12, 14, 15} \<union> {19..26}"

definition flag_safe :: "machine \<Rightarrow> drcbe_env \<Rightarrow> ainst list \<Rightarrow> bool" where
  "flag_safe M env c =
     (\<forall>s. regs s 27 = m_baseptr env
          \<longrightarrow> (\<exists>s'. run M c (Done s) = Done s' \<and> flags_frame work_regs s s'))"

text \<open>A step of the generator that appends such a code sequence.\<close>

definition flag_safe_gen :: "machine \<Rightarrow> drcbe_env \<Rightarrow> gen_state \<Rightarrow> gen_state \<Rightarrow> bool" where
  "flag_safe_gen M env g g' = (\<exists>c. code g' = code g @ c \<and> flag_safe M env c)"


text \<open>A shift and a compare with an empty flag mask, and the block of the second
  example with an instruction put between the addition and the reading of the flags.\<close>

definition shl_empty_mask :: instruction where
  "shl_empty_mask =
     uml_inst OP_SHL 4 0 [PARAM_INT_REGISTER 3, PARAM_INT_REGISTER 3, PARAM_IMMEDIATE 1]"

definition cmp_empty_mask :: instruction where
  "cmp_empty_mask = uml_inst OP_CMP 4 0 [PARAM_INT_REGISTER 3, PARAM_IMMEDIATE 1]"


section \<open>Properties\<close>

declare imm_mask_width.simps [simp del]

lemmas reg_defs =
  REG_PARAM1_def REG_PARAM2_def REG_PARAM3_def REG_PARAM4_def TEMP_REG1_def TEMP_REG2_def
  TEMP_REG3_def SCRATCH_REG1_def SCRATCH_REG2_def MEM_SCRATCH_REG_def FUNC_SCRATCH_REG_def
  BASE_REG_def FLAGS_REG_def a64_x29_def a64_x30_def a64_sp_def a64_xzr_def
  TEMPF_REG1_def TEMPF_REG2_def TEMPF_REG3_def

lemmas flag_defs =
  FLAG_BIT_C_def FLAG_BIT_V_def FLAG_BIT_Z_def FLAG_BIT_S_def FLAG_BIT_U_def
  FLAG_C_def FLAG_V_def FLAG_Z_def FLAG_S_def FLAG_U_def

subsection \<open>The immediate ladder\<close>

lemma sless_0_cases: "(d::u64) \<noteq> 0 \<Longrightarrow> \<not> (0 <s d) \<Longrightarrow> d <s 0"
  by (simp add: word_sless_alt) (metis linorder_neqE_linordered_idom signed_eq_0_iff)

lemma get_imm_relative_ladder:
  "get_imm_relative baseptr codeoffs reg val
     = strategy_code (imm_ladder True baseptr codeoffs reg val) baseptr reg val"
proof (cases "val = baseptr")
  case True
  then show ?thesis
    by (simp add: get_imm_relative_def imm_ladder_def strategy_code_def single_move_ok_def
        pc_relative_ok_def page_relative_ok_def Let_def word_sless_alt)
next
  case False
  then have nz: "val - baseptr \<noteq> 0" by simp
  show ?thesis
  proof (cases "0 <s val - baseptr")
    case True
    then have "\<not> (val - baseptr <s 0)" by (simp add: word_sless_alt)
    with True False show ?thesis
      by (simp add: get_imm_relative_def imm_ladder_def strategy_code_def single_move_ok_def
        pc_relative_ok_def page_relative_ok_def base_relative_fits_def magnitude_def
        emit_add_optimized_def Let_def)
  next
    case F2: False
    then have "val - baseptr <s 0" using nz sless_0_cases by blast
    with F2 False show ?thesis
      by (simp add: get_imm_relative_def imm_ladder_def strategy_code_def single_move_ok_def
        pc_relative_ok_def page_relative_ok_def base_relative_fits_def magnitude_def
        emit_sub_optimized_def Let_def)
  qed
qed

lemma get_imm_absolute_ladder:
  "get_imm_absolute codeoffs reg val
     = strategy_code (imm_ladder False baseptr codeoffs reg val) baseptr reg val"
  by (simp add: get_imm_absolute_def imm_ladder_def strategy_code_def single_move_ok_def
        pc_relative_ok_def page_relative_ok_def Let_def)

lemma get_imm_absolute_no_base:
  "gp_id reg \<noteq> gp_id BASE_REG
     \<Longrightarrow> \<not> list_ex is_base_relative (get_imm_absolute codeoffs reg val)"
  by (cases reg) (auto simp add: get_imm_absolute_def is_base_relative_def Let_def BASE_REG_def)

text \<open>
  Claim C8, as stated: the memory-reference variant takes the base-relative step whenever
  the value minus the base-register value fits an add/sub immediate.  It does not when
  the value is the base pointer itself: the difference 0 fits, yet \<open>get_imm_relative\<close>
  requires the difference to be positive for an add and negative for a sub, and goes on to
  the page-relative step.
\<close>

theorem imm_ladder_base_zero_counterexample:
  "get_imm_relative 0x12345100 0x40000000 (xreg 9) 0x12345100
     \<noteq> strategy_code (spec_imm_ladder True 0x12345100 0x40000000 (xreg 9) 0x12345100)
          0x12345100 (xreg 9) 0x12345100"
  by code_simp

text \<open>
  Claim C8, amended: for every 64-bit value the absolute variant chooses among single
  move, PC-relative adr, page-relative adrp plus optional add, and the move sequence, in
  this order, and never takes the base-relative step (it emits no add or sub from the
  base register into another register); the memory-reference variant chooses, in this
  order, single move, PC-relative adr, base-relative add or sub when the value minus the
  base-register value is not zero and its magnitude fits an add/sub immediate,
  page-relative adrp plus optional add, and the move sequence.
\<close>

theorem imm_ladder_refinement:
  "get_imm_absolute codeoffs reg val
     = strategy_code (imm_ladder False baseptr codeoffs reg val) baseptr reg val
   \<and> imm_ladder False baseptr codeoffs reg val \<noteq> BaseRelative
   \<and> (gp_id reg \<noteq> gp_id BASE_REG
        \<longrightarrow> \<not> list_ex is_base_relative (get_imm_absolute codeoffs reg val))
   \<and> get_imm_relative baseptr codeoffs reg val
     = strategy_code (imm_ladder True baseptr codeoffs reg val) baseptr reg val"
  using get_imm_absolute_ladder get_imm_relative_ladder get_imm_absolute_no_base
  by (simp add: imm_ladder_def)

theorem imm_ladder_refinement_witness:
  "gp_id (xreg 9) \<noteq> gp_id BASE_REG
   \<and> get_imm_absolute 0x40000000 (xreg 9) 0x12345100
     = strategy_code (imm_ladder False 0x12345000 0x40000000 (xreg 9) 0x12345100)
         0x12345000 (xreg 9) 0x12345100
   \<and> \<not> list_ex is_base_relative (get_imm_absolute 0x40000000 (xreg 9) 0x12345100)
   \<and> get_imm_relative 0x12345000 0x40000000 (xreg 9) 0x12345100
     = [Inst kIdAdd [OReg (xreg 9), OReg BASE_REG, OImm 0x100]]"
proof -
  have ne: "gp_id (xreg 9) \<noteq> gp_id BASE_REG" by (simp add: BASE_REG_def)
  have st: "strategy_code (imm_ladder True 0x12345000 0x40000000 (xreg 9) 0x12345100)
              0x12345000 (xreg 9) 0x12345100
            = [Inst kIdAdd [OReg (xreg 9), OReg BASE_REG, OImm 0x100]]"
    by code_simp
  show ?thesis
    using ne st imm_ladder_refinement [of "0x40000000" "xreg 9" "0x12345100" "0x12345000"]
    by metis
qed

subsection \<open>Running generated code: basic facts\<close>

lemma page_split: "(w AND NOT (mask n)) + (w AND mask n) = (w::u64)"
proof -
  have "(w AND NOT (mask n)) AND (w AND mask n) = 0"
    by (rule bit_word_eqI) (auto simp add: bit_simps)
  then have "(w AND NOT (mask n)) + (w AND mask n) = (w AND NOT (mask n)) OR (w AND mask n)"
    by (rule disjunctive_add_eq_or)
  also have "\<dots> = w"
    by (rule bit_word_eqI) (auto simp add: bit_simps)
  finally show ?thesis .
qed

lemma push_drop_aligned: "(w::u64) AND mask n = 0 \<Longrightarrow> push_bit n (drop_bit n w) = w"
proof -
  assume a: "w AND mask n = 0"
  have "push_bit n (drop_bit n w) = w AND NOT (mask n)"
    by (rule bit_word_eqI) (auto simp add: bit_simps)
  also have "\<dots> = (w AND NOT (mask n)) + (w AND mask n)" using a by simp
  also have "\<dots> = w" by (rule page_split)
  finally show ?thesis .
qed

lemma run_Nil [simp]: "run M [] oc = oc" by (simp add: run_def)
lemma run_Cons [simp]: "run M (i # c) oc = run M c (step1 M i oc)" by (simp add: run_def)
lemma run_append [simp]: "run M (a @ b) oc = run M b (run M a oc)" by (simp add: run_def)

lemma step1_Done_Inst [simp]: "step1 M (Inst opc ops) (Done s) = exec M opc ops s"
  by (simp add: step1_def)
lemma step1_Done_Bind [simp]: "step1 M (Bind l) (Done s) = Done s"
  by (simp add: step1_def)
lemma step1_Seek [simp]: "step1 M i (Seek l s) = (if i = Bind l then Done s else Seek l s)"
  by (simp add: step1_def)
lemma step1_Leave [simp]: "step1 M i (Leave a s) = Leave a s"
  by (simp add: step1_def)
lemma step1_Call [simp]: "step1 M i (Call a s) = Call a s"
  by (simp add: step1_def)
lemma step1_Stuck [simp]: "step1 M i Stuck = Stuck"
  by (simp add: step1_def)

lemma run_Leave [simp]: "run M c (Leave a s) = Leave a s"
  by (induction c) simp_all
lemma run_Call [simp]: "run M c (Call a s) = Call a s"
  by (induction c) simp_all
lemma run_Stuck [simp]: "run M c Stuck = Stuck"
  by (induction c) simp_all

lemmas exec_defs = exec_def is_alu_def is_branch_def exec_alu_def exec_cmp_def exec_bitfield_def
  exec_mem_def exec_branch_def exec_move_def load_size_def is_store_def opval_def src2val_def ea_def

lemma frame_refl [simp]: "frame R s s" by (simp add: frame_def same_flags_def)

lemma frame_trans: "frame R s s1 \<Longrightarrow> frame R' s1 s2 \<Longrightarrow> frame (R \<union> R') s s2"
  by (simp add: frame_def same_flags_def)

lemma frame_mono: "frame R s s' \<Longrightarrow> R \<subseteq> R' \<Longrightarrow> frame R' s s'"
  by (auto simp add: frame_def)

lemma frame_wr [simp]: "frame {gp_id r} s (wr r v s)"
  by (simp add: frame_def wr_def same_flags_def)

lemma rd_wr_same: "gp_id r \<noteq> 63 \<Longrightarrow> rd (wr r v s) r = take_bit (dsz r) v"
  by (simp add: rd_def wr_def)

lemma tb64 [simp]: "take_bit 64 (w::u64) = w"
  by (simp add: take_bit_word_eq_self)

lemma valid_mask4_small: "is_valid_immediate_mask val 4 \<Longrightarrow> take_bit 32 val = val"
proof -
  assume "is_valid_immediate_mask val 4"
  then have "\<not> (val \<ge> (mask 32 :: u64))"
    by (auto simp add: is_valid_immediate_mask_def make_bitmask_def Let_def split: if_splits)
  then have "unat val < 4294967295" by (simp add: word_le_nat_alt mask_eq_exp_minus_1)
  then have "val < 2 ^ 32" by (simp add: word_less_nat_alt)
  then show ?thesis by (simp add: take_bit_eq_mask less_mask_eq)
qed

lemma take_bit_add_left_word: "take_bit n (take_bit n (a::u64) + b) = take_bit n (a + b)"
proof (cases "64 \<le> n")
  case True
  then show ?thesis by (simp add: take_bit_word_eq_self)
next
  case False
  have d: "(2::int) ^ n dvd 2 ^ 64" by (rule le_imp_power_dvd) (use False in simp)
  have "uint (take_bit n (take_bit n a + b)) = ((uint a mod 2 ^ n + uint b) mod 2 ^ 64) mod 2 ^ n"
    by (simp only: unsigned_take_bit_eq uint_word_ariths) (simp add: take_bit_eq_mod)
  also have "\<dots> = (uint a mod 2 ^ n + uint b) mod 2 ^ n" using d by (simp add: mod_mod_cancel)
  also have "\<dots> = (uint a + uint b) mod 2 ^ n" by (simp add: mod_add_left_eq)
  also have "\<dots> = ((uint a + uint b) mod 2 ^ 64) mod 2 ^ n" using d by (simp add: mod_mod_cancel)
  also have "\<dots> = uint (take_bit n (a + b))"
    by (simp only: unsigned_take_bit_eq uint_word_ariths) (simp add: take_bit_eq_mod)
  finally show ?thesis by (rule word_uint_eqI)
qed

lemma magnitude_add: "\<not> (d <s 0) \<Longrightarrow> b + magnitude d = b + (d::u64)"
  by (simp add: magnitude_def)

lemma magnitude_sub: "d <s 0 \<Longrightarrow> b - magnitude d = b + (d::u64)"
  by (simp add: magnitude_def)

lemma strategy_code_run:
  assumes st: "st = imm_ladder mr baseptr offs reg val"
    and b: "regs s 27 = baseptr" and r: "gp_id reg \<noteq> 63"
  shows "\<exists>s'. run M (strategy_code st baseptr reg val) (Done s) = Done s'
          \<and> rd s' reg = take_bit (dsz reg) val \<and> frame {gp_id reg} s s'"
proof (cases st)
  case SingleMove
  show ?thesis
  proof (cases "is_simple_mov_immediate val (if isGpX reg then 8 else 4)")
    case True
    with SingleMove r show ?thesis
      by (simp add: strategy_code_def exec_defs rd_wr_same)
  next
    case False
    with SingleMove st have x: "isGpX reg" and v: "is_valid_immediate_mask val 4"
      by (auto simp add: imm_ladder_def single_move_ok_def split: if_splits)
    from v have "take_bit 32 val = val" by (rule valid_mask4_small)
    with False SingleMove r x show ?thesis
      by (cases reg) (simp add: strategy_code_def exec_defs rd_def wr_def dsz_def reg_w_def
          frame_def same_flags_def)
  qed
next
  case PcRelative
  with r show ?thesis by (simp add: strategy_code_def exec_defs rd_wr_same)
next
  case BaseRelative
  show ?thesis
  proof (cases "val - baseptr <s 0")
    case True
    with BaseRelative r b magnitude_sub[of "val - baseptr" baseptr] show ?thesis
      by (simp add: strategy_code_def exec_defs rd_wr_same BASE_REG_def rd_def[of s "xreg 27"] dsz_def)
  next
    case False
    with BaseRelative r b magnitude_add[of "val - baseptr" baseptr] show ?thesis
      by (simp add: strategy_code_def exec_defs rd_wr_same BASE_REG_def rd_def[of s "xreg 27"] dsz_def)
  qed
next
  case PageRelative
  have pg: "(val AND NOT (mask 12)) + (val AND mask 12) = val" by (rule page_split)
  show ?thesis
  proof (cases "val AND mask 12 = 0")
    case True
    with pg have "val AND NOT (mask 12) = val" by simp
    with True PageRelative r show ?thesis
      by (cases reg) (simp add: strategy_code_def exec_defs rd_def wr_def dsz_def reg_x_def
          frame_def same_flags_def make_bitmask_def)
  next
    case False
    have tb: "take_bit 32 (take_bit 32 (val AND NOT (mask 12)) + (val AND mask 12)) = take_bit 32 val"
      using take_bit_add_left_word[of 32 "val AND NOT (mask 12)" "val AND mask 12"] pg
      by simp
    from False PageRelative r pg tb show ?thesis
      by (cases reg) (simp add: strategy_code_def exec_defs rd_def wr_def dsz_def reg_x_def
          frame_def same_flags_def make_bitmask_def)
  qed
next
  case MoveSequence
  with r show ?thesis by (simp add: strategy_code_def exec_defs rd_wr_same)
qed


lemma get_imm_relative_run:
  assumes "regs s 27 = baseptr" and "gp_id reg \<noteq> 63"
  shows "\<exists>s'. run M (get_imm_relative baseptr offs reg val) (Done s) = Done s'
          \<and> rd s' reg = take_bit (dsz reg) val \<and> frame {gp_id reg} s s'"
  using assms strategy_code_run[OF refl, of s baseptr reg M True offs val]
  by (simp add: get_imm_relative_ladder)

lemma rd_base [simp]: "rd s BASE_REG = regs s 27"
  by (simp add: rd_def BASE_REG_def dsz_def)

lemma frame_regs_upd [simp]: "frame {r} s (s\<lparr>regs := (regs s)(r := v)\<rparr>)"
  by (simp add: frame_def same_flags_def)

lemmas mach_defs = exec_defs rd_def wr_def dsz_def frame_def same_flags_def
  MEM_SCRATCH_REG_def BASE_REG_def make_bitmask_def

lemma emit_ldr_str_base_mem_shape:
  assumes b: "regs s 27 = m_baseptr env"
  shows "\<exists>pre m s1. emit_ldr_str_base_mem env offs opc x ms ptr = pre @ [Inst opc [x, OMem m]]
        \<and> run M pre (Done s) = Done s1 \<and> frame {14} s s1 \<and> ea s1 m = Some ptr"
proof -
  let ?diff = "ptr - m_baseptr env"
  note D = emit_ldr_str_base_mem_def Let_def emit_add_optimized_def emit_sub_optimized_def
  have pg: "(ptr AND NOT (mask 12)) + (ptr AND mask 12) = ptr" by (rule page_split)
  show ?thesis
  proof (cases "is_valid_offset ?diff ms")
    case c1: True
    have "emit_ldr_str_base_mem env offs opc x ms ptr = [] @ [Inst opc [x, OMem (Mem BASE_REG ?diff)]]"
      using c1 by (simp add: D)
    moreover have "ea s (Mem BASE_REG ?diff) = Some ptr" using b by (simp add: mach_defs)
    ultimately show ?thesis by (metis frame_refl run_Nil)
  next
    case c1: False
    show ?thesis
    proof (cases "is_valid_immediate_signed (ptr - offs) 21")
      case c2: True
      have "emit_ldr_str_base_mem env offs opc x ms ptr
            = [Inst kIdAdr [OReg MEM_SCRATCH_REG, OImm ptr]] @ [Inst opc [x, OMem (Mem MEM_SCRATCH_REG 0)]]"
        using c1 c2 by (simp add: D)
      moreover have "run M [Inst kIdAdr [OReg MEM_SCRATCH_REG, OImm ptr]] (Done s)
            = Done (s\<lparr>regs := (regs s)(14 := ptr)\<rparr>)"
        by (simp add: mach_defs)
      moreover have "ea (s\<lparr>regs := (regs s)(14 := ptr)\<rparr>) (Mem MEM_SCRATCH_REG 0) = Some ptr"
        by (simp add: mach_defs)
      ultimately show ?thesis by (metis frame_regs_upd)
    next
      case c2: False
      show ?thesis
      proof (cases "0 <s ?diff \<and> is_valid_immediate ?diff 16")
        case c3: True
        have "emit_ldr_str_base_mem env offs opc x ms ptr
              = [Inst kIdMov [OReg MEM_SCRATCH_REG, OImm ?diff]]
                @ [Inst opc [x, OMem (MemIdx BASE_REG MEM_SCRATCH_REG 0)]]"
          using c1 c2 c3 by (simp add: D)
        moreover have "run M [Inst kIdMov [OReg MEM_SCRATCH_REG, OImm ?diff]] (Done s)
              = Done (s\<lparr>regs := (regs s)(14 := ?diff)\<rparr>)"
          by (simp add: mach_defs)
        moreover have "ea (s\<lparr>regs := (regs s)(14 := ?diff)\<rparr>) (MemIdx BASE_REG MEM_SCRATCH_REG 0)
              = Some ptr"
          using b by (simp add: mach_defs)
        ultimately show ?thesis by (metis frame_regs_upd)
      next
        case c3f: False
        then have c3: "(0 <s ?diff \<and> is_valid_immediate ?diff 16) = False" by simp
        show ?thesis
        proof (cases "0 <s ?diff \<and> is_valid_immediate_addsub ?diff")
          case c4: True
          have "emit_ldr_str_base_mem env offs opc x ms ptr
                = [Inst kIdAdd [OReg MEM_SCRATCH_REG, OReg BASE_REG, OImm ?diff]]
                  @ [Inst opc [x, OMem (Mem MEM_SCRATCH_REG 0)]]"
            using c1 c2 c3f c4 by (simp add: D)
          moreover have "run M [Inst kIdAdd [OReg MEM_SCRATCH_REG, OReg BASE_REG, OImm ?diff]] (Done s)
                = Done (s\<lparr>regs := (regs s)(14 := ptr)\<rparr>)"
            using b by (simp add: mach_defs)
          moreover have "ea (s\<lparr>regs := (regs s)(14 := ptr)\<rparr>) (Mem MEM_SCRATCH_REG 0) = Some ptr"
            by (simp add: mach_defs)
          ultimately show ?thesis by (metis frame_regs_upd)
        next
          case c4: False
          show ?thesis
          proof (cases "?diff <s 0 \<and> is_valid_immediate_addsub (- ?diff)")
            case c5: True
            then have nn: "\<not> 0 <s ?diff" by (simp add: word_sless_alt)
            have "emit_ldr_str_base_mem env offs opc x ms ptr
                  = [Inst kIdSub [OReg MEM_SCRATCH_REG, OReg BASE_REG, OImm (- ?diff)]]
                    @ [Inst opc [x, OMem (Mem MEM_SCRATCH_REG 0)]]"
              using c1 c2 c3f c5 nn by (simp add: D)
            moreover have "run M [Inst kIdSub [OReg MEM_SCRATCH_REG, OReg BASE_REG, OImm (- ?diff)]] (Done s)
                  = Done (s\<lparr>regs := (regs s)(14 := ptr)\<rparr>)"
              using b by (simp add: mach_defs)
            moreover have "ea (s\<lparr>regs := (regs s)(14 := ptr)\<rparr>) (Mem MEM_SCRATCH_REG 0) = Some ptr"
              by (simp add: mach_defs)
            ultimately show ?thesis by (metis frame_regs_upd)
          next
            case c5: False
            have none: "(if 0 <s ?diff then emit_add_optimized MEM_SCRATCH_REG BASE_REG ?diff else None)
                        = None"
              using c4 by (simp add: emit_add_optimized_def)
            have none2: "(if ?diff <s 0 then emit_sub_optimized MEM_SCRATCH_REG BASE_REG ?diff else None)
                        = None"
              using c5 by (simp add: emit_sub_optimized_def)
            note D2 = emit_ldr_str_base_mem_def Let_def none none2
            show ?thesis
            proof (cases "is_valid_immediate_signed (ptr - (offs AND NOT (make_bitmask 12))) (21 + 12)")
              case c6: True
              let ?pre = "[Inst kIdAdrp [OReg MEM_SCRATCH_REG, OImm (ptr AND NOT (make_bitmask 12))]]"
              let ?s1 = "s\<lparr>regs := (regs s)(14 := ptr AND NOT (mask 12))\<rparr>"
              have r1: "run M ?pre (Done s) = Done ?s1" by (simp add: mach_defs)
              show ?thesis
              proof (cases "is_valid_offset (ptr AND make_bitmask 12) ms")
                case c7: True
                have "emit_ldr_str_base_mem env offs opc x ms ptr
                      = ?pre @ [Inst opc [x, OMem (Mem MEM_SCRATCH_REG (ptr AND make_bitmask 12))]]"
                  using c1 c2 c6 c7 by (simp add: D2 c3)
                moreover have "ea ?s1 (Mem MEM_SCRATCH_REG (ptr AND make_bitmask 12)) = Some ptr"
                  using pg by (simp add: mach_defs)
                ultimately show ?thesis using r1 by (metis frame_regs_upd)
              next
                case c7: False
                let ?pre2 = "?pre @ [Inst kIdAdd [OReg MEM_SCRATCH_REG, OReg MEM_SCRATCH_REG,
                                        OImm (ptr AND make_bitmask 12)]]"
                have "emit_ldr_str_base_mem env offs opc x ms ptr
                      = ?pre2 @ [Inst opc [x, OMem (Mem MEM_SCRATCH_REG 0)]]"
                  using c1 c2 c6 c7 by (simp add: D2 c3)
                moreover have "run M ?pre2 (Done s) = Done (s\<lparr>regs := (regs s)(14 := ptr)\<rparr>)"
                  using pg by (simp add: mach_defs)
                moreover have "ea (s\<lparr>regs := (regs s)(14 := ptr)\<rparr>) (Mem MEM_SCRATCH_REG 0) = Some ptr"
                  by (simp add: mach_defs)
                ultimately show ?thesis by (metis frame_regs_upd)
              qed
            next
              case c6: False
              let ?shift = "if (?diff AND make_bitmask ms) \<noteq> 0 then 0 else ms"
              show ?thesis
              proof (cases "0 \<le>s ?diff \<and> is_valid_immediate (drop_bit ?shift ?diff) 32")
                case c8t: True
                then have c8: "(0 \<le>s ?diff \<and> is_valid_immediate (drop_bit ?shift ?diff) 32) = True"
                  by simp
                let ?v = "drop_bit ?shift ?diff"
                have "emit_ldr_str_base_mem env offs opc x ms ptr
                      = [Inst kIdMov [OReg MEM_SCRATCH_REG, OImm ?v]]
                        @ [Inst opc [x, OMem (MemIdx BASE_REG MEM_SCRATCH_REG ?shift)]]"
                  using c1 c2 c6 by (simp only: D2 c3 c8 if_False if_True option.case) simp
                moreover have "run M [Inst kIdMov [OReg MEM_SCRATCH_REG, OImm ?v]] (Done s)
                      = Done (s\<lparr>regs := (regs s)(14 := ?v)\<rparr>)"
                  by (simp add: mach_defs)
                moreover have "push_bit ?shift ?v = ?diff"
                  using push_drop_aligned[of ?diff ms] by (simp add: make_bitmask_def)
                then have "ea (s\<lparr>regs := (regs s)(14 := ?v)\<rparr>) (MemIdx BASE_REG MEM_SCRATCH_REG ?shift)
                      = Some ptr"
                  using b by (simp add: mach_defs)
                ultimately show ?thesis by (metis frame_regs_upd)
              next
                case c8f: False
                then have c8: "(0 \<le>s ?diff \<and> is_valid_immediate (drop_bit ?shift ?diff) 32) = False"
                  by simp
                have "emit_ldr_str_base_mem env offs opc x ms ptr
                      = [Inst kIdMov [OReg MEM_SCRATCH_REG, OImm ptr]]
                        @ [Inst opc [x, OMem (Mem MEM_SCRATCH_REG 0)]]"
                  using c1 c2 c6 by (simp only: D2 c3 c8 if_False if_True option.case) simp
                moreover have "run M [Inst kIdMov [OReg MEM_SCRATCH_REG, OImm ptr]] (Done s)
                      = Done (s\<lparr>regs := (regs s)(14 := ptr)\<rparr>)"
                  by (simp add: mach_defs)
                moreover have "ea (s\<lparr>regs := (regs s)(14 := ptr)\<rparr>) (Mem MEM_SCRATCH_REG 0) = Some ptr"
                  by (simp add: mach_defs)
                ultimately show ?thesis by (metis frame_regs_upd)
              qed
            qed
          qed
        qed
      qed
    qed
  qed
qed

subsection \<open>Loads, stores and parameter moves\<close>

lemma ucast_ucast_32: "(ucast (ucast (w::u64) :: u32) :: u64) = take_bit 32 w"
  by (rule bit_word_eqI) (auto simp add: bit_simps)

lemma load_mem_regs_upd [simp]: "load_mem M (s\<lparr>regs := f\<rparr>) a n = load_mem M s a n"
  by (simp add: load_mem_def)

lemma load_mem_frame: "frame R s s1 \<Longrightarrow> load_mem M s1 a n = load_mem M s a n"
  by (simp add: load_mem_def frame_def)

lemma frame_insert: "frame R s s1 \<Longrightarrow> frame {r} s1 s2 \<Longrightarrow> frame (insert r R) s s2"
  using frame_trans[of R s s1 "{r}" s2] by simp

lemma ldr_mem_run:
  assumes b: "regs s 27 = m_baseptr env" and r: "gp_id r \<noteq> 63"
  shows "\<exists>s'. run M (emit_ldr_mem env offs r ptr) (Done s) = Done s'
          \<and> rd s' r = take_bit (dsz r) (load_mem M s ptr (if isGpX r then 8 else 4))
          \<and> frame {gp_id r, 14} s s'"
proof -
  obtain pre m s1 where
    e: "emit_ldr_mem env offs r ptr = pre @ [Inst kIdLdr [OReg r, OMem m]]"
    and r1: "run M pre (Done s) = Done s1" and f1: "frame {14} s s1" and a: "ea s1 m = Some ptr"
    unfolding emit_ldr_mem_def using emit_ldr_str_base_mem_shape[OF b] by blast
  let ?v = "load_mem M s1 ptr (if isGpX r then 8 else 4)"
  have "run M (emit_ldr_mem env offs r ptr) (Done s) = Done (wr r ?v s1)"
    using r1 a by (simp add: e exec_def is_alu_def load_size_def exec_mem_def is_store_def)
  moreover have "rd (wr r ?v s1) r = take_bit (dsz r) (load_mem M s ptr (if isGpX r then 8 else 4))"
    using r f1 by (simp add: rd_wr_same load_mem_frame[OF f1])
  moreover have "frame {gp_id r, 14} s (wr r ?v s1)"
    using frame_insert[OF f1 frame_wr] by simp
  ultimately show ?thesis by blast
qed


lemma gp_id_select [simp]: "gp_id (select_register r sz) = gp_id r"
  by (simp add: select_register_def reg_w_def reg_x_def)

lemma isGpX_select [simp]: "isGpX (select_register r sz) = (sz \<noteq> 4)"
  by (simp add: select_register_def reg_w_def reg_x_def)

lemma dsz_select: "sz = 4 \<or> sz = 8 \<Longrightarrow> dsz (select_register r sz) = 8 * sz"
  by (auto simp add: dsz_def)

lemma gp_id_reg_x [simp]: "gp_id (reg_x r) = gp_id r" by (simp add: reg_x_def)
lemma gp_id_reg_w [simp]: "gp_id (reg_w r) = gp_id r" by (simp add: reg_w_def)
lemma isGpX_reg_x [simp]: "isGpX (reg_x r)" by (simp add: reg_x_def)
lemma isGpX_reg_w [simp]: "\<not> isGpX (reg_w r)" by (simp add: reg_w_def)

lemma gp_id_get_register_int [simp]: "gp_id (get_register_int p sz) = ireg p"
  by (simp add: get_register_int_def ireg_def)

lemma isGpX_get_register_int [simp]: "isGpX (get_register_int p sz) = (sz \<noteq> 4)"
  by (simp add: get_register_int_def)

lemma rd_frame: "frame R s s1 \<Longrightarrow> gp_id r \<notin> R \<Longrightarrow> rd s1 r = rd s r"
  by (simp add: frame_def rd_def)

lemma str_mem_run:
  assumes b: "regs s 27 = m_baseptr env" and r: "gp_id r \<noteq> 14"
  shows "\<exists>s'. run M (emit_str_mem env offs r ptr) (Done s) = Done s'
          \<and> mem s' = mem (store_mem M ptr (if isGpX r then 8 else 4) (rd s r) s)
          \<and> regs_frame {14} s s'"
proof -
  obtain pre m s1 where
    e: "emit_str_mem env offs r ptr = pre @ [Inst kIdStr [OReg r, OMem m]]"
    and r1: "run M pre (Done s) = Done s1" and f1: "frame {14} s s1" and a: "ea s1 m = Some ptr"
    unfolding emit_str_mem_def using emit_ldr_str_base_mem_shape[OF b] by blast
  let ?n = "if isGpX r then 8 else 4"
  have rr: "rd s1 r = rd s r" using rd_frame[OF f1] r by simp
  have "run M (emit_str_mem env offs r ptr) (Done s) = Done (store_mem M ptr ?n (rd s r) s1)"
    using r1 a rr by (simp add: e exec_def is_alu_def load_size_def exec_mem_def is_store_def)
  moreover have "mem (store_mem M ptr ?n (rd s r) s1) = mem (store_mem M ptr ?n (rd s r) s)"
    using f1 by (simp add: store_mem_def frame_def)
  moreover have "regs_frame {14} s (store_mem M ptr ?n (rd s r) s1)"
    using f1 by (simp add: store_mem_def frame_def regs_frame_def same_flags_def)
  ultimately show ?thesis by blast
qed

lemma mov_reg_param_run:
  assumes b: "regs s 27 = m_baseptr env" and d: "gp_id dst \<noteq> 63"
    and sz: "sz = 4 \<or> sz = 8"
    and k: "is_immediate src \<or> is_int_register src \<or> is_memory src"
    and ir: "is_int_register src \<longrightarrow> ireg src \<noteq> 63"
  shows "\<exists>s'. run M (mov_reg_param env offs sz dst src) (Done s) = Done s'
          \<and> rd s' (select_register dst sz) = param_value M env s sz src
          \<and> frame {gp_id dst, 14} s s'"
proof -
  let ?reg = "select_register dst sz"
  have dz: "dsz ?reg = 8 * sz" using sz by (rule dsz_select)
  consider (imm) "is_immediate src"
    | (reg) "\<not> is_immediate src" "is_int_register src" "gp_id dst \<noteq> ireg src"
    | (same) "\<not> is_immediate src" "is_int_register src" "gp_id dst = ireg src"
    | (mem) "\<not> is_immediate src" "\<not> is_int_register src" "is_memory src"
    using k by blast
  then show ?thesis
  proof cases
    case imm
    let ?val = "if sz = 4 then ucast (ucast (immediate src) :: u32) else immediate src"
    obtain s' where r1: "run M (get_imm_relative (m_baseptr env) offs ?reg ?val) (Done s) = Done s'"
      and v: "rd s' ?reg = take_bit (dsz ?reg) ?val" and f: "frame {gp_id ?reg} s s'"
      using get_imm_relative_run[OF b, of ?reg M offs ?val] d by auto
    have "take_bit (dsz ?reg) ?val = param_value M env s sz src"
      using imm sz dz by (auto simp add: param_value_def ucast_ucast_32)
    moreover have "frame {gp_id dst, 14} s s'" using f by (auto intro: frame_mono)
    ultimately show ?thesis using imm r1 v by (auto simp add: mov_reg_param_def)
  next
    case reg
    let ?src = "get_register_int src sz"
    have c: "mov_reg_param env offs sz dst src = [Inst kIdMov [OReg ?reg, OReg ?src]]"
      using reg by (simp add: mov_reg_param_def)
    have "run M (mov_reg_param env offs sz dst src) (Done s) = Done (wr ?reg (rd s ?src) s)"
      by (simp add: c exec_defs)
    moreover have "rd s ?src = take_bit (8 * sz) (regs s (ireg src))"
      using reg ir sz by (auto simp add: rd_def dsz_def)
    then have "rd (wr ?reg (rd s ?src) s) ?reg = param_value M env s sz src"
      using reg d dz by (simp add: rd_wr_same param_value_def)
    moreover have "frame {gp_id dst, 14} s (wr ?reg (rd s ?src) s)"
      using frame_wr[of ?reg] by (auto intro: frame_mono)
    ultimately show ?thesis by blast
  next
    case same
    have c: "mov_reg_param env offs sz dst src = []"
      using same by (simp add: mov_reg_param_def is_memory_def is_int_register_def)
    have "rd s ?reg = param_value M env s sz src"
      using same sz d by (auto simp add: param_value_def rd_def dsz_def)
    then show ?thesis by (auto simp add: c)
  next
    case mem
    let ?p = "memory src + (if native_big_endian env \<and> sz = 4 \<and> is_cold_register src then 4 else 0)"
    have c: "mov_reg_param env offs sz dst src = emit_ldr_mem env offs ?reg ?p"
      using mem by (simp add: mov_reg_param_def)
    obtain s' where r1: "run M (emit_ldr_mem env offs ?reg ?p) (Done s) = Done s'"
      and v: "rd s' ?reg = take_bit (dsz ?reg) (load_mem M s ?p (if isGpX ?reg then 8 else 4))"
      and f: "frame {gp_id ?reg, 14} s s'"
      using ldr_mem_run[OF b, of ?reg M offs ?p] d by auto
    have "take_bit (dsz ?reg) (load_mem M s ?p (if isGpX ?reg then 8 else 4)) = param_value M env s sz src"
      using mem sz dz by (auto simp add: param_value_def)
    then show ?thesis using c r1 v f by auto
  qed
qed

subsection \<open>Loading a cold register at width 4\<close>

lemma mem_not_others: "is_memory p \<Longrightarrow> \<not> is_immediate p \<and> \<not> is_int_register p"
  by (simp add: is_memory_def is_immediate_def is_int_register_def)

text \<open>
  Claim C3, as stated: at width 4, for a cold-register spill on a big-endian host, the
  generated load reads the full 8-byte slot.  It does not: on a big-endian host whose
  slot at \<open>0x10000200\<close> holds the bytes 1 to 8, the register receives \<open>0x05060708\<close>, the
  four bytes at the slot's address plus 4, and not the eight bytes of the slot.
\<close>

theorem cold_load_counterexample:
  "done_reg (run (witness_machine\<lparr>data_big_endian := True\<rparr>)
       (mov_reg_param (witness_env\<lparr>native_big_endian := True\<rparr>) 0x20000000 4 (xreg 9) cold_slot)
       (Done witness_state)) 9 = Some 0x05060708
   \<and> load_mem (witness_machine\<lparr>data_big_endian := True\<rparr>) witness_state 0x10000200 8
       = 0x0102030405060708"
  by code_simp

text \<open>
  Claim C3, amended: for every call to \<open>mov_reg_param\<close> at width 4 whose source is a
  cold-register memory spill, the generated code ends with a 4-byte load into the w view
  of the destination, and the destination receives the 4-byte element at the slot's
  address plus 4 when the host is big-endian, and the 4-byte element at the slot's low
  address otherwise.  (The base register holds \<open>m_baseptr\<close>, as it does wherever generated
  code runs; only the destination and the address scratch register change.)
\<close>

theorem cold_load_width:
  assumes "is_memory src" and "is_cold_register src"
    and "regs s 27 = m_baseptr env" and "gp_id dst \<noteq> 63"
  shows "\<exists>s' pre m. mov_reg_param env offs 4 dst src = pre @ [Inst kIdLdr [OReg (reg_w dst), OMem m]]
          \<and> load_size kIdLdr (reg_w dst) = Some 4
          \<and> run M (mov_reg_param env offs 4 dst src) (Done s) = Done s'
          \<and> rd s' (reg_w dst)
              = take_bit 32 (load_mem M s (memory src + (if native_big_endian env then 4 else 0)) 4)
          \<and> frame {gp_id dst, 14} s s'"
proof -
  have k: "is_immediate src \<or> is_int_register src \<or> is_memory src" using assms(1) by simp
  have ir: "is_int_register src \<longrightarrow> ireg src \<noteq> 63"
    using assms(1) by (simp add: is_memory_def is_int_register_def)
  obtain s' where r: "run M (mov_reg_param env offs 4 dst src) (Done s) = Done s'"
    and v: "rd s' (select_register dst 4) = param_value M env s 4 src"
    and f: "frame {gp_id dst, 14} s s'"
    using mov_reg_param_run[OF assms(3) assms(4) _ k ir, of 4 M offs] by auto
  have pv: "param_value M env s 4 src
        = take_bit 32 (load_mem M s (memory src + (if native_big_endian env then 4 else 0)) 4)"
    using assms(1,2) mem_not_others[OF assms(1)] by (simp add: param_value_def)
  let ?p = "memory src + (if native_big_endian env then 4 else 0)"
  have c: "mov_reg_param env offs 4 dst src = emit_ldr_mem env offs (reg_w dst) ?p"
    using assms(1,2) mem_not_others[OF assms(1)]
    by (simp add: mov_reg_param_def select_register_def)
  obtain pre m where sh: "emit_ldr_mem env offs (reg_w dst) ?p = pre @ [Inst kIdLdr [OReg (reg_w dst), OMem m]]"
    unfolding emit_ldr_mem_def using emit_ldr_str_base_mem_shape[OF assms(3)] by blast
  show ?thesis
    using r v f pv c sh by (auto simp add: select_register_def load_size_def)
qed

theorem cold_load_width_witness:
  "is_memory cold_slot \<and> is_cold_register cold_slot
   \<and> regs witness_state 27 = m_baseptr witness_env \<and> gp_id (xreg 9) \<noteq> 63
   \<and> (\<exists>s' pre m. mov_reg_param witness_env 0x20000000 4 (xreg 9) cold_slot
            = pre @ [Inst kIdLdr [OReg (reg_w (xreg 9)), OMem m]]
          \<and> load_size kIdLdr (reg_w (xreg 9)) = Some 4
          \<and> run witness_machine (mov_reg_param witness_env 0x20000000 4 (xreg 9) cold_slot)
               (Done witness_state) = Done s'
          \<and> rd s' (reg_w (xreg 9))
              = take_bit 32 (load_mem witness_machine witness_state
                  (memory cold_slot + (if native_big_endian witness_env then 4 else 0)) 4)
          \<and> frame {gp_id (xreg 9), 14} witness_state s')"
proof -
  have h1: "is_memory cold_slot" by (simp add: cold_slot_def is_memory_def)
  have h2: "is_cold_register cold_slot" by (simp add: cold_slot_def is_cold_register_def)
  have h3: "regs witness_state 27 = m_baseptr witness_env"
    by (simp add: witness_state_def witness_env_def)
  have h4: "gp_id (xreg 9) \<noteq> 63" by simp
  show ?thesis
    using h1 h2 h3 h4
      cold_load_width [OF h1 h2 h3 h4, where offs = "0x20000000" and M = witness_machine]
    by blast
qed

subsection \<open>Storing to a parameter\<close>

lemma code_emits [simp]: "code (emits c g) = code g @ c"
  by (simp add: emits_def)

lemma emitted_self [simp]: "emitted g g = []"
  by (simp add: emitted_def)

lemma emitted_append: "code g' = code g @ c \<Longrightarrow> emitted g g' = c"
  by (simp add: emitted_def)

lemma int_register_map_nth: "i < 8 \<Longrightarrow> int_register_map ! i = 19 + i"
proof -
  assume "i < 8"
  then have "i = 0 \<or> i = 1 \<or> i = 2 \<or> i = 3 \<or> i = 4 \<or> i = 5 \<or> i = 6 \<or> i = 7" by arith
  then show ?thesis by (auto simp add: int_register_map_def)
qed

lemma ireg_make_ireg: "n < 64 \<Longrightarrow> ireg (make_ireg n) = n"
  by (simp add: ireg_def make_ireg_def unat_of_nat)

lemma be_parameter_of_wf:
  assumes "be_parameter_of env p allowed = Some bp" and "allowed AND PTYPE_F = 0"
  shows "wf_param bp"
proof (cases p)
  case (PARAM_IMMEDIATE v)
  with assms show ?thesis
    by (auto simp add: be_parameter_of_def assert_def wf_param_def be_immediate_def is_immediate_def
        is_cold_register_def split: if_splits)
next
  case (PARAM_MEMORY a)
  with assms show ?thesis
    by (auto simp add: be_parameter_of_def assert_def wf_param_def make_memory_def is_memory_def
        is_cold_register_def split: if_splits)
next
  case (PARAM_INT_REGISTER i)
  with assms have i: "i < 8" and bp: "bp = make_ireg (19 + i)"
    by (auto simp add: be_parameter_of_def assert_def REG_I_COUNT_def REG_MAX_def Let_def
        int_register_map_nth split: if_splits)
  have "ireg bp = 19 + i" using i bp by (simp add: ireg_make_ireg)
  with i bp show ?thesis
    by (simp add: wf_param_def is_int_register_def make_ireg_def is_cold_register_def)
next
  case (PARAM_FLOAT_REGISTER i)
  with assms show ?thesis
    by (auto simp add: be_parameter_of_def assert_def split: if_splits)
qed (use assms in \<open>simp_all add: be_parameter_of_def\<close>)

lemma wf_param_kinds:
  "wf_param p \<Longrightarrow> is_immediate p \<or> is_int_register p \<or> is_memory p"
  by (auto simp add: wf_param_def)

lemma wf_param_ireg: "wf_param p \<Longrightarrow> is_int_register p \<Longrightarrow> 19 \<le> ireg p \<and> ireg p \<le> 26"
  by (auto simp add: wf_param_def is_immediate_def is_int_register_def is_memory_def)

lemma dsz_get_register_int: "sz = 4 \<or> sz = 8 \<Longrightarrow> dsz (get_register_int p sz) = 8 * sz"
  by (auto simp add: dsz_def)

lemma rd_idem: "take_bit (dsz r) (rd s r) = rd s r"
  by (simp add: rd_def)

lemma rd_sized: "dsz r = dsz r' \<Longrightarrow> take_bit (dsz r') (rd s r) = rd s r"
  using rd_idem[of r s] by simp

lemma mov_param_reg_run:
  assumes c: "mov_param_reg env offs sz dst src = Some c"
    and b: "regs s 27 = m_baseptr env" and sz: "sz = 4 \<or> sz = 8"
    and wf: "wf_param dst" and s14: "gp_id src \<noteq> 14"
  shows "\<exists>s'. run M c (Done s) = Done s' \<and>
        (if is_memory dst
         then mem s' = mem (store_mem M (memory dst) sz (rd s (select_register src sz)) s)
              \<and> regs_frame {14} s s'
         else rd s' (get_register_int dst sz) = rd s (select_register src sz)
              \<and> frame {ireg dst} s s')"
proof -
  have ni: "\<not> is_immediate dst" using c by (auto simp add: mov_param_reg_def split: if_splits)
  have nc: "\<not> is_cold_register dst" using wf by (simp add: wf_param_def)
  show ?thesis
  proof (cases "is_memory dst")
    case True
    let ?r = "select_register src sz"
    have cc: "c = emit_str_mem env offs ?r (memory dst)"
      using c ni nc True by (simp add: mov_param_reg_def)
    obtain s' where "run M (emit_str_mem env offs ?r (memory dst)) (Done s) = Done s'"
      and "mem s' = mem (store_mem M (memory dst) (if isGpX ?r then 8 else 4) (rd s ?r) s)"
      and "regs_frame {14} s s'"
      using str_mem_run[OF b, of ?r M offs "memory dst"] s14 by auto
    then show ?thesis using True cc sz by auto
  next
    case False
    then have ir: "is_int_register dst" and rg: "19 \<le> ireg dst \<and> ireg dst \<le> 26"
      using wf ni wf_param_kinds[OF wf] wf_param_ireg[OF wf] by auto
    let ?d = "get_register_int dst sz"
    let ?r = "select_register src sz"
    have dd: "dsz ?r = dsz ?d" using sz by (auto simp add: dsz_def)
    show ?thesis
    proof (cases "gp_id src = ireg dst")
      case True
      then have cc: "c = []" using c ni False ir by (simp add: mov_param_reg_def)
      have "rd s ?d = rd s ?r" using True by (simp add: rd_def dsz_def)
      then show ?thesis using False cc by simp
    next
      case ne: False
      then have cc: "c = [Inst kIdMov [OReg ?d, OReg ?r]]"
        using c ni False ir by (simp add: mov_param_reg_def)
      have r1: "run M c (Done s) = Done (wr ?d (rd s ?r) s)" by (simp add: cc exec_defs)
      have "rd (wr ?d (rd s ?r) s) ?d = take_bit (dsz ?d) (rd s ?r)"
        using rg by (simp add: rd_wr_same)
      then have "rd (wr ?d (rd s ?r) s) ?d = rd s ?r" using rd_sized[OF dd] by simp
      moreover have "frame {ireg dst} s (wr ?d (rd s ?r) s)" using frame_wr[of ?d] by simp
      ultimately show ?thesis using False r1 by auto
    qed
  qed
qed

lemma put_mov_param_reg_Some:
  "put_mov_param_reg env sz dst src g = Some g'
   \<Longrightarrow> \<exists>c. mov_param_reg env (cur_offs env g) sz dst src = Some c \<and> code g' = code g @ c"
  by (auto simp add: put_mov_param_reg_def)

lemma code_put_mov_reg_param [simp]:
  "code (put_mov_reg_param env sz dst src g)
     = code g @ mov_reg_param env (cur_offs env g) sz dst src"
  by (simp add: put_mov_reg_param_def)

lemma code_put_get_imm_relative [simp]:
  "code (put_get_imm_relative env reg val g)
     = code g @ get_imm_relative (m_baseptr env) (cur_offs env g) reg val"
  by (simp add: put_get_imm_relative_def)

lemma code_put_call_arm_addr [simp]:
  "code (put_call_arm_addr env a g) = code g @ call_arm_addr env (cur_offs env g) a"
  by (simp add: put_call_arm_addr_def)

lemma assert_Some [simp]: "(assert b = Some u) = b"
  by (simp add: assert_def)

lemmas assert_insts = assert_no_condition_def assert_no_flags_def assert_any_condition_def
  assert_flags_def

lemma assert_bind [simp]: "(assert b \<bind> f) = (if b then f () else None)"
  by (simp add: assert_def)

subsection \<open>Reading the flags with an empty mask\<close>

lemma empty_mask_bits:
  assumes "m AND (FLAG_C OR FLAG_V OR FLAG_Z OR FLAG_S OR FLAG_U) = (0::u64)"
  shows "m AND FLAG_C = 0" "m AND FLAG_V = 0" "m AND FLAG_Z = 0" "m AND FLAG_S = 0"
    "m AND FLAG_U = 0"
proof -
  have z: "m AND 31 = 0" using assms by (simp add: flag_defs)
  have "m AND 1 = (m AND 31) AND 1" "m AND 2 = (m AND 31) AND 2" "m AND 4 = (m AND 31) AND 4"
    "m AND 8 = (m AND 31) AND 8" "m AND 16 = (m AND 31) AND 16"
    by (simp_all add: and.assoc)
  then show "m AND FLAG_C = 0" "m AND FLAG_V = 0" "m AND FLAG_Z = 0" "m AND FLAG_S = 0"
    "m AND FLAG_U = 0"
    unfolding z flag_defs by simp_all
qed

lemma mem_store_mem_cong:
  "mem s1 = mem s2 \<Longrightarrow> mem (store_mem M a n v s1) = mem (store_mem M a n v s2)"
  by (simp add: store_mem_def)

lemma store_mem_others [simp]:
  "regs (store_mem M a n v s) = regs s" "vregs (store_mem M a n v s) = vregs s"
  "flagN (store_mem M a n v s) = flagN s" "flagZ (store_mem M a n v s) = flagZ s"
  "flagC (store_mem M a n v s) = flagC s" "flagV (store_mem M a n v s) = flagV s"
  by (simp_all add: store_mem_def)

lemma wr_others [simp]:
  "vregs (wr r v s) = vregs s" "mem (wr r v s) = mem s"
  "flagN (wr r v s) = flagN s" "flagZ (wr r v s) = flagZ s"
  "flagC (wr r v s) = flagC s" "flagV (wr r v s) = flagV s"
  by (simp_all add: wr_def)

text \<open>
  Claim C10: for a \<open>GETFLGS\<close> instruction whose immediate mask selects none of the C, V, Z,
  S and U bits, running the generated code stores the value 0 to the destination
  parameter: the UML-visible state afterwards is the state before with 0 written to the
  destination at width 4, and the native flags are untouched.
\<close>

theorem getflgs_empty_mask_zero:
  assumes gen: "op_getflgs env inst g = Some g'"
    and p0: "param inst 0 = Some p0" and d: "be_parameter_of env p0 PTYPE_MR = Some dstp"
    and p1: "param inst 1 = Some (PARAM_IMMEDIATE m)"
    and z: "m AND (FLAG_C OR FLAG_V OR FLAG_Z OR FLAG_S OR FLAG_U) = 0"
    and b: "regs s 27 = m_baseptr env"
  shows "\<exists>s'. run M (emitted g g') (Done s) = Done s'
           \<and> uml_agree s' (param_store M 4 dstp 0 s) \<and> same_flags s s'"
proof -
  note zc = empty_mask_bits[OF z]
  let ?dst = "be_select_register dstp TEMP_REG1 8"
  let ?g1 = "emits [Inst kIdMov [OReg ?dst, OReg a64_xzr]] g"
  have wf: "wf_param dstp" using be_parameter_of_wf[OF d] by (simp add: PTYPE_MR_def PTYPE_F_def PTYPE_M_def PTYPE_R_def)
  have mk: "be_parameter_of env (PARAM_IMMEDIATE m) PTYPE_I = Some (be_immediate m)"
    by (simp add: be_parameter_of_def PTYPE_I_def)
  have im: "immediate (be_immediate m) = m" "is_immediate (be_immediate m)"
    by (simp_all add: immediate_def be_immediate_def is_immediate_def)
  have sz: "i_size inst = 4" using gen by (auto simp add: op_getflgs_def split: if_splits)
  have g': "put_mov_param_reg env 4 dstp ?dst ?g1 = Some g'"
    using gen p0 d p1 mk im zc sz
    by (simp add: op_getflgs_def assert_no_condition_def assert_no_flags_def Let_def
        split: if_splits)
  obtain c where c: "mov_param_reg env (cur_offs env ?g1) 4 dstp ?dst = Some c"
    and cg: "code g' = code ?g1 @ c"
    using put_mov_param_reg_Some[OF g'] by blast
  have em: "emitted g g' = Inst kIdMov [OReg ?dst, OReg a64_xzr] # c"
    using cg by (simp add: emitted_def)
  let ?s1 = "wr ?dst 0 s"
  have r1: "run M [Inst kIdMov [OReg ?dst, OReg a64_xzr]] (Done s) = Done ?s1"
    by (simp add: exec_defs reg_defs rd_def)
  have ni: "\<not> is_immediate dstp" using c by (auto simp add: mov_param_reg_def split: if_splits)
  show ?thesis
  proof (cases "is_memory dstp")
    case True
    then have dst: "?dst = xreg 9"
      by (simp add: be_select_register_def is_memory_def reg_defs reg_x_def)
    have b1: "regs ?s1 27 = m_baseptr env" using b unfolding dst by (simp add: wr_def)
    obtain s' where r2: "run M c (Done ?s1) = Done s'"
      and m2: "mem s' = mem (store_mem M (memory dstp) 4 (rd ?s1 (select_register ?dst 4)) ?s1)"
      and f2: "regs_frame {14} ?s1 s'"
      using mov_param_reg_run[OF c b1 _ wf, of M] True unfolding dst by auto
    have v: "rd ?s1 (select_register ?dst 4) = 0"
      unfolding dst by (simp add: rd_def wr_def select_register_def reg_w_def dsz_def)
    have nc: "\<not> is_cold_register dstp" using wf by (simp add: wf_param_def)
    have m2': "mem s' = mem (store_mem M (memory dstp) 4 0 ?s1)" using m2 v by simp
    have "run M (emitted g g') (Done s) = Done s'"
      using r1 r2 by (simp add: em)
    moreover have "uml_agree s' (param_store M 4 dstp 0 s)"
      using m2' f2 True nc unfolding dst
      by (auto simp add: uml_agree_def param_store_def regs_frame_def wr_def store_mem_def)
    moreover have "same_flags s s'"
      using f2 by (auto simp add: regs_frame_def same_flags_def)
    ultimately show ?thesis by blast
  next
    case False
    then have ir: "is_int_register dstp" and rg: "19 \<le> ireg dstp \<and> ireg dstp \<le> 26"
      using wf ni wf_param_kinds[OF wf] wf_param_ireg[OF wf] by auto
    have dst: "?dst = get_register_int dstp 8"
      using ir by (simp add: be_select_register_def is_int_register_def)
    have cc: "c = []"
      using c ni False ir by (simp add: mov_param_reg_def dst get_register_int_def ireg_def)
    have "run M (emitted g g') (Done s) = Done ?s1"
      using r1 by (simp add: em cc)
    moreover have "uml_agree ?s1 (param_store M 4 dstp 0 s)"
      using False rg
      by (auto simp add: uml_agree_def param_store_def dst get_register_int_def wr_def ireg_def dsz_def)
    moreover have "same_flags s ?s1" by (simp add: same_flags_def)
    ultimately show ?thesis by blast
  qed
qed

theorem getflgs_empty_mask_zero_witness:
  "\<exists>g'. op_getflgs witness_env getflgs_none start_gen = Some g'
     \<and> (\<exists>s'. run witness_machine (emitted start_gen g') (Done witness_state) = Done s'
           \<and> uml_agree s' (param_store witness_machine 4 (make_memory 0x10000200) 0 witness_state)
           \<and> same_flags witness_state s')
     \<and> load_mem witness_machine witness_state 0x10000200 4 \<noteq> 0"
proof -
  obtain g' where h1: "op_getflgs witness_env getflgs_none start_gen = Some g'"
    by (simp add: op_getflgs_def getflgs_none_def uml_inst_def assert_insts param_def
        be_parameter_of_def PTYPE_MR_def PTYPE_M_def PTYPE_R_def PTYPE_I_def Let_def
        be_immediate_def is_immediate_def put_mov_param_reg_def mov_param_reg_def
        make_memory_def is_memory_def is_cold_register_def immediate_def flag_defs)
  have h2: "param getflgs_none 0 = Some (PARAM_MEMORY 0x10000200)"
    by (simp add: getflgs_none_def uml_inst_def param_def)
  have h3: "be_parameter_of witness_env (PARAM_MEMORY 0x10000200) PTYPE_MR
             = Some (make_memory 0x10000200)"
    by (simp add: be_parameter_of_def PTYPE_MR_def PTYPE_M_def PTYPE_R_def)
  have h4: "param getflgs_none 1 = Some (PARAM_IMMEDIATE 0x20)"
    by (simp add: getflgs_none_def uml_inst_def param_def)
  have h5: "(0x20::u64) AND (FLAG_C OR FLAG_V OR FLAG_Z OR FLAG_S OR FLAG_U) = 0"
    by (simp add: flag_defs)
  have h6: "regs witness_state 27 = m_baseptr witness_env"
    by (simp add: witness_state_def witness_env_def)
  have h7: "load_mem witness_machine witness_state 0x10000200 4 \<noteq> 0"
    by code_simp
  show ?thesis
    using h1 h7 getflgs_empty_mask_zero [OF h1 h2 h3 h4 h5 h6, where M = witness_machine]
    by blast
qed

subsection \<open>The addition example\<close>

lemmas ptype_defs = PTYPE_I_def PTYPE_R_def PTYPE_F_def PTYPE_M_def PTYPE_MR_def PTYPE_MRI_def
  PTYPE_MF_def

lemmas be_param_defs = be_immediate_def make_memory_def make_ireg_def is_immediate_def
  is_int_register_def is_memory_def is_cold_register_def immediate_def ireg_def memory_def
  is_immediate_value_def get_register_int_def be_select_register_def

lemma example_immediates:
  "is_valid_immediate_addsub 1" "\<not> is_valid_immediate_addsub 0xFFFFFFFF"
  "is_simple_mov_immediate 0xFFFFFFFF 4"
  by code_simp+

lemma example_add_code:
  "op_add False env (uml_inst OP_ADD 4 (FLAG_C OR FLAG_Z OR FLAG_V OR FLAG_S)
        [PARAM_INT_REGISTER 0, PARAM_IMMEDIATE 0xFFFFFFFF, PARAM_IMMEDIATE 1]) g
     = Some (g\<lparr>code := code g @
         [Inst kIdMov [OReg (Gp False 19), OImm 0xFFFFFFFF],
          Inst kIdAdds [OReg (Gp False 19), OReg (Gp False 19), OImm 1],
          Inst kIdCset [OReg (xreg 12), OCond kCS],
          Inst kIdBfi [OReg (xreg 28), OReg (xreg 12), OImm 0, OImm 1]],
          m_carry_state := CANONICAL\<rparr>)"
  by (simp add: op_add_def uml_inst_def assert_insts param_def be_parameter_of_def flag_defs
      ptype_defs be_param_defs REG_I_COUNT_def REG_MAX_def int_register_map_def Let_def
      example_immediates alu_body_def put_mov_reg_param_def put_mov_param_reg_def
      mov_reg_param_def mov_param_reg_def get_imm_relative_def select_register_def reg_w_def
      store_carry_def store_carry_reg_def emits_def reg_defs reg_x_def)

lemma example_getflgs_code:
  "op_getflgs env (uml_inst OP_GETFLGS 4 0
        [PARAM_INT_REGISTER 1, PARAM_IMMEDIATE (FLAG_C OR FLAG_Z OR FLAG_V OR FLAG_S)]) g
     = Some (g\<lparr>code := code g @
         [Inst kIdAnd [OReg (xreg 20), OReg (xreg 28), OImm 1],
          Inst kIdCset [OReg (xreg 12), OCond kVS],
          Inst kIdOrr [OReg (xreg 20), OReg (xreg 20), OReg (xreg 12), OImm 1],
          Inst kIdCset [OReg (xreg 12), OCond kEQ],
          Inst kIdOrr [OReg (xreg 20), OReg (xreg 20), OReg (xreg 12), OImm 2],
          Inst kIdCset [OReg (xreg 12), OCond kMI],
          Inst kIdOrr [OReg (xreg 20), OReg (xreg 20), OReg (xreg 12), OImm 3]]\<rparr>)"
  by (simp add: op_getflgs_def uml_inst_def assert_insts param_def be_parameter_of_def flag_defs
      ptype_defs be_param_defs REG_I_COUNT_def REG_MAX_def int_register_map_def Let_def
      getflgs_native_def put_mov_param_reg_def mov_param_reg_def emits_def reg_defs)

lemma example_exit_code:
  "op_exit env (uml_inst OP_EXIT 4 0 [PARAM_INT_REGISTER 1]) g
     = Some (g\<lparr>code := code g @
         [Inst kIdMov [OReg (Gp False 0), OReg (Gp False 20)],
          Inst kIdB [OImm (m_exit env)]]\<rparr>)"
  by (simp add: op_exit_def uml_inst_def assert_insts param_def be_parameter_of_def
      ptype_defs be_param_defs REG_I_COUNT_def REG_MAX_def int_register_map_def Let_def
      emit_skip_def put_mov_reg_param_def mov_reg_param_def emits_def reg_defs
      select_register_def reg_w_def)

lemma i_opcode_uml_inst [simp]: "i_opcode (uml_inst opc sz fl ps) = opc"
  by (simp add: uml_inst_def)

lemma example_code:
  "generate_insts env example_add_getflgs_exit start_gen
     = Some \<lparr>code =
         [Inst kIdMov [OReg (Gp False 19), OImm 0xFFFFFFFF],
          Inst kIdAdds [OReg (Gp False 19), OReg (Gp False 19), OImm 1],
          Inst kIdCset [OReg (xreg 12), OCond kCS],
          Inst kIdBfi [OReg (xreg 28), OReg (xreg 12), OImm 0, OImm 1],
          Inst kIdAnd [OReg (xreg 20), OReg (xreg 28), OImm 1],
          Inst kIdCset [OReg (xreg 12), OCond kVS],
          Inst kIdOrr [OReg (xreg 20), OReg (xreg 20), OReg (xreg 12), OImm 1],
          Inst kIdCset [OReg (xreg 12), OCond kEQ],
          Inst kIdOrr [OReg (xreg 20), OReg (xreg 20), OReg (xreg 12), OImm 2],
          Inst kIdCset [OReg (xreg 12), OCond kMI],
          Inst kIdOrr [OReg (xreg 20), OReg (xreg 20), OReg (xreg 12), OImm 3],
          Inst kIdMov [OReg (Gp False 0), OReg (Gp False 20)],
          Inst kIdB [OImm (m_exit env)]],
        next_label = 0, m_carry_state = CANONICAL\<rparr>"
  unfolding example_add_getflgs_exit_def
  by (simp add: s_opcode_table_def example_add_code example_getflgs_code example_exit_code
      start_gen_def del: One_nat_def)

lemma example_sum: "add_with_carry 32 0xFFFFFFFF 1 False = (0, False, True, True, False)"
  by code_simp

lemma example_run:
  "entry_return env (run M
         [Inst kIdMov [OReg (Gp False 19), OImm 0xFFFFFFFF],
          Inst kIdAdds [OReg (Gp False 19), OReg (Gp False 19), OImm 1],
          Inst kIdCset [OReg (xreg 12), OCond kCS],
          Inst kIdBfi [OReg (xreg 28), OReg (xreg 12), OImm 0, OImm 1],
          Inst kIdAnd [OReg (xreg 20), OReg (xreg 28), OImm 1],
          Inst kIdCset [OReg (xreg 12), OCond kVS],
          Inst kIdOrr [OReg (xreg 20), OReg (xreg 20), OReg (xreg 12), OImm 1],
          Inst kIdCset [OReg (xreg 12), OCond kEQ],
          Inst kIdOrr [OReg (xreg 20), OReg (xreg 20), OReg (xreg 12), OImm 2],
          Inst kIdCset [OReg (xreg 12), OCond kMI],
          Inst kIdOrr [OReg (xreg 20), OReg (xreg 20), OReg (xreg 12), OImm 3],
          Inst kIdMov [OReg (Gp False 0), OReg (Gp False 20)],
          Inst kIdB [OImm (m_exit env)]] (Done s)) = Some 5"
  by (simp add: exec_defs example_sum set_nzcv_def cond_holds_def
      entry_return_def rd_def wr_def dsz_def reg_defs reg_w_def)

text \<open>
  Claim C6: the code generated for \<open>ADD I0, #0xFFFFFFFF, #1\<close> at size 4 with flag mask
  C|Z|V|S, then \<open>GETFLGS I1\<close> with mask C|Z|V|S, then \<open>EXIT I1\<close>, when executed from any
  machine state, branches to the exit point with the value 0b00101 = 5 in the result
  register: exactly the C and Z bits.
\<close>

theorem add_getflgs_exit_returns:
  "\<exists>g. generate_insts env example_add_getflgs_exit start_gen = Some g
       \<and> entry_return env (run M (code g) (Done s)) = Some 5
       \<and> FLAG_C OR FLAG_Z = 5"
  unfolding example_code using example_run [of env M s] by (simp add: flag_defs)

theorem add_getflgs_exit_returns_witness:
  "\<exists>g. generate_insts witness_env example_add_getflgs_exit start_gen = Some g
       \<and> entry_return witness_env (run witness_machine (code g) (Done witness_state)) = Some 5
       \<and> FLAG_C OR FLAG_Z = 5"
  using add_getflgs_exit_returns [of witness_env witness_machine witness_state] by simp

subsection \<open>The unordered flag of a float compare\<close>

lemma bit_u64_less: "bit (x::u64) n \<Longrightarrow> n < 64"
  using bit_imp_le_length[of x n] by simp

lemma bfi_bit:
  fixes x v :: u64
  assumes "k < 64"
  shows "bit ((x AND NOT (push_bit k 1)) OR push_bit k (v AND 1)) n
           = (if n = k then bit v 0 else bit x n)"
  using assms by (auto simp add: bit_simps dest: bit_u64_less)

lemma run_bfi_bit:
  assumes "k < 64" and "d \<noteq> 63" and "j \<noteq> 63"
  shows "\<exists>s'. run M [Inst kIdBfi [OReg (xreg d), OReg (xreg j), OImm (of_nat k), OImm 1]] (Done s)
              = Done s'
          \<and> (\<forall>n. bit (regs s' d) n = (if n = k then bit (regs s j) 0 else bit (regs s d) n))
          \<and> frame {d} s s'"
proof -
  have u: "unat (of_nat k :: u64) = k" using assms(1) by (simp add: unat_of_nat)
  let ?v = "(regs s d AND NOT (push_bit k 1)) OR push_bit k (regs s j AND 1)"
  have r: "run M [Inst kIdBfi [OReg (xreg d), OReg (xreg j), OImm (of_nat k), OImm 1]] (Done s)
             = Done (wr (xreg d) ?v s)"
    using assms(2,3) by (simp add: exec_defs u rd_def dsz_def)
  have "regs (wr (xreg d) ?v s) d = ?v" using assms(2) by (simp add: wr_def dsz_def)
  then have "\<forall>n. bit (regs (wr (xreg d) ?v s) d) n
                 = (if n = k then bit (regs s j) 0 else bit (regs s d) n)"
    using bfi_bit[OF assms(1)] by simp
  moreover have "frame {d} s (wr (xreg d) ?v s)" using frame_wr[of "xreg d"] by simp
  ultimately show ?thesis using r by blast
qed

lemma be_parameter_of_MF:
  assumes "be_parameter_of env p PTYPE_MF = Some bp"
  shows "is_memory bp \<or> is_float_register bp"
  using assms
  by (cases p) (auto simp add: be_parameter_of_def ptype_defs be_param_defs make_freg_def
      is_float_register_def Let_def split: if_splits)

lemma float_ldr_run:
  assumes b: "regs s 27 = m_baseptr env"
  shows "\<exists>s'. run M (emit_float_ldr_mem env offs v ptr) (Done s) = Done s'
           \<and> vregs s' = (vregs s)(vec_id v := take_bit (vsz v) (load_mem M s ptr (vsz v div 8)))
           \<and> (\<forall>r. r \<noteq> 14 \<longrightarrow> regs s' r = regs s r) \<and> same_flags s s' \<and> mem s' = mem s"
proof -
  obtain pre m s1 where sh: "emit_float_ldr_mem env offs v ptr = pre @ [Inst kIdLdr_v [OVec v, OMem m]]"
    and r1: "run M pre (Done s) = Done s1" and f1: "frame {14} s s1" and e: "ea s1 m = Some ptr"
    unfolding emit_float_ldr_mem_def using emit_ldr_str_base_mem_shape[OF b] by blast
  have lm: "load_mem M s1 ptr (vsz v div 8) = load_mem M s ptr (vsz v div 8)"
    using f1 by (simp add: load_mem_def frame_def)
  have "run M (emit_float_ldr_mem env offs v ptr) (Done s)
          = Done (vwr v (load_mem M s ptr (vsz v div 8)) s1)"
    using r1 e lm by (simp add: sh exec_defs)
  then show ?thesis
    using f1 by (auto simp add: vwr_def frame_def same_flags_def)
qed

lemma fcmp_load_run:
  assumes c: "(if \<not> is_float_register p then put_mov_float_reg_param env sz v p g else Some g) = Some g'"
    and k: "is_memory p \<or> is_float_register p"
    and b: "regs s 27 = m_baseptr env"
  shows "\<exists>c s'. code g' = code g @ c \<and> run M c (Done s) = Done s' \<and> regs s' 27 = m_baseptr env"
proof (cases "is_float_register p")
  case True
  then have "g' = g" using c by simp
  then show ?thesis using b by simp
next
  case False
  then have m: "is_memory p" using k by simp
  then have ni: "\<not> is_immediate p" by (simp add: is_memory_def is_immediate_def)
  let ?c = "emit_float_ldr_mem env (cur_offs env g) (select_register_vec v sz) (memory p)"
  have "code g' = code g @ ?c"
    using c False m ni by (auto simp add: put_mov_float_reg_param_def mov_float_reg_param_def)
  moreover obtain s' where "run M ?c (Done s) = Done s'" "\<forall>r. r \<noteq> 14 \<longrightarrow> regs s' r = regs s r"
    using float_ldr_run[OF b, of M "cur_offs env g" "select_register_vec v sz" "memory p"] by blast
  ultimately show ?thesis using b by auto
qed

lemma store_unordered_prefix:
  "\<exists>s2. run M (butlast store_unordered) (Done s) = Done s2
      \<and> regs s2 13 = of_bool (cond_holds s kVS)
      \<and> regs s2 12 = of_bool (cond_holds s kPL \<and> cond_holds s kNE \<and> cond_holds s kCS
                               \<and> cond_holds s kVS)
      \<and> frame {12, 13} s s2"
  by (auto simp add: store_unordered_def exec_defs reg_defs rd_def wr_def dsz_def frame_def
      same_flags_def cond_holds_def)

lemma store_unordered_last:
  "store_unordered = butlast store_unordered
      @ [Inst kIdBfi [OReg (xreg 28), OReg (xreg 13), OImm (of_nat 4), OImm 1]]"
  by (simp add: store_unordered_def reg_defs flag_defs)

lemma fcmp_flags:
  "cond_holds (fcmp_nzcv r s0) kVS
     = (cond_holds (fcmp_nzcv r s0) kNE \<and> cond_holds (fcmp_nzcv r s0) kCS
        \<and> cond_holds (fcmp_nzcv r s0) kVS \<and> cond_holds (fcmp_nzcv r s0) kPL)"
  by (cases r) (simp_all add: fcmp_nzcv_def set_nzcv_def cond_holds_def)

lemma store_carry_run:
  "\<exists>s'. run M (Inst kIdCset [OReg SCRATCH_REG1, OCond cc] # store_carry_reg SCRATCH_REG1) (Done s)
            = Done s'
       \<and> (\<forall>n. bit (regs s' 28) n = (if n = 0 then cond_holds s cc else bit (regs s 28) n))
       \<and> frame {12, 28} s s'"
proof -
  let ?s1 = "wr SCRATCH_REG1 (of_bool (cond_holds s cc)) s"
  have r1: "run M [Inst kIdCset [OReg SCRATCH_REG1, OCond cc]] (Done s) = Done ?s1"
    by (simp add: exec_defs)
  have sc: "store_carry_reg SCRATCH_REG1
              = [Inst kIdBfi [OReg (xreg 28), OReg (xreg 12), OImm (of_nat 0), OImm 1]]"
    by (simp add: store_carry_reg_def reg_defs reg_x_def flag_defs)
  obtain s' where r2: "run M (store_carry_reg SCRATCH_REG1) (Done ?s1) = Done s'"
    and b2: "\<forall>n. bit (regs s' 28) n = (if n = 0 then bit (regs ?s1 12) 0 else bit (regs ?s1 28) n)"
    and f2: "frame {28} ?s1 s'"
    unfolding sc using run_bfi_bit[of 0 28 12 M ?s1] by auto
  have f1: "frame {12} s ?s1" using frame_wr[of SCRATCH_REG1] by (simp add: reg_defs)
  have v: "bit (regs ?s1 12) 0 = cond_holds s cc" "regs ?s1 28 = regs s 28"
    by (simp_all add: wr_def reg_defs dsz_def)
  have "run M (Inst kIdCset [OReg SCRATCH_REG1, OCond cc] # store_carry_reg SCRATCH_REG1) (Done s)
          = Done s'"
    using r1 r2 run_append[of M "[Inst kIdCset [OReg SCRATCH_REG1, OCond cc]]"] by simp
  moreover have "frame {12, 28} s s'" using frame_trans[OF f1 f2] by (simp add: insert_commute)
  ultimately show ?thesis using b2 v by auto
qed

lemma if_None_eq_Some: "((if b then x else None) = Some y) = (b \<and> x = Some y)"
  by simp

text \<open>
  Claim C4: for every \<open>FCMP\<close> instruction, the value that the generated code
  bitfield-inserts into bit 4 (the U bit) of the emulated-flags register is the AND of
  the four condition tests not-equal, carry-set, overflow-set and plus on the native
  flags produced by the float compare.  (The inserted register holds the \<open>cset\<close> of
  overflow-set; on the flags of a float compare it equals the AND of the four.)
\<close>

theorem fcmp_unordered_bit:
  assumes gen: "op_fcmp env inst g = Some g'" and b: "regs s 27 = m_baseptr env"
  shows "\<exists>pre a b s0 s1 s2 s'.
      emitted g g' = pre @ Inst kIdFcmp [OVec a, OVec b]
                       # Inst kIdCset [OReg SCRATCH_REG1, OCond kCC] # store_carry_reg SCRATCH_REG1
                       @ store_unordered
    \<and> run M pre (Done s) = Done s0
    \<and> s1 = fcmp_nzcv (float_compare M (isVecD a) (vrd s0 a) (vrd s0 b)) s0
    \<and> run M (butlast (emitted g g')) (Done s) = Done s2
    \<and> last (emitted g g') = Inst kIdBfi [OReg FLAGS_REG, OReg SCRATCH_REG2, OImm 4, OImm 1]
    \<and> rd s2 SCRATCH_REG2
         = of_bool (cond_holds s1 kNE \<and> cond_holds s1 kCS \<and> cond_holds s1 kVS \<and> cond_holds s1 kPL)
    \<and> run M (emitted g g') (Done s) = Done s'
    \<and> bit (regs s' 28) 4
         = (cond_holds s1 kNE \<and> cond_holds s1 kCS \<and> cond_holds s1 kVS \<and> cond_holds s1 kPL)"
proof -
  from gen obtain p0 src1p p1 src2p g1 g2 where
    q0: "be_parameter_of env p0 PTYPE_MF = Some src1p"
    and q1: "be_parameter_of env p1 PTYPE_MF = Some src2p"
    and l1: "(if \<not> is_float_register src1p
              then put_mov_float_reg_param env (i_size inst)
                     (be_select_register_vec src1p TEMPF_REG1 (i_size inst)) src1p g
              else Some g) = Some g1"
    and l2: "(if \<not> is_float_register src2p
              then put_mov_float_reg_param env (i_size inst)
                     (be_select_register_vec src2p TEMPF_REG2 (i_size inst)) src2p g1
              else Some g1) = Some g2"
    and g': "g' = emits store_unordered (store_carry True
               (emits [Inst kIdFcmp [OVec (be_select_register_vec src1p TEMPF_REG1 (i_size inst)),
                                     OVec (be_select_register_vec src2p TEMPF_REG2 (i_size inst))]] g2))"
    unfolding op_fcmp_def assert_insts Let_def
    by (simp only: assert_bind if_None_eq_Some bind_eq_Some_conv) blast
  let ?a = "be_select_register_vec src1p TEMPF_REG1 (i_size inst)"
  let ?b = "be_select_register_vec src2p TEMPF_REG2 (i_size inst)"
  let ?carry = "Inst kIdCset [OReg SCRATCH_REG1, OCond kCC] # store_carry_reg SCRATCH_REG1"
  let ?bfi = "Inst kIdBfi [OReg (xreg 28), OReg (xreg 13), OImm (of_nat 4), OImm 1]"
  obtain c1 sa where c1: "code g1 = code g @ c1" and ra: "run M c1 (Done s) = Done sa"
    and ba: "regs sa 27 = m_baseptr env"
    using fcmp_load_run[OF l1 be_parameter_of_MF[OF q0] b] by blast
  obtain c2 s0 where c2: "code g2 = code g1 @ c2" and rb: "run M c2 (Done sa) = Done s0"
    using fcmp_load_run[OF l2 be_parameter_of_MF[OF q1] ba] by blast
  let ?s1 = "fcmp_nzcv (float_compare M (isVecD ?a) (vrd s0 ?a) (vrd s0 ?b)) s0"
  have em: "emitted g g' = (c1 @ c2) @ Inst kIdFcmp [OVec ?a, OVec ?b] # ?carry @ store_unordered"
    using c1 c2 by (simp add: g' emitted_def store_carry_def)
  have r0: "run M (c1 @ c2) (Done s) = Done s0" using ra rb by simp
  have r1: "run M [Inst kIdFcmp [OVec ?a, OVec ?b]] (Done s0) = Done ?s1"
    by (simp add: exec_defs)
  obtain sc where rc: "run M ?carry (Done ?s1) = Done sc" and fc: "frame {12, 28} ?s1 sc"
    using store_carry_run[of M kCC ?s1] by blast
  have flc: "cond_holds sc = cond_holds ?s1"
    using fc by (auto simp add: frame_def same_flags_def cond_holds_def fun_eq_iff split: cond_code.splits)
  obtain s2 where r2: "run M (butlast store_unordered) (Done sc) = Done s2"
    and v13: "regs s2 13 = of_bool (cond_holds sc kVS)"
    using store_unordered_prefix[of M sc] by blast
  obtain s' where r3: "run M [?bfi] (Done s2) = Done s'"
    and b3: "\<forall>n. bit (regs s' 28) n = (if n = 4 then bit (regs s2 13) 0 else bit (regs s2 28) n)"
    using run_bfi_bit[of 4 28 13 M s2] by auto
  have bl: "butlast (emitted g g')
              = (c1 @ c2) @ Inst kIdFcmp [OVec ?a, OVec ?b] # ?carry @ butlast store_unordered"
    unfolding em by (simp add: store_unordered_def butlast_append)
  have la: "last (emitted g g') = ?bfi"
    unfolding em by (simp add: store_unordered_def reg_defs flag_defs)
  have run2: "run M (butlast (emitted g g')) (Done s) = Done s2"
    unfolding bl using r0 r1 rc r2
    by (metis append_Cons append_Nil run_append)
  have ne: "emitted g g' \<noteq> []" unfolding em by simp
  have eml: "emitted g g' = butlast (emitted g g') @ [?bfi]"
    using append_butlast_last_id[OF ne] la by simp
  have run3: "run M (emitted g g') (Done s) = Done s'"
    using run2 r3 by (subst eml) simp
  have v: "rd s2 SCRATCH_REG2 = of_bool (cond_holds ?s1 kVS)"
    using v13 flc by (simp add: rd_def reg_defs dsz_def)
  have bit4: "bit (regs s' 28) 4 = cond_holds ?s1 kVS"
    using b3 v13 flc by simp
  note ff = fcmp_flags[of "float_compare M (isVecD ?a) (vrd s0 ?a) (vrd s0 ?b)" s0]
  have v': "rd s2 SCRATCH_REG2
         = of_bool (cond_holds ?s1 kNE \<and> cond_holds ?s1 kCS \<and> cond_holds ?s1 kVS \<and> cond_holds ?s1 kPL)"
    using v ff by simp
  have bit4': "bit (regs s' 28) 4
         = (cond_holds ?s1 kNE \<and> cond_holds ?s1 kCS \<and> cond_holds ?s1 kVS \<and> cond_holds ?s1 kPL)"
    using bit4 ff by simp
  have la': "last (emitted g g') = Inst kIdBfi [OReg FLAGS_REG, OReg SCRATCH_REG2, OImm 4, OImm 1]"
    using la by (simp add: reg_defs)
  have em': "emitted g g' = (c1 @ c2) @ Inst kIdFcmp [OVec ?a, OVec ?b]
                 # Inst kIdCset [OReg SCRATCH_REG1, OCond kCC] # store_carry_reg SCRATCH_REG1
                 @ store_unordered"
    using em by simp
  show ?thesis
    using em' r0 run2 la' v' run3 bit4' by blast
qed

theorem fcmp_unordered_bit_witness:
  "\<exists>g'. op_fcmp witness_env fcmp_example start_gen = Some g'
     \<and> regs witness_state 27 = m_baseptr witness_env
     \<and> (\<exists>pre a b s0 s1 s2 s'.
      emitted start_gen g' = pre @ Inst kIdFcmp [OVec a, OVec b]
                       # Inst kIdCset [OReg SCRATCH_REG1, OCond kCC] # store_carry_reg SCRATCH_REG1
                       @ store_unordered
    \<and> run witness_machine pre (Done witness_state) = Done s0
    \<and> s1 = fcmp_nzcv (float_compare witness_machine (isVecD a) (vrd s0 a) (vrd s0 b)) s0
    \<and> run witness_machine (butlast (emitted start_gen g')) (Done witness_state) = Done s2
    \<and> last (emitted start_gen g') = Inst kIdBfi [OReg FLAGS_REG, OReg SCRATCH_REG2, OImm 4, OImm 1]
    \<and> rd s2 SCRATCH_REG2
         = of_bool (cond_holds s1 kNE \<and> cond_holds s1 kCS \<and> cond_holds s1 kVS \<and> cond_holds s1 kPL)
    \<and> run witness_machine (emitted start_gen g') (Done witness_state) = Done s'
    \<and> bit (regs s' 28) 4
         = (cond_holds s1 kNE \<and> cond_holds s1 kCS \<and> cond_holds s1 kVS \<and> cond_holds s1 kPL))"
proof -
  have "op_fcmp witness_env fcmp_example start_gen \<noteq> None" by code_simp
  then obtain g' where h1: "op_fcmp witness_env fcmp_example start_gen = Some g'" by auto
  have h2: "regs witness_state 27 = m_baseptr witness_env"
    by (simp add: witness_state_def witness_env_def)
  show ?thesis
    using h1 h2 fcmp_unordered_bit [OF h1 h2, where M = witness_machine] by blast
qed

subsection \<open>The tracking of the carry state\<close>

lemma carry_emits [simp]: "m_carry_state (emits c g) = m_carry_state g"
  by (simp add: emits_def)

lemma carry_put_mov_reg_param [simp]:
  "m_carry_state (put_mov_reg_param env sz dst src g) = m_carry_state g"
  by (simp add: put_mov_reg_param_def)

lemma carry_put_get_imm_relative [simp]:
  "m_carry_state (put_get_imm_relative env reg val g) = m_carry_state g"
  by (simp add: put_get_imm_relative_def)

lemma carry_put_call_arm_addr [simp]:
  "m_carry_state (put_call_arm_addr env a g) = m_carry_state g"
  by (simp add: put_call_arm_addr_def)

lemma carry_put_mov_param_reg:
  "put_mov_param_reg env sz dst src g = Some g' \<Longrightarrow> m_carry_state g' = m_carry_state g"
  by (auto simp add: put_mov_param_reg_def)

lemma carry_newLabel [simp]: "m_carry_state (snd (newLabel g)) = m_carry_state g"
  by (simp add: newLabel_def)

lemma carry_emit_memaccess_setup [simp]:
  "m_carry_state (emit_memaccess_setup env addrp accessors side g) = m_carry_state g"
  by (simp add: emit_memaccess_setup_def Let_def)

lemma carry_emit_narrow_memwrite [simp]:
  "m_carry_state (emit_narrow_memwrite env addrp sz spc accessors g) = m_carry_state g"
  by (simp add: emit_narrow_memwrite_def Let_def)

lemma carry_call_resolved [simp]:
  "m_carry_state (call_resolved env sz fb fw fd fq g) = m_carry_state g"
  by (simp add: call_resolved_def)

lemma carry_store_carry [simp]:
  "m_carry_state (store_carry inverted g) = (if inverted then LOGICAL else CANONICAL)"
  by (simp add: store_carry_def)

lemma op_callc_carry: "op_callc env inst g = Some g' \<Longrightarrow> m_carry_state g' = POISON"
  unfolding op_callc_def assert_insts Let_def
  by (auto simp add: bind_eq_Some_conv case_prod_beta split: if_splits)

lemma op_debug_carry:
  "op_debug env inst g = Some g' \<Longrightarrow> debug_enabled env \<Longrightarrow> m_carry_state g' = POISON"
  unfolding op_debug_def assert_insts Let_def
  by (auto simp add: bind_eq_Some_conv case_prod_beta split: if_splits)

lemma op_read_carry: "op_read env inst g = Some g' \<Longrightarrow> m_carry_state g' = POISON"
  unfolding op_read_def assert_insts
  by (auto simp add: bind_eq_Some_conv Let_def case_prod_beta dest!: carry_put_mov_param_reg
      split: if_splits)

lemma op_write_carry: "op_write env inst g = Some g' \<Longrightarrow> m_carry_state g' = POISON"
  unfolding op_write_def assert_insts
  by (auto simp add: bind_eq_Some_conv Let_def case_prod_beta split: if_splits)

lemma carry_put_mov_float_reg_param:
  "put_mov_float_reg_param env sz dst src g = Some g' \<Longrightarrow> m_carry_state g' = m_carry_state g"
  by (auto simp add: put_mov_float_reg_param_def)

lemma carry_put_mov_float_param_int_reg:
  "put_mov_float_param_int_reg env sz dst src g = Some g'
   \<Longrightarrow> m_carry_state g' = m_carry_state g"
  by (auto simp add: put_mov_float_param_int_reg_def)

lemma op_readm_carry: "op_readm env inst g = Some g' \<Longrightarrow> m_carry_state g' = POISON"
  unfolding op_readm_def assert_insts
  by (auto simp add: bind_eq_Some_conv Let_def case_prod_beta dest!: carry_put_mov_param_reg
      split: if_splits)

lemma op_writem_carry: "op_writem env inst g = Some g' \<Longrightarrow> m_carry_state g' = POISON"
  unfolding op_writem_def assert_insts
  by (auto simp add: bind_eq_Some_conv Let_def case_prod_beta split: if_splits)

lemma op_fread_carry: "op_fread env inst g = Some g' \<Longrightarrow> m_carry_state g' = POISON"
  unfolding op_fread_def assert_insts
  by (auto simp add: bind_eq_Some_conv Let_def case_prod_beta
      dest!: carry_put_mov_float_param_int_reg split: if_splits)

lemma op_fwrite_carry: "op_fwrite env inst g = Some g' \<Longrightarrow> m_carry_state g' = POISON"
  unfolding op_fwrite_def assert_insts
  by (auto simp add: bind_eq_Some_conv Let_def case_prod_beta
      dest!: carry_put_mov_float_reg_param split: if_splits)

lemma op_break_carry: "op_break env inst g = Some g' \<Longrightarrow> m_carry_state g' = POISON"
  unfolding op_break_def assert_insts
  by (auto simp add: bind_eq_Some_conv Let_def split: if_splits)

lemma op_recover_carry: "op_recover env inst g = Some g' \<Longrightarrow> m_carry_state g' = POISON"
  unfolding op_recover_def assert_insts
  by (auto simp add: bind_eq_Some_conv Let_def case_prod_beta dest!: carry_put_mov_param_reg
      split: if_splits)

lemma op_add_carry:
  "op_add ci env inst g = Some g' \<Longrightarrow> i_flags inst \<noteq> 0 \<Longrightarrow> m_carry_state g' = CANONICAL"
  unfolding op_add_def assert_insts
  by (simp only: assert_bind if_None_eq_Some bind_eq_Some_conv Let_def) auto

lemma op_sub_carry:
  "op_sub ci env inst g = Some g' \<Longrightarrow> i_flags inst \<noteq> 0 \<Longrightarrow> m_carry_state g' = LOGICAL"
  unfolding op_sub_def assert_insts
  by (simp only: assert_bind if_None_eq_Some bind_eq_Some_conv Let_def) auto

lemma op_cmp_carry: "op_cmp env inst g = Some g' \<Longrightarrow> m_carry_state g' = LOGICAL"
  unfolding op_cmp_def assert_insts
  by (simp only: assert_bind if_None_eq_Some bind_eq_Some_conv Let_def) auto

lemma generate_insts_snoc:
  "generate_insts env (pre @ [inst]) g = Some g'
   \<Longrightarrow> \<exists>g1. generate_insts env pre g = Some g1
            \<and> s_opcode_table (i_opcode inst) env inst g1 = Some g'"
  by (induction pre arbitrary: g) (auto split: option.splits)

lemma op_callc_Some:
  assumes "i_size inst = 4" and "i_flags inst = 0"
    and "i_params inst = [PARAM_C_FUNCTION f, PARAM_MEMORY m]"
  shows "\<exists>g'. op_callc env inst g = Some g'"
  using assms
  by (simp add: op_callc_def assert_insts param_def be_parameter_of_def ptype_defs
      case_prod_beta Let_def)

lemma op_break_Some:
  assumes "i_size inst = 4" and "i_condition inst = COND_ALWAYS" and "i_flags inst = 0"
  shows "\<exists>g'. op_break env inst g = Some g'"
  using assms by (simp add: op_break_def assert_insts Let_def)

text \<open>
  Claim C5: throughout the generation of a block, the tracked carry state is POISON
  right after an instruction that emits a call out to the host, CANONICAL right after a
  store-carry taken from the native C flag (the add path, when flags are requested) and
  LOGICAL right after a store-carry taken from the complement of the native C flag (the
  sub path, when flags are requested, and the compare).  The generators that emit a call
  out to the host are the ten of the source: the memory accessors in \<open>READ\<close>, \<open>READM\<close>,
  \<open>WRITE\<close>, \<open>WRITEM\<close>, \<open>FREAD\<close> and \<open>FWRITE\<close>, a C function in \<open>CALLC\<close>,
  \<open>osd_break_into_debugger\<close> in \<open>BREAK\<close>, the map variable lookup in \<open>RECOVER\<close>, and the
  debugger hook in \<open>DEBUG\<close>, which emits code only when the debugger is enabled.
\<close>

theorem carry_state_tracking:
  assumes "generate_insts env (pre @ [inst]) g0 = Some g'"
  shows "(i_opcode inst \<in> {OP_CALLC, OP_READ, OP_READM, OP_WRITE, OP_WRITEM, OP_FREAD,
                            OP_FWRITE, OP_BREAK, OP_RECOVER}
            \<longrightarrow> m_carry_state g' = POISON)
       \<and> (i_opcode inst = OP_DEBUG \<and> debug_enabled env \<longrightarrow> m_carry_state g' = POISON)
       \<and> (i_opcode inst \<in> {OP_ADD, OP_ADDC} \<and> i_flags inst \<noteq> 0
            \<longrightarrow> m_carry_state g' = CANONICAL)
       \<and> (i_opcode inst \<in> {OP_SUB, OP_SUBB} \<and> i_flags inst \<noteq> 0
            \<longrightarrow> m_carry_state g' = LOGICAL)
       \<and> (i_opcode inst = OP_CMP \<longrightarrow> m_carry_state g' = LOGICAL)
       \<and> m_carry_state (store_carry False g) = CANONICAL
       \<and> m_carry_state (store_carry True g) = LOGICAL"
proof -
  obtain g1 where t: "s_opcode_table (i_opcode inst) env inst g1 = Some g'"
    using generate_insts_snoc[OF assms] by blast
  have c1: "i_opcode inst = OP_CALLC \<Longrightarrow> m_carry_state g' = POISON"
    using t op_callc_carry[of env inst g1 g'] by (simp add: s_opcode_table_def)
  have c2: "i_opcode inst = OP_READ \<Longrightarrow> m_carry_state g' = POISON"
    using t op_read_carry[of env inst g1 g'] by (simp add: s_opcode_table_def)
  have c3: "i_opcode inst = OP_WRITE \<Longrightarrow> m_carry_state g' = POISON"
    using t op_write_carry[of env inst g1 g'] by (simp add: s_opcode_table_def)
  have c4: "i_opcode inst = OP_DEBUG \<Longrightarrow> debug_enabled env \<Longrightarrow> m_carry_state g' = POISON"
    using t op_debug_carry[of env inst g1 g'] by (simp add: s_opcode_table_def)
  have d1: "i_opcode inst = OP_READM \<Longrightarrow> m_carry_state g' = POISON"
    using t op_readm_carry[of env inst g1 g'] by (simp add: s_opcode_table_def)
  have d2: "i_opcode inst = OP_WRITEM \<Longrightarrow> m_carry_state g' = POISON"
    using t op_writem_carry[of env inst g1 g'] by (simp add: s_opcode_table_def)
  have d3: "i_opcode inst = OP_FREAD \<Longrightarrow> m_carry_state g' = POISON"
    using t op_fread_carry[of env inst g1 g'] by (simp add: s_opcode_table_def)
  have d4: "i_opcode inst = OP_FWRITE \<Longrightarrow> m_carry_state g' = POISON"
    using t op_fwrite_carry[of env inst g1 g'] by (simp add: s_opcode_table_def)
  have d5: "i_opcode inst = OP_BREAK \<Longrightarrow> m_carry_state g' = POISON"
    using t op_break_carry[of env inst g1 g'] by (simp add: s_opcode_table_def)
  have d6: "i_opcode inst = OP_RECOVER \<Longrightarrow> m_carry_state g' = POISON"
    using t op_recover_carry[of env inst g1 g'] by (simp add: s_opcode_table_def)
  have c5: "i_opcode inst = OP_ADD \<Longrightarrow> i_flags inst \<noteq> 0 \<Longrightarrow> m_carry_state g' = CANONICAL"
    using t op_add_carry[of False env inst g1 g'] by (simp add: s_opcode_table_def)
  have c6: "i_opcode inst = OP_ADDC \<Longrightarrow> i_flags inst \<noteq> 0 \<Longrightarrow> m_carry_state g' = CANONICAL"
    using t op_add_carry[of True env inst g1 g'] by (simp add: s_opcode_table_def)
  have c7: "i_opcode inst = OP_SUB \<Longrightarrow> i_flags inst \<noteq> 0 \<Longrightarrow> m_carry_state g' = LOGICAL"
    using t op_sub_carry[of False env inst g1 g'] by (simp add: s_opcode_table_def)
  have c8: "i_opcode inst = OP_SUBB \<Longrightarrow> i_flags inst \<noteq> 0 \<Longrightarrow> m_carry_state g' = LOGICAL"
    using t op_sub_carry[of True env inst g1 g'] by (simp add: s_opcode_table_def)
  have c9: "i_opcode inst = OP_CMP \<Longrightarrow> m_carry_state g' = LOGICAL"
    using t op_cmp_carry[of env inst g1 g'] by (simp add: s_opcode_table_def)
  show ?thesis
    using c1 c2 c3 c4 d1 d2 d3 d4 d5 d6 c5 c6 c7 c8 c9 by auto
qed

theorem carry_state_tracking_witness:
  "(\<exists>g'. generate_insts witness_env ([add_example] @ [callc_example]) start_gen = Some g'
         \<and> m_carry_state g' = POISON)
   \<and> (\<exists>g'. generate_insts witness_env ([cmp_example] @ [add_example]) start_gen = Some g'
         \<and> m_carry_state g' = CANONICAL)
   \<and> (\<exists>g'. generate_insts witness_env ([add_example] @ [cmp_example]) start_gen = Some g'
         \<and> m_carry_state g' = LOGICAL)
   \<and> (\<exists>g'. generate_insts witness_env ([add_example] @ [break_example]) start_gen = Some g'
         \<and> m_carry_state g' = POISON)"
proof -
  have o: "i_opcode callc_example = OP_CALLC" "i_opcode add_example = OP_ADD"
    "i_opcode cmp_example = OP_CMP" "i_flags add_example \<noteq> 0"
    "i_opcode break_example = OP_BREAK"
    by (simp_all add: callc_example_def add_example_def cmp_example_def break_example_def
        uml_inst_def flag_defs)
  obtain gb where a': "op_add False witness_env add_example start_gen = Some gb"
    and b': "\<exists>g4. op_break witness_env break_example gb = Some g4"
  proof -
    have "op_add False witness_env add_example start_gen \<noteq> None" by code_simp
    then obtain gb where "op_add False witness_env add_example start_gen = Some gb" by auto
    moreover have "\<exists>g4. op_break witness_env break_example gb = Some g4"
      using op_break_Some[of break_example witness_env gb]
      by (auto simp add: break_example_def uml_inst_def)
    ultimately show ?thesis using that by blast
  qed
  obtain g4 where b: "op_break witness_env break_example gb = Some g4" using b' by blast
  have h4: "generate_insts witness_env ([add_example] @ [break_example]) start_gen = Some g4"
    using a' b o by (simp add: s_opcode_table_def)
  have r4: "m_carry_state g4 = POISON" using carry_state_tracking [OF h4] o by simp
  have "op_add False witness_env add_example start_gen \<noteq> None" by code_simp
  then obtain ga where a: "op_add False witness_env add_example start_gen = Some ga" by auto
  obtain g1 where c: "op_callc witness_env callc_example ga = Some g1"
    using op_callc_Some[of callc_example _ _ witness_env ga]
    by (auto simp add: callc_example_def uml_inst_def)
  have h1: "generate_insts witness_env ([add_example] @ [callc_example]) start_gen = Some g1"
    using a c o by (simp add: s_opcode_table_def)
  have "generate_insts witness_env ([cmp_example] @ [add_example]) start_gen \<noteq> None"
    by code_simp
  then obtain g2 where
    h2: "generate_insts witness_env ([cmp_example] @ [add_example]) start_gen = Some g2"
    by auto
  have "generate_insts witness_env ([add_example] @ [cmp_example]) start_gen \<noteq> None"
    by code_simp
  then obtain g3 where
    h3: "generate_insts witness_env ([add_example] @ [cmp_example]) start_gen = Some g3"
    by auto
  have r1: "m_carry_state g1 = POISON" using carry_state_tracking [OF h1] o by simp
  have r2: "m_carry_state g2 = CANONICAL" using carry_state_tracking [OF h2] o by simp
  have r3: "m_carry_state g3 = LOGICAL" using carry_state_tracking [OF h3] o by simp
  show ?thesis
    using h1 h2 h3 h4 r1 r2 r3 r4 by blast
qed

subsection \<open>Committing the code to the cache\<close>

lemma codeSize_pos:
  "0 < codeSize env \<lparr>ch_baseAddress = b, ch_code = c @ [Inst kIdB [OImm a]], ch_copy_error = e\<rparr>"
  by (simp add: codeSize_def inst_bytes_def)




subsection \<open>Shifts, rotates and compares with an empty flag mask\<close>

lemma flags_frame_refl [simp]: "flags_frame R s s"
  by (simp add: flags_frame_def same_flags_def)










lemma scratch12 [simp]: "gp_id SCRATCH_REG1 = 12"
  by (simp add: reg_defs)

lemma emitted_emits_poison [simp]:
  "emitted g (emits c (g\<lparr>m_carry_state := cs\<rparr>)) = c"
  by (simp add: emitted_def)






lemma flag_safe_Nil [simp]: "flag_safe M env []"
  by (simp add: flag_safe_def)









lemma flag_safe_gen_refl [simp]: "flag_safe_gen M env g g"
  by (simp add: flag_safe_gen_def)









lemma work_regs_temps [simp]:
  "gp_id TEMP_REG1 \<in> work_regs" "gp_id TEMP_REG2 \<in> work_regs" "gp_id TEMP_REG3 \<in> work_regs"
  "gp_id SCRATCH_REG1 \<in> work_regs" "gp_id FUNC_SCRATCH_REG \<in> work_regs"
  "gp_id TEMP_REG3 \<noteq> 14" "gp_id REG_PARAM1 \<noteq> 14" "12 \<in> work_regs"
  by (simp_all add: work_regs_def reg_defs)



lemma ptype_no_float [simp]: "PTYPE_MR AND PTYPE_F = 0" "PTYPE_MRI AND PTYPE_F = 0"
  by (simp_all add: ptype_defs)



lemma param_flags_upd [simp]: "param (inst\<lparr>i_flags := f\<rparr>) n = param inst n"
  by (simp add: param_def)






lemma empty_mask_opcodes [simp]:
  "i_opcode shl_empty_mask = OP_SHL" "i_opcode cmp_empty_mask = OP_CMP"
  "i_flags shl_empty_mask = 0" "i_flags cmp_empty_mask = 0"
  by (simp_all add: shl_empty_mask_def cmp_empty_mask_def uml_inst_def)










end
